theory Spec2Isabelle
  imports Main "HOL-Library.Sublist" "HOL-Library.Char_ord" "HOL-Library.List_Lexorder"
    "HOL-Library.AList"
begin

section \<open>Strings\<close>

text \<open>
  A Python \<^verbatim>\<open>str\<close> is modelled as a \<^typ>\<open>string\<close> holding the UTF-8 bytes of
  its text. Every comparison, search and replacement the analyzer and the builder make
  uses ASCII patterns, and on valid UTF-8 these act on bytes exactly as they act on code
  points. The Russian text of the source's literals is written as its UTF-8 bytes
  (\<open>CHR 0xD0, CHR 0x9D\<close> is the Cyrillic capital En). Python's \<^verbatim>\<open>sorted\<close> on
  strings compares code points, which is the lexicographic order of the UTF-8 bytes
  (\<^theory_text>\<open>Char_ord\<close>, \<^theory_text>\<open>List_Lexorder\<close>).
\<close>

text \<open>\<^verbatim>\<open>s.replace(a, b)\<close> for one-character \<open>a\<close> and \<open>b\<close>.\<close>

definition replace_char :: "char \<Rightarrow> char \<Rightarrow> string \<Rightarrow> string" where
  "replace_char a b s = map (\<lambda>c. if c = a then b else c) s"

section \<open>Data model (core/models.py, model.py)\<close>

text \<open>
  The pydantic models become records. Field names carry a prefix where two models share
  a name (\<^verbatim>\<open>name\<close>, \<^verbatim>\<open>stage\<close>) or where the name is taken in HOL
  (\<^verbatim>\<open>image\<close>, \<^verbatim>\<open>context\<close>, \<^verbatim>\<open>when\<close>). A Python \<^verbatim>\<open>dict\<close> keeps
  insertion order, so it is an association list: \<open>AList.update\<close> overwrites a key in
  place and appends a new key, as \<^verbatim>\<open>d[k] = v\<close> does.
\<close>

record DockerfileInfo =
  df_path :: string
  df_context :: string
  df_name :: string
  df_kind :: "string option"

type_synonym str_dict = "(string \<times> string) list"

record StackInfo =
  languages :: "string list"
  frameworks :: "string list"
  package_managers :: "string list"
  has_dockerfile :: bool
  has_docker_compose :: bool
  has_k8s_manifests :: bool
  dependencies :: "(string \<times> str_dict) list"
  language_versions :: str_dict
  framework_versions :: str_dict
  dockerfiles :: "DockerfileInfo list"

text \<open>\<^verbatim>\<open>StackInfo()\<close>: every field at its default.\<close>

definition StackInfo_default :: StackInfo where
  "StackInfo_default =
     \<lparr>languages = [], frameworks = [], package_managers = [], has_dockerfile = False,
      has_docker_compose = False, has_k8s_manifests = False, dependencies = [],
      language_versions = [], framework_versions = [], dockerfiles = []\<rparr>"

record Job =
  job_name :: string
  job_stage :: string
  job_image :: "string option"
  job_script :: "string list"
  job_artifacts :: "string list option"
  job_only_branches :: "string list option"
  job_tags :: "string list option"
  job_when :: "string option"
  job_environment :: "string option"
  job_dockerfile_path :: "string option"
  job_docker_context :: "string option"
  job_image_name :: "string option"

record Pipeline =
  stages :: "string list"
  jobs :: "Job list"

text \<open>
  \<^verbatim>\<open>Job(name=..., stage=..., image=..., script=...)\<close>: the fields a call does not
  give keep their default \<^verbatim>\<open>None\<close>.
\<close>

definition new_job :: "string \<Rightarrow> string \<Rightarrow> string option \<Rightarrow> string list \<Rightarrow> Job" where
  "new_job n st img scr =
     \<lparr>job_name = n, job_stage = st, job_image = img, job_script = scr,
      job_artifacts = None, job_only_branches = None, job_tags = None, job_when = None,
      job_environment = None, job_dockerfile_path = None, job_docker_context = None,
      job_image_name = None\<rparr>"

section \<open>The pipeline builder (core/services/builders/pipeline.py)\<close>

text \<open>
  \<^verbatim>\<open>build_pipeline\<close> mutates three local lists, \<^verbatim>\<open>stages\<close>, \<^verbatim>\<open>jobs\<close> and
  \<^verbatim>\<open>warnings\<close>; the model passes them along as a record. The \<^verbatim>\<open>logs\<close> list and
  the console output (\<^verbatim>\<open>click.echo\<close>) are diagnostics that no later step reads;
  they are left out. Each block of \<^verbatim>\<open>build_pipeline\<close> between two of its section
  comments is one definition, applied in the source's order.
\<close>

record builder =
  b_stages :: "string list"
  b_jobs :: "Job list"
  b_warnings :: "string list"

definition ensure_stage :: "string list \<Rightarrow> string \<Rightarrow> string list" where
  "ensure_stage stgs stage = (if stage \<notin> set stgs then stgs @ [stage] else stgs)"

definition register :: "string \<Rightarrow> builder \<Rightarrow> builder" where
  "register stage b = b\<lparr>b_stages := ensure_stage (b_stages b) stage\<rparr>"

definition append_job :: "Job \<Rightarrow> builder \<Rightarrow> builder" where
  "append_job j b = b\<lparr>b_jobs := b_jobs b @ [j]\<rparr>"

definition append_warning :: "string \<Rightarrow> builder \<Rightarrow> builder" where
  "append_warning w b = b\<lparr>b_warnings := b_warnings b @ [w]\<rparr>"

definition has_node :: "StackInfo \<Rightarrow> bool" where
  "has_node stack =
     (if list_ex (\<lambda>lang. lang \<in> set [''javascript'', ''typescript'']) (languages stack)
      then True
      else if list_ex (\<lambda>fw. fw \<in> set [''vue'', ''react'', ''angular'', ''express'', ''nestjs''])
                (frameworks stack)
      then True
      else False)"

definition node_pm :: "StackInfo \<Rightarrow> string" where
  "node_pm stack =
     (if ''yarn'' \<in> set (package_managers stack) then ''yarn''
      else if ''pnpm'' \<in> set (package_managers stack) then ''pnpm''
      else ''npm'')"

subsection \<open>Script and warning literals\<close>

definition python_test_script :: "string list" where
  \<open>python_test_script =
    [''if [ -f requirements.txt ]; then python -m pip install -r requirements.txt; else echo 'requirements.txt ''
       @ [CHR 0xD0, CHR 0xBD, CHR 0xD0, CHR 0xB5, CHR 0x20, CHR 0xD0, CHR 0xBD, CHR 0xD0,
       CHR 0xB0, CHR 0xD0, CHR 0xB9, CHR 0xD0, CHR 0xB4, CHR 0xD0, CHR 0xB5, CHR 0xD0, CHR 0xBD,
       CHR 0x20, CHR 0xE2, CHR 0x80, CHR 0x94, CHR 0x20, CHR 0xD0, CHR 0xBF, CHR 0xD1, CHR 0x80,
       CHR 0xD0, CHR 0xBE, CHR 0xD0, CHR 0xBF, CHR 0xD1, CHR 0x83, CHR 0xD1, CHR 0x81, CHR 0xD0,
       CHR 0xBA, CHR 0xD0, CHR 0xB0, CHR 0xD0, CHR 0xB5, CHR 0xD0, CHR 0xBC, CHR 0x20, CHR 0xD1,
       CHR 0x83, CHR 0xD1, CHR 0x81, CHR 0xD1, CHR 0x82, CHR 0xD0, CHR 0xB0, CHR 0xD0, CHR 0xBD,
       CHR 0xD0, CHR 0xBE, CHR 0xD0, CHR 0xB2, CHR 0xD0, CHR 0xBA, CHR 0xD1, CHR 0x83, CHR 0x20,
       CHR 0xD0, CHR 0xB7, CHR 0xD0, CHR 0xB0, CHR 0xD0, CHR 0xB2, CHR 0xD0, CHR 0xB8, CHR 0xD1,
       CHR 0x81, CHR 0xD0, CHR 0xB8, CHR 0xD0, CHR 0xBC, CHR 0xD0, CHR 0xBE, CHR 0xD1, CHR 0x81,
       CHR 0xD1, CHR 0x82, CHR 0xD0, CHR 0xB5, CHR 0xD0, CHR 0xB9] @ '''; fi'',
     ''python -m pip install pytest || true'',
     ''pytest || echo 'pytest '' @ [CHR 0xD0, CHR 0xBD, CHR 0xD0, CHR 0xB5, CHR 0x20,
       CHR 0xD0, CHR 0xBD, CHR 0xD0, CHR 0xB0, CHR 0xD1, CHR 0x81, CHR 0xD1, CHR 0x82, CHR 0xD1,
       CHR 0x80, CHR 0xD0, CHR 0xBE, CHR 0xD0, CHR 0xB5, CHR 0xD0, CHR 0xBD, CHR 0x20, CHR 0xD0,
       CHR 0xB8, CHR 0xD0, CHR 0xBB, CHR 0xD0, CHR 0xB8, CHR 0x20, CHR 0xD1, CHR 0x82, CHR 0xD0,
       CHR 0xB5, CHR 0xD1, CHR 0x81, CHR 0xD1, CHR 0x82, CHR 0xD1, CHR 0x8B, CHR 0x20, CHR 0xD0,
       CHR 0xBE, CHR 0xD1, CHR 0x82, CHR 0xD1, CHR 0x81, CHR 0xD1, CHR 0x83, CHR 0xD1, CHR 0x82,
       CHR 0xD1, CHR 0x81, CHR 0xD1, CHR 0x82, CHR 0xD0, CHR 0xB2, CHR 0xD1, CHR 0x83, CHR 0xD1,
       CHR 0x8E, CHR 0xD1, CHR 0x82, CHR 0x20, CHR 0xE2, CHR 0x80, CHR 0x94, CHR 0x20, CHR 0xD0,
       CHR 0xBE, CHR 0xD1, CHR 0x82, CHR 0xD1, CHR 0x80, CHR 0xD0, CHR 0xB5, CHR 0xD0, CHR 0xB4,
       CHR 0xD0, CHR 0xB0, CHR 0xD0, CHR 0xBA, CHR 0xD1, CHR 0x82, CHR 0xD0, CHR 0xB8, CHR 0xD1,
       CHR 0x80, CHR 0xD1, CHR 0x83, CHR 0xD0, CHR 0xB9, CHR 0xD1, CHR 0x82, CHR 0xD0, CHR 0xB5,
       CHR 0x20, CHR 0xD0, CHR 0xBA, CHR 0xD0, CHR 0xBE, CHR 0xD0, CHR 0xBC, CHR 0xD0, CHR 0xB0,
       CHR 0xD0, CHR 0xBD, CHR 0xD0, CHR 0xB4, CHR 0xD1, CHR 0x83] @ [CHR 0x27]]\<close>

definition python_lint_script :: "string list" where
  \<open>python_lint_script =
    [''python -m pip install flake8 || echo 'flake8 '' @ [CHR 0xD0, CHR 0xBD, CHR 0xD0,
       CHR 0xB5, CHR 0x20, CHR 0xD1, CHR 0x83, CHR 0xD1, CHR 0x81, CHR 0xD1, CHR 0x82, CHR 0xD0,
       CHR 0xB0, CHR 0xD0, CHR 0xBD, CHR 0xD0, CHR 0xBE, CHR 0xD0, CHR 0xB2, CHR 0xD0, CHR 0xBB,
       CHR 0xD0, CHR 0xB5, CHR 0xD0, CHR 0xBD] @ [CHR 0x27],
     ''flake8 . || echo 'flake8 '' @ [CHR 0xD0, CHR 0xBD, CHR 0xD0, CHR 0xB0, CHR 0xD1,
       CHR 0x88, CHR 0xD1, CHR 0x91, CHR 0xD0, CHR 0xBB, CHR 0x20, CHR 0xD0, CHR 0xB7, CHR 0xD0,
       CHR 0xB0, CHR 0xD0, CHR 0xBC, CHR 0xD0, CHR 0xB5, CHR 0xD1, CHR 0x87, CHR 0xD0, CHR 0xB0,
       CHR 0xD0, CHR 0xBD, CHR 0xD0, CHR 0xB8, CHR 0xD1, CHR 0x8F, CHR 0x20, CHR 0xD0, CHR 0xB8,
       CHR 0xD0, CHR 0xBB, CHR 0xD0, CHR 0xB8, CHR 0x20, CHR 0xD0, CHR 0xBD, CHR 0xD0, CHR 0xB5,
       CHR 0x20, CHR 0xD0, CHR 0xBD, CHR 0xD0, CHR 0xB0, CHR 0xD1, CHR 0x81, CHR 0xD1, CHR 0x82,
       CHR 0xD1, CHR 0x80, CHR 0xD0, CHR 0xBE, CHR 0xD0, CHR 0xB5, CHR 0xD0, CHR 0xBD, CHR 0x20,
       CHR 0xE2, CHR 0x80, CHR 0x94, CHR 0x20, CHR 0xD0, CHR 0xBE, CHR 0xD1, CHR 0x82, CHR 0xD1,
       CHR 0x80, CHR 0xD0, CHR 0xB5, CHR 0xD0, CHR 0xB4, CHR 0xD0, CHR 0xB0, CHR 0xD0, CHR 0xBA,
       CHR 0xD1, CHR 0x82, CHR 0xD0, CHR 0xB8, CHR 0xD1, CHR 0x80, CHR 0xD1, CHR 0x83, CHR 0xD0,
       CHR 0xB9, CHR 0xD1, CHR 0x82, CHR 0xD0, CHR 0xB5, CHR 0x20, CHR 0xD0, CHR 0xBA, CHR 0xD0,
       CHR 0xBE, CHR 0xD0, CHR 0xBC, CHR 0xD0, CHR 0xB0, CHR 0xD0, CHR 0xBD, CHR 0xD0, CHR 0xB4,
       CHR 0xD1, CHR 0x83] @ [CHR 0x27]]\<close>

text \<open>
  The four commands of the Node block, chosen by package manager:
  (\<^verbatim>\<open>install_cmd\<close>, \<^verbatim>\<open>test_cmd\<close>, \<^verbatim>\<open>build_cmd\<close>, \<^verbatim>\<open>lint_cmd\<close>).
\<close>

definition node_cmds :: "string \<Rightarrow> string \<times> string \<times> string \<times> string" where
  \<open>node_cmds pm =
    (if pm = ''yarn'' then
       (''corepack enable || npm i -g yarn; yarn install --frozen-lockfile || yarn install'',
        ''yarn test || echo 'yarn test '' @ [CHR 0xD0, CHR 0xBD, CHR 0xD0, CHR 0xB5, CHR 0x20,
          CHR 0xD0, CHR 0xBD, CHR 0xD0, CHR 0xB0, CHR 0xD1, CHR 0x81, CHR 0xD1, CHR 0x82,
          CHR 0xD1, CHR 0x80, CHR 0xD0, CHR 0xBE, CHR 0xD0, CHR 0xB5, CHR 0xD0, CHR 0xBD,
          CHR 0x20, CHR 0xE2, CHR 0x80, CHR 0x94, CHR 0x20, CHR 0xD0, CHR 0xBE, CHR 0xD1,
          CHR 0x82, CHR 0xD1, CHR 0x80, CHR 0xD0, CHR 0xB5, CHR 0xD0, CHR 0xB4, CHR 0xD0,
          CHR 0xB0, CHR 0xD0, CHR 0xBA, CHR 0xD1, CHR 0x82, CHR 0xD0, CHR 0xB8, CHR 0xD1,
          CHR 0x80, CHR 0xD1, CHR 0x83, CHR 0xD0, CHR 0xB9, CHR 0xD1, CHR 0x82, CHR 0xD0,
          CHR 0xB5, CHR 0x20, CHR 0xD0, CHR 0xBA, CHR 0xD0, CHR 0xBE, CHR 0xD0, CHR 0xBC,
          CHR 0xD0, CHR 0xB0, CHR 0xD0, CHR 0xBD, CHR 0xD0, CHR 0xB4, CHR 0xD1, CHR 0x83]
          @ [CHR 0x27],
        ''yarn build || echo 'yarn build '' @ [CHR 0xD0, CHR 0xBD, CHR 0xD0, CHR 0xB5,
          CHR 0x20, CHR 0xD0, CHR 0xBD, CHR 0xD0, CHR 0xB0, CHR 0xD1, CHR 0x81, CHR 0xD1,
          CHR 0x82, CHR 0xD1, CHR 0x80, CHR 0xD0, CHR 0xBE, CHR 0xD0, CHR 0xB5, CHR 0xD0,
          CHR 0xBD, CHR 0x20, CHR 0xE2, CHR 0x80, CHR 0x94, CHR 0x20, CHR 0xD0, CHR 0xBE,
          CHR 0xD1, CHR 0x82, CHR 0xD1, CHR 0x80, CHR 0xD0, CHR 0xB5, CHR 0xD0, CHR 0xB4,
          CHR 0xD0, CHR 0xB0, CHR 0xD0, CHR 0xBA, CHR 0xD1, CHR 0x82, CHR 0xD0, CHR 0xB8,
          CHR 0xD1, CHR 0x80, CHR 0xD1, CHR 0x83, CHR 0xD0, CHR 0xB9, CHR 0xD1, CHR 0x82,
          CHR 0xD0, CHR 0xB5, CHR 0x20, CHR 0xD0, CHR 0xBA, CHR 0xD0, CHR 0xBE, CHR 0xD0,
          CHR 0xBC, CHR 0xD0, CHR 0xB0, CHR 0xD0, CHR 0xBD, CHR 0xD0, CHR 0xB4, CHR 0xD1,
          CHR 0x83] @ [CHR 0x27],
        ''yarn lint || echo 'yarn lint '' @ [CHR 0xD0, CHR 0xBD, CHR 0xD0, CHR 0xB5, CHR 0x20,
          CHR 0xD0, CHR 0xBD, CHR 0xD0, CHR 0xB0, CHR 0xD1, CHR 0x81, CHR 0xD1, CHR 0x82,
          CHR 0xD1, CHR 0x80, CHR 0xD0, CHR 0xBE, CHR 0xD0, CHR 0xB5, CHR 0xD0, CHR 0xBD,
          CHR 0x20, CHR 0xE2, CHR 0x80, CHR 0x94, CHR 0x20, CHR 0xD0, CHR 0xBE, CHR 0xD1,
          CHR 0x82, CHR 0xD1, CHR 0x80, CHR 0xD0, CHR 0xB5, CHR 0xD0, CHR 0xB4, CHR 0xD0,
          CHR 0xB0, CHR 0xD0, CHR 0xBA, CHR 0xD1, CHR 0x82, CHR 0xD0, CHR 0xB8, CHR 0xD1,
          CHR 0x80, CHR 0xD1, CHR 0x83, CHR 0xD0, CHR 0xB9, CHR 0xD1, CHR 0x82, CHR 0xD0,
          CHR 0xB5, CHR 0x20, CHR 0xD0, CHR 0xBA, CHR 0xD0, CHR 0xBE, CHR 0xD0, CHR 0xBC,
          CHR 0xD0, CHR 0xB0, CHR 0xD0, CHR 0xBD, CHR 0xD0, CHR 0xB4, CHR 0xD1, CHR 0x83]
          @ [CHR 0x27])
     else if pm = ''pnpm'' then
       (''corepack enable || npm i -g pnpm; pnpm install'',
        ''pnpm test || echo 'pnpm test '' @ [CHR 0xD0, CHR 0xBD, CHR 0xD0, CHR 0xB5, CHR 0x20,
          CHR 0xD0, CHR 0xBD, CHR 0xD0, CHR 0xB0, CHR 0xD1, CHR 0x81, CHR 0xD1, CHR 0x82,
          CHR 0xD1, CHR 0x80, CHR 0xD0, CHR 0xBE, CHR 0xD0, CHR 0xB5, CHR 0xD0, CHR 0xBD,
          CHR 0x20, CHR 0xE2, CHR 0x80, CHR 0x94, CHR 0x20, CHR 0xD0, CHR 0xBE, CHR 0xD1,
          CHR 0x82, CHR 0xD1, CHR 0x80, CHR 0xD0, CHR 0xB5, CHR 0xD0, CHR 0xB4, CHR 0xD0,
          CHR 0xB0, CHR 0xD0, CHR 0xBA, CHR 0xD1, CHR 0x82, CHR 0xD0, CHR 0xB8, CHR 0xD1,
          CHR 0x80, CHR 0xD1, CHR 0x83, CHR 0xD0, CHR 0xB9, CHR 0xD1, CHR 0x82, CHR 0xD0,
          CHR 0xB5, CHR 0x20, CHR 0xD0, CHR 0xBA, CHR 0xD0, CHR 0xBE, CHR 0xD0, CHR 0xBC,
          CHR 0xD0, CHR 0xB0, CHR 0xD0, CHR 0xBD, CHR 0xD0, CHR 0xB4, CHR 0xD1, CHR 0x83]
          @ [CHR 0x27],
        ''pnpm build || echo 'pnpm build '' @ [CHR 0xD0, CHR 0xBD, CHR 0xD0, CHR 0xB5,
          CHR 0x20, CHR 0xD0, CHR 0xBD, CHR 0xD0, CHR 0xB0, CHR 0xD1, CHR 0x81, CHR 0xD1,
          CHR 0x82, CHR 0xD1, CHR 0x80, CHR 0xD0, CHR 0xBE, CHR 0xD0, CHR 0xB5, CHR 0xD0,
          CHR 0xBD, CHR 0x20, CHR 0xE2, CHR 0x80, CHR 0x94, CHR 0x20, CHR 0xD0, CHR 0xBE,
          CHR 0xD1, CHR 0x82, CHR 0xD1, CHR 0x80, CHR 0xD0, CHR 0xB5, CHR 0xD0, CHR 0xB4,
          CHR 0xD0, CHR 0xB0, CHR 0xD0, CHR 0xBA, CHR 0xD1, CHR 0x82, CHR 0xD0, CHR 0xB8,
          CHR 0xD1, CHR 0x80, CHR 0xD1, CHR 0x83, CHR 0xD0, CHR 0xB9, CHR 0xD1, CHR 0x82,
          CHR 0xD0, CHR 0xB5, CHR 0x20, CHR 0xD0, CHR 0xBA, CHR 0xD0, CHR 0xBE, CHR 0xD0,
          CHR 0xBC, CHR 0xD0, CHR 0xB0, CHR 0xD0, CHR 0xBD, CHR 0xD0, CHR 0xB4, CHR 0xD1,
          CHR 0x83] @ [CHR 0x27],
        ''pnpm lint || echo 'pnpm lint '' @ [CHR 0xD0, CHR 0xBD, CHR 0xD0, CHR 0xB5, CHR 0x20,
          CHR 0xD0, CHR 0xBD, CHR 0xD0, CHR 0xB0, CHR 0xD1, CHR 0x81, CHR 0xD1, CHR 0x82,
          CHR 0xD1, CHR 0x80, CHR 0xD0, CHR 0xBE, CHR 0xD0, CHR 0xB5, CHR 0xD0, CHR 0xBD,
          CHR 0x20, CHR 0xE2, CHR 0x80, CHR 0x94, CHR 0x20, CHR 0xD0, CHR 0xBE, CHR 0xD1,
          CHR 0x82, CHR 0xD1, CHR 0x80, CHR 0xD0, CHR 0xB5, CHR 0xD0, CHR 0xB4, CHR 0xD0,
          CHR 0xB0, CHR 0xD0, CHR 0xBA, CHR 0xD1, CHR 0x82, CHR 0xD0, CHR 0xB8, CHR 0xD1,
          CHR 0x80, CHR 0xD1, CHR 0x83, CHR 0xD0, CHR 0xB9, CHR 0xD1, CHR 0x82, CHR 0xD0,
          CHR 0xB5, CHR 0x20, CHR 0xD0, CHR 0xBA, CHR 0xD0, CHR 0xBE, CHR 0xD0, CHR 0xBC,
          CHR 0xD0, CHR 0xB0, CHR 0xD0, CHR 0xBD, CHR 0xD0, CHR 0xB4, CHR 0xD1, CHR 0x83]
          @ [CHR 0x27])
     else
       (''npm ci || npm install'',
        ''npm test || echo 'npm test '' @ [CHR 0xD0, CHR 0xBD, CHR 0xD0, CHR 0xB5, CHR 0x20,
          CHR 0xD0, CHR 0xBD, CHR 0xD0, CHR 0xB0, CHR 0xD1, CHR 0x81, CHR 0xD1, CHR 0x82,
          CHR 0xD1, CHR 0x80, CHR 0xD0, CHR 0xBE, CHR 0xD0, CHR 0xB5, CHR 0xD0, CHR 0xBD,
          CHR 0x20, CHR 0xE2, CHR 0x80, CHR 0x94, CHR 0x20, CHR 0xD0, CHR 0xBE, CHR 0xD1,
          CHR 0x82, CHR 0xD1, CHR 0x80, CHR 0xD0, CHR 0xB5, CHR 0xD0, CHR 0xB4, CHR 0xD0,
          CHR 0xB0, CHR 0xD0, CHR 0xBA, CHR 0xD1, CHR 0x82, CHR 0xD0, CHR 0xB8, CHR 0xD1,
          CHR 0x80, CHR 0xD1, CHR 0x83, CHR 0xD0, CHR 0xB9, CHR 0xD1, CHR 0x82, CHR 0xD0,
          CHR 0xB5, CHR 0x20, CHR 0xD0, CHR 0xBA, CHR 0xD0, CHR 0xBE, CHR 0xD0, CHR 0xBC,
          CHR 0xD0, CHR 0xB0, CHR 0xD0, CHR 0xBD, CHR 0xD0, CHR 0xB4, CHR 0xD1, CHR 0x83]
          @ [CHR 0x27],
        ''npm run build || echo 'npm run build '' @ [CHR 0xD0, CHR 0xBD, CHR 0xD0, CHR 0xB5,
          CHR 0x20, CHR 0xD0, CHR 0xBD, CHR 0xD0, CHR 0xB0, CHR 0xD1, CHR 0x81, CHR 0xD1,
          CHR 0x82, CHR 0xD1, CHR 0x80, CHR 0xD0, CHR 0xBE, CHR 0xD0, CHR 0xB5, CHR 0xD0,
          CHR 0xBD, CHR 0x20, CHR 0xE2, CHR 0x80, CHR 0x94, CHR 0x20, CHR 0xD0, CHR 0xBE,
          CHR 0xD1, CHR 0x82, CHR 0xD1, CHR 0x80, CHR 0xD0, CHR 0xB5, CHR 0xD0, CHR 0xB4,
          CHR 0xD0, CHR 0xB0, CHR 0xD0, CHR 0xBA, CHR 0xD1, CHR 0x82, CHR 0xD0, CHR 0xB8,
          CHR 0xD1, CHR 0x80, CHR 0xD1, CHR 0x83, CHR 0xD0, CHR 0xB9, CHR 0xD1, CHR 0x82,
          CHR 0xD0, CHR 0xB5, CHR 0x20, CHR 0xD0, CHR 0xBA, CHR 0xD0, CHR 0xBE, CHR 0xD0,
          CHR 0xBC, CHR 0xD0, CHR 0xB0, CHR 0xD0, CHR 0xBD, CHR 0xD0, CHR 0xB4, CHR 0xD1,
          CHR 0x83] @ [CHR 0x27],
        ''npm run lint || echo 'npm run lint '' @ [CHR 0xD0, CHR 0xBD, CHR 0xD0, CHR 0xB5,
          CHR 0x20, CHR 0xD0, CHR 0xBD, CHR 0xD0, CHR 0xB0, CHR 0xD1, CHR 0x81, CHR 0xD1,
          CHR 0x82, CHR 0xD1, CHR 0x80, CHR 0xD0, CHR 0xBE, CHR 0xD0, CHR 0xB5, CHR 0xD0,
          CHR 0xBD, CHR 0x20, CHR 0xE2, CHR 0x80, CHR 0x94, CHR 0x20, CHR 0xD0, CHR 0xBE,
          CHR 0xD1, CHR 0x82, CHR 0xD1, CHR 0x80, CHR 0xD0, CHR 0xB5, CHR 0xD0, CHR 0xB4,
          CHR 0xD0, CHR 0xB0, CHR 0xD0, CHR 0xBA, CHR 0xD1, CHR 0x82, CHR 0xD0, CHR 0xB8,
          CHR 0xD1, CHR 0x80, CHR 0xD1, CHR 0x83, CHR 0xD0, CHR 0xB9, CHR 0xD1, CHR 0x82,
          CHR 0xD0, CHR 0xB5, CHR 0x20, CHR 0xD0, CHR 0xBA, CHR 0xD0, CHR 0xBE, CHR 0xD0,
          CHR 0xBC, CHR 0xD0, CHR 0xB0, CHR 0xD0, CHR 0xBD, CHR 0xD0, CHR 0xB4, CHR 0xD1,
          CHR 0x83] @ [CHR 0x27]))\<close>

definition go_test_script :: "string list" where
  \<open>go_test_script =
    [''go test ./... || echo 'go test '' @ [CHR 0xD0, CHR 0xB7, CHR 0xD0, CHR 0xB0, CHR 0xD0,
       CHR 0xB2, CHR 0xD0, CHR 0xB5, CHR 0xD1, CHR 0x80, CHR 0xD1, CHR 0x88, CHR 0xD0, CHR 0xB8,
       CHR 0xD0, CHR 0xBB, CHR 0xD1, CHR 0x81, CHR 0xD1, CHR 0x8F, CHR 0x20, CHR 0xD1, CHR 0x81,
       CHR 0x20, CHR 0xD0, CHR 0xBE, CHR 0xD1, CHR 0x88, CHR 0xD0, CHR 0xB8, CHR 0xD0, CHR 0xB1,
       CHR 0xD0, CHR 0xBA, CHR 0xD0, CHR 0xBE, CHR 0xD0, CHR 0xB9, CHR 0x20, CHR 0xE2, CHR 0x80,
       CHR 0x94, CHR 0x20, CHR 0xD0, CHR 0xBF, CHR 0xD1, CHR 0x80, CHR 0xD0, CHR 0xBE, CHR 0xD0,
       CHR 0xB2, CHR 0xD0, CHR 0xB5, CHR 0xD1, CHR 0x80, CHR 0xD1, CHR 0x8C, CHR 0xD1, CHR 0x82,
       CHR 0xD0, CHR 0xB5, CHR 0x20, CHR 0xD1, CHR 0x82, CHR 0xD0, CHR 0xB5, CHR 0xD1, CHR 0x81,
       CHR 0xD1, CHR 0x82, CHR 0xD1, CHR 0x8B] @ [CHR 0x27]]\<close>

definition go_build_script :: "string list" where
  \<open>go_build_script =
    [''go build ./... || echo 'go build '' @ [CHR 0xD0, CHR 0xB7, CHR 0xD0, CHR 0xB0,
       CHR 0xD0, CHR 0xB2, CHR 0xD0, CHR 0xB5, CHR 0xD1, CHR 0x80, CHR 0xD1, CHR 0x88, CHR 0xD0,
       CHR 0xB8, CHR 0xD0, CHR 0xBB, CHR 0xD1, CHR 0x81, CHR 0xD1, CHR 0x8F, CHR 0x20, CHR 0xD1,
       CHR 0x81, CHR 0x20, CHR 0xD0, CHR 0xBE, CHR 0xD1, CHR 0x88, CHR 0xD0, CHR 0xB8, CHR 0xD0,
       CHR 0xB1, CHR 0xD0, CHR 0xBA, CHR 0xD0, CHR 0xBE, CHR 0xD0, CHR 0xB9, CHR 0x20, CHR 0xE2,
       CHR 0x80, CHR 0x94, CHR 0x20, CHR 0xD0, CHR 0xBF, CHR 0xD1, CHR 0x80, CHR 0xD0, CHR 0xBE,
       CHR 0xD0, CHR 0xB2, CHR 0xD0, CHR 0xB5, CHR 0xD1, CHR 0x80, CHR 0xD1, CHR 0x8C, CHR 0xD1,
       CHR 0x82, CHR 0xD0, CHR 0xB5, CHR 0x20, CHR 0xD0, CHR 0xBA, CHR 0xD0, CHR 0xBE, CHR 0xD0,
       CHR 0xBD, CHR 0xD1, CHR 0x84, CHR 0xD0, CHR 0xB8, CHR 0xD0, CHR 0xB3, CHR 0xD1, CHR 0x83,
       CHR 0xD1, CHR 0x80, CHR 0xD0, CHR 0xB0, CHR 0xD1, CHR 0x86, CHR 0xD0, CHR 0xB8, CHR 0xD1,
       CHR 0x8E, CHR 0x20, CHR 0xD0, CHR 0xBF, CHR 0xD1, CHR 0x80, CHR 0xD0, CHR 0xBE, CHR 0xD0,
       CHR 0xB5, CHR 0xD0, CHR 0xBA, CHR 0xD1, CHR 0x82, CHR 0xD0, CHR 0xB0] @ [CHR 0x27]]\<close>

definition java_test_script :: "string list" where
  \<open>java_test_script =
    [''if [ -f mvnw ]; then chmod +x mvnw; ./mvnw -B test; else mvn -B test; fi || echo 'mvn test ''
       @ [CHR 0xD0, CHR 0xB7, CHR 0xD0, CHR 0xB0, CHR 0xD0, CHR 0xB2, CHR 0xD0, CHR 0xB5,
       CHR 0xD1, CHR 0x80, CHR 0xD1, CHR 0x88, CHR 0xD0, CHR 0xB8, CHR 0xD0, CHR 0xBB, CHR 0xD1,
       CHR 0x81, CHR 0xD1, CHR 0x8F, CHR 0x20, CHR 0xD1, CHR 0x81, CHR 0x20, CHR 0xD0, CHR 0xBE,
       CHR 0xD1, CHR 0x88, CHR 0xD0, CHR 0xB8, CHR 0xD0, CHR 0xB1, CHR 0xD0, CHR 0xBA, CHR 0xD0,
       CHR 0xBE, CHR 0xD0, CHR 0xB9, CHR 0x20, CHR 0xE2, CHR 0x80, CHR 0x94, CHR 0x20, CHR 0xD0,
       CHR 0xBE, CHR 0xD1, CHR 0x82, CHR 0xD1, CHR 0x80, CHR 0xD0, CHR 0xB5, CHR 0xD0, CHR 0xB4,
       CHR 0xD0, CHR 0xB0, CHR 0xD0, CHR 0xBA, CHR 0xD1, CHR 0x82, CHR 0xD0, CHR 0xB8, CHR 0xD1,
       CHR 0x80, CHR 0xD1, CHR 0x83, CHR 0xD0, CHR 0xB9, CHR 0xD1, CHR 0x82, CHR 0xD0, CHR 0xB5]
       @ '' pom.xml/'' @ [CHR 0xD0, CHR 0xBF, CHR 0xD1, CHR 0x80, CHR 0xD0, CHR 0xBE, CHR 0xD1,
       CHR 0x84, CHR 0xD0, CHR 0xB8, CHR 0xD0, CHR 0xBB, CHR 0xD0, CHR 0xB8] @ [CHR 0x27]]\<close>

definition java_build_script :: "string list" where
  \<open>java_build_script =
    [''if [ -f mvnw ]; then chmod +x mvnw; ./mvnw -B package -DskipTests; else mvn -B package -DskipTests; fi || echo 'mvn package ''
       @ [CHR 0xD0, CHR 0xB7, CHR 0xD0, CHR 0xB0, CHR 0xD0, CHR 0xB2, CHR 0xD0, CHR 0xB5,
       CHR 0xD1, CHR 0x80, CHR 0xD1, CHR 0x88, CHR 0xD0, CHR 0xB8, CHR 0xD0, CHR 0xBB, CHR 0xD1,
       CHR 0x81, CHR 0xD1, CHR 0x8F, CHR 0x20, CHR 0xD1, CHR 0x81, CHR 0x20, CHR 0xD0, CHR 0xBE,
       CHR 0xD1, CHR 0x88, CHR 0xD0, CHR 0xB8, CHR 0xD0, CHR 0xB1, CHR 0xD0, CHR 0xBA, CHR 0xD0,
       CHR 0xBE, CHR 0xD0, CHR 0xB9, CHR 0x20, CHR 0xE2, CHR 0x80, CHR 0x94, CHR 0x20, CHR 0xD0,
       CHR 0xBF, CHR 0xD1, CHR 0x80, CHR 0xD0, CHR 0xBE, CHR 0xD0, CHR 0xB2, CHR 0xD0, CHR 0xB5,
       CHR 0xD1, CHR 0x80, CHR 0xD1, CHR 0x8C, CHR 0xD1, CHR 0x82, CHR 0xD0, CHR 0xB5]
       @ '' pom.xml'' @ [CHR 0x27]]\<close>

definition java_sonar_script :: "string list" where
  \<open>java_sonar_script =
    [''if [ -f mvnw ]; then chmod +x mvnw; ./mvnw -B verify sonar:sonar; else mvn -B verify sonar:sonar; fi || echo 'SonarQube ''
       @ [CHR 0xD0, CHR 0xBD, CHR 0xD0, CHR 0xB5, CHR 0x20, CHR 0xD0, CHR 0xBD, CHR 0xD0,
       CHR 0xB0, CHR 0xD1, CHR 0x81, CHR 0xD1, CHR 0x82, CHR 0xD1, CHR 0x80, CHR 0xD0, CHR 0xBE,
       CHR 0xD0, CHR 0xB5, CHR 0xD0, CHR 0xBD, CHR 0x20, CHR 0xE2, CHR 0x80, CHR 0x94, CHR 0x20,
       CHR 0xD1, CHR 0x83, CHR 0xD0, CHR 0xBA, CHR 0xD0, CHR 0xB0, CHR 0xD0, CHR 0xB6, CHR 0xD0,
       CHR 0xB8, CHR 0xD1, CHR 0x82, CHR 0xD0, CHR 0xB5, CHR 0x20, CHR 0xD0, CHR 0xBF, CHR 0xD0,
       CHR 0xB0, CHR 0xD1, CHR 0x80, CHR 0xD0, CHR 0xB0, CHR 0xD0, CHR 0xBC, CHR 0xD0, CHR 0xB5,
       CHR 0xD1, CHR 0x82, CHR 0xD1, CHR 0x80, CHR 0xD1, CHR 0x8B] @ '' sonar.* '' @ [CHR 0xD0,
       CHR 0xB8, CHR 0x20, CHR 0xD0, CHR 0xBF, CHR 0xD0, CHR 0xB5, CHR 0xD1, CHR 0x80, CHR 0xD0,
       CHR 0xB5, CHR 0xD0, CHR 0xBC, CHR 0xD0, CHR 0xB5, CHR 0xD0, CHR 0xBD, CHR 0xD0, CHR 0xBD,
       CHR 0xD1, CHR 0x8B, CHR 0xD0, CHR 0xB5, CHR 0x20, CHR 0xD0, CHR 0xBE, CHR 0xD0, CHR 0xBA,
       CHR 0xD1, CHR 0x80, CHR 0xD1, CHR 0x83, CHR 0xD0, CHR 0xB6, CHR 0xD0, CHR 0xB5, CHR 0xD0,
       CHR 0xBD, CHR 0xD0, CHR 0xB8, CHR 0xD1, CHR 0x8F] @ '' SONAR_*'' @ [CHR 0x27]]\<close>

definition node_sonar_script :: "string list" where
  \<open>node_sonar_script =
    [''echo 'TODO: '' @ [CHR 0xD0, CHR 0xB4, CHR 0xD0, CHR 0xBE, CHR 0xD0, CHR 0xB1, CHR 0xD0,
       CHR 0xB0, CHR 0xD0, CHR 0xB2, CHR 0xD1, CHR 0x8C, CHR 0xD1, CHR 0x82, CHR 0xD0, CHR 0xB5,
       CHR 0x20, CHR 0xD0, CHR 0xBA, CHR 0xD0, CHR 0xBE, CHR 0xD0, CHR 0xBC, CHR 0xD0, CHR 0xB0,
       CHR 0xD0, CHR 0xBD, CHR 0xD0, CHR 0xB4, CHR 0xD1, CHR 0x83, CHR 0x20, CHR 0xD0, CHR 0xB7,
       CHR 0xD0, CHR 0xB0, CHR 0xD0, CHR 0xBF, CHR 0xD1, CHR 0x83, CHR 0xD1, CHR 0x81, CHR 0xD0,
       CHR 0xBA, CHR 0xD0, CHR 0xB0] @ '' SonarQube '' @ [CHR 0xD0, CHR 0xB4, CHR 0xD0,
       CHR 0xBB, CHR 0xD1, CHR 0x8F, CHR 0x20, CHR 0xD1, CHR 0x84, CHR 0xD1, CHR 0x80, CHR 0xD0,
       CHR 0xBE, CHR 0xD0, CHR 0xBD, CHR 0xD1, CHR 0x82, CHR 0xD0, CHR 0xB5, CHR 0xD0, CHR 0xBD,
       CHR 0xD0, CHR 0xB4, CHR 0xD0, CHR 0xB0, CHR 0x20, CHR 0x28, CHR 0xD0, CHR 0xBD, CHR 0xD0,
       CHR 0xB0, CHR 0xD0, CHR 0xBF, CHR 0xD1, CHR 0x80, CHR 0xD0, CHR 0xB8, CHR 0xD0, CHR 0xBC,
       CHR 0xD0, CHR 0xB5, CHR 0xD1, CHR 0x80] @ '', npx sonar-scanner ...)'' @ [CHR 0x27]]\<close>

definition quality_warning :: string where
  \<open>quality_warning =
    [CHR 0xD0, CHR 0x92] @ '' stage quality '' @ [CHR 0xD0, CHR 0xB4, CHR 0xD0, CHR 0xBE,
      CHR 0xD0, CHR 0xB1, CHR 0xD0, CHR 0xB0, CHR 0xD0, CHR 0xB2, CHR 0xD0, CHR 0xBB, CHR 0xD0,
      CHR 0xB5, CHR 0xD0, CHR 0xBD, CHR 0xD1, CHR 0x8B] @ '' SonarQube-'' @ [CHR 0xD0, CHR 0xB7,
      CHR 0xD0, CHR 0xB0, CHR 0xD0, CHR 0xB3, CHR 0xD0, CHR 0xBB, CHR 0xD1, CHR 0x83, CHR 0xD1,
      CHR 0x88, CHR 0xD0, CHR 0xBA, CHR 0xD0, CHR 0xB8] @ '' (java_sonar/node_sonar). ''
      @ [CHR 0xD0, CHR 0x9D, CHR 0xD0, CHR 0xB0, CHR 0xD1, CHR 0x81, CHR 0xD1, CHR 0x82,
      CHR 0xD1, CHR 0x80, CHR 0xD0, CHR 0xBE, CHR 0xD0, CHR 0xB9, CHR 0xD1, CHR 0x82, CHR 0xD0,
      CHR 0xB5] @ '' SONAR_HOST_URL / SONAR_TOKEN '' @ [CHR 0xD0, CHR 0xB8, CHR 0x20, CHR 0xD0,
      CHR 0xBA, CHR 0xD0, CHR 0xBE, CHR 0xD0, CHR 0xBD, CHR 0xD0, CHR 0xBA, CHR 0xD1, CHR 0x80,
      CHR 0xD0, CHR 0xB5, CHR 0xD1, CHR 0x82, CHR 0xD0, CHR 0xBD, CHR 0xD1, CHR 0x8B, CHR 0xD0,
      CHR 0xB5, CHR 0x20, CHR 0xD0, CHR 0xBA, CHR 0xD0, CHR 0xBE, CHR 0xD0, CHR 0xBC, CHR 0xD0,
      CHR 0xB0, CHR 0xD0, CHR 0xBD, CHR 0xD0, CHR 0xB4, CHR 0xD1, CHR 0x8B, CHR 0x20, CHR 0xD0,
      CHR 0xB0, CHR 0xD0, CHR 0xBD, CHR 0xD0, CHR 0xB0, CHR 0xD0, CHR 0xBB, CHR 0xD0, CHR 0xB8,
      CHR 0xD0, CHR 0xB7, CHR 0xD0, CHR 0xB0] @ ''.''\<close>

definition docker_jobs_warning :: string where
  \<open>docker_jobs_warning =
    [CHR 0xD0, CHR 0x94, CHR 0xD0, CHR 0xBE, CHR 0xD0, CHR 0xB1, CHR 0xD0, CHR 0xB0, CHR 0xD0,
      CHR 0xB2, CHR 0xD0, CHR 0xBB, CHR 0xD0, CHR 0xB5, CHR 0xD0, CHR 0xBD, CHR 0xD1, CHR 0x8B]
      @ '' docker-'' @ [CHR 0xD0, CHR 0xB7, CHR 0xD0, CHR 0xB0, CHR 0xD0, CHR 0xB4, CHR 0xD0,
      CHR 0xB0, CHR 0xD1, CHR 0x87, CHR 0xD0, CHR 0xB8, CHR 0x20, CHR 0xD0, CHR 0xB4, CHR 0xD0,
      CHR 0xBB, CHR 0xD1, CHR 0x8F, CHR 0x20, CHR 0xD0, CHR 0xBA, CHR 0xD0, CHR 0xB0, CHR 0xD0,
      CHR 0xB6, CHR 0xD0, CHR 0xB4, CHR 0xD0, CHR 0xBE, CHR 0xD0, CHR 0xB3, CHR 0xD0, CHR 0xBE,
      CHR 0x20, CHR 0xD0, CHR 0xBD, CHR 0xD0, CHR 0xB0, CHR 0xD0, CHR 0xB9, CHR 0xD0, CHR 0xB4,
      CHR 0xD0, CHR 0xB5, CHR 0xD0, CHR 0xBD, CHR 0xD0, CHR 0xBD, CHR 0xD0, CHR 0xBE, CHR 0xD0,
      CHR 0xB3, CHR 0xD0, CHR 0xBE] @ '' Dockerfile. '' @ [CHR 0xD0, CHR 0x9F, CHR 0xD1,
      CHR 0x80, CHR 0xD0, CHR 0xB8, CHR 0x20, CHR 0xD0, CHR 0xBD, CHR 0xD0, CHR 0xB5, CHR 0xD0,
      CHR 0xBE, CHR 0xD0, CHR 0xB1, CHR 0xD1, CHR 0x85, CHR 0xD0, CHR 0xBE, CHR 0xD0, CHR 0xB4,
      CHR 0xD0, CHR 0xB8, CHR 0xD0, CHR 0xBC, CHR 0xD0, CHR 0xBE, CHR 0xD1, CHR 0x81, CHR 0xD1,
      CHR 0x82, CHR 0xD0, CHR 0xB8, CHR 0x20, CHR 0xD0, CHR 0xBE, CHR 0xD1, CHR 0x82, CHR 0xD1,
      CHR 0x80, CHR 0xD0, CHR 0xB5, CHR 0xD0, CHR 0xB4, CHR 0xD0, CHR 0xB0, CHR 0xD0, CHR 0xBA,
      CHR 0xD1, CHR 0x82, CHR 0xD0, CHR 0xB8, CHR 0xD1, CHR 0x80, CHR 0xD1, CHR 0x83, CHR 0xD0,
      CHR 0xB9, CHR 0xD1, CHR 0x82, CHR 0xD0, CHR 0xB5, CHR 0x20, CHR 0xD1, CHR 0x82, CHR 0xD0,
      CHR 0xB5, CHR 0xD0, CHR 0xB3, CHR 0xD0, CHR 0xB8, CHR 0x20, CHR 0xD0, CHR 0xBE, CHR 0xD0,
      CHR 0xB1, CHR 0xD1, CHR 0x80, CHR 0xD0, CHR 0xB0, CHR 0xD0, CHR 0xB7, CHR 0xD0, CHR 0xBE,
      CHR 0xD0, CHR 0xB2, CHR 0x20, CHR 0xD0, CHR 0xB8, CHR 0x20, CHR 0xD0, CHR 0xBD, CHR 0xD0,
      CHR 0xB0, CHR 0xD1, CHR 0x81, CHR 0xD1, CHR 0x82, CHR 0xD1, CHR 0x80, CHR 0xD0, CHR 0xBE,
      CHR 0xD0, CHR 0xB9, CHR 0xD0, CHR 0xBA, CHR 0xD0, CHR 0xB8] @ '' registry.''\<close>

text \<open>
  The fallback that ends both \<^verbatim>\<open>docker build\<close> lines of the source, the same text
  in the two places.
\<close>

definition or_echo_daemon_hint :: string where
  \<open>or_echo_daemon_hint =
    '' || echo '' @ [CHR 0x27] @ [CHR 0xD0, CHR 0x9D, CHR 0xD0, CHR 0xB0, CHR 0xD1, CHR 0x81,
      CHR 0xD1, CHR 0x82, CHR 0xD1, CHR 0x80, CHR 0xD0, CHR 0xBE, CHR 0xD0, CHR 0xB9, CHR 0xD1,
      CHR 0x82, CHR 0xD0, CHR 0xB5] @ '' docker daemon / registry'' @ [CHR 0x27]\<close>

definition docker_fallback_script :: "string list" where
  \<open>docker_fallback_script =
    [''echo "'' @ [CHR 0xD0, CHR 0xA1, CHR 0xD0, CHR 0xB1, CHR 0xD0, CHR 0xBE, CHR 0xD1,
       CHR 0x80, CHR 0xD0, CHR 0xBA, CHR 0xD0, CHR 0xB0] @ '' Docker-'' @ [CHR 0xD0, CHR 0xBE,
       CHR 0xD0, CHR 0xB1, CHR 0xD1, CHR 0x80, CHR 0xD0, CHR 0xB0, CHR 0xD0, CHR 0xB7, CHR 0xD0,
       CHR 0xB0, CHR 0x2E, CHR 0x20, CHR 0xD0, CHR 0x9D, CHR 0xD0, CHR 0xB0, CHR 0xD1, CHR 0x81,
       CHR 0xD1, CHR 0x82, CHR 0xD1, CHR 0x80, CHR 0xD0, CHR 0xBE, CHR 0xD0, CHR 0xB9, CHR 0xD1,
       CHR 0x82, CHR 0xD0, CHR 0xB5, CHR 0x20, CHR 0xD1, CHR 0x81, CHR 0xD0, CHR 0xB2, CHR 0xD0,
       CHR 0xBE, CHR 0xD0, CHR 0xB9] @ '' registry '' @ [CHR 0xD0, CHR 0xB8]
       @ '' docker runner."'',
     ''docker build -t my-image:latest .'' @ or_echo_daemon_hint]\<close>

definition docker_fallback_warning :: string where
  \<open>docker_fallback_warning =
    [CHR 0xD0, CHR 0x90, CHR 0xD0, CHR 0xBD, CHR 0xD0, CHR 0xB0, CHR 0xD0, CHR 0xBB, CHR 0xD0,
      CHR 0xB8, CHR 0xD0, CHR 0xB7, CHR 0xD0, CHR 0xB0, CHR 0xD1, CHR 0x82, CHR 0xD0, CHR 0xBE,
      CHR 0xD1, CHR 0x80, CHR 0x20, CHR 0xD0, CHR 0xBD, CHR 0xD0, CHR 0xB5, CHR 0x20, CHR 0xD0,
      CHR 0xB2, CHR 0xD0, CHR 0xB5, CHR 0xD1, CHR 0x80, CHR 0xD0, CHR 0xBD, CHR 0xD1, CHR 0x83,
      CHR 0xD0, CHR 0xBB, CHR 0x20, CHR 0xD0, CHR 0xBA, CHR 0xD0, CHR 0xBE, CHR 0xD0, CHR 0xBD,
      CHR 0xD0, CHR 0xBA, CHR 0xD1, CHR 0x80, CHR 0xD0, CHR 0xB5, CHR 0xD1, CHR 0x82, CHR 0xD0,
      CHR 0xBD, CHR 0xD1, CHR 0x8B, CHR 0xD0, CHR 0xB5] @ '' Dockerfile'' @ [CHR 0x27]
      @ [CHR 0xD1, CHR 0x8B, CHR 0x2E, CHR 0x20, CHR 0xD0, CHR 0x9F, CHR 0xD0, CHR 0xB0,
      CHR 0xD0, CHR 0xB9, CHR 0xD0, CHR 0xBF, CHR 0xD0, CHR 0xBB, CHR 0xD0, CHR 0xB0, CHR 0xD0,
      CHR 0xB9, CHR 0xD0, CHR 0xBD, CHR 0x20, CHR 0xD0, CHR 0xB8, CHR 0xD1, CHR 0x81, CHR 0xD0,
      CHR 0xBF, CHR 0xD0, CHR 0xBE, CHR 0xD0, CHR 0xBB, CHR 0xD1, CHR 0x8C, CHR 0xD0, CHR 0xB7,
      CHR 0xD1, CHR 0x83, CHR 0xD0, CHR 0xB5, CHR 0xD1, CHR 0x82] @ '' docker build . ''
      @ [CHR 0xD0, CHR 0xA0, CHR 0xD0, CHR 0xB5, CHR 0xD0, CHR 0xBA, CHR 0xD0, CHR 0xBE,
      CHR 0xD0, CHR 0xBC, CHR 0xD0, CHR 0xB5, CHR 0xD0, CHR 0xBD, CHR 0xD0, CHR 0xB4, CHR 0xD1,
      CHR 0x83, CHR 0xD0, CHR 0xB5, CHR 0xD1, CHR 0x82, CHR 0xD1, CHR 0x81, CHR 0xD1, CHR 0x8F,
      CHR 0x20, CHR 0xD0, CHR 0xB4, CHR 0xD0, CHR 0xBE, CHR 0xD0, CHR 0xBD, CHR 0xD0, CHR 0xB0,
      CHR 0xD1, CHR 0x81, CHR 0xD1, CHR 0x82, CHR 0xD1, CHR 0x80, CHR 0xD0, CHR 0xBE, CHR 0xD0,
      CHR 0xB8, CHR 0xD1, CHR 0x82, CHR 0xD1, CHR 0x8C, CHR 0x20, CHR 0xD0, CHR 0xB0, CHR 0xD0,
      CHR 0xBD, CHR 0xD0, CHR 0xB0, CHR 0xD0, CHR 0xBB, CHR 0xD0, CHR 0xB8, CHR 0xD0, CHR 0xB7,
      CHR 0xD0, CHR 0xB0, CHR 0xD1, CHR 0x82, CHR 0xD0, CHR 0xBE, CHR 0xD1, CHR 0x80, CHR 0x2C,
      CHR 0x20, CHR 0xD1, CHR 0x87, CHR 0xD1, CHR 0x82, CHR 0xD0, CHR 0xBE, CHR 0xD0, CHR 0xB1,
      CHR 0xD1, CHR 0x8B, CHR 0x20, CHR 0xD0, CHR 0xB7, CHR 0xD0, CHR 0xB0, CHR 0xD0, CHR 0xBF,
      CHR 0xD0, CHR 0xBE, CHR 0xD0, CHR 0xBB, CHR 0xD0, CHR 0xBD, CHR 0xD0, CHR 0xB8, CHR 0xD1,
      CHR 0x82, CHR 0xD1, CHR 0x8C] @ '' StackInfo.dockerfiles.''\<close>

definition deploy_script :: "string list" where
  \<open>deploy_script =
    [''echo "TODO: '' @ [CHR 0xD0, CHR 0xB4, CHR 0xD0, CHR 0xBE, CHR 0xD0, CHR 0xB1, CHR 0xD0,
       CHR 0xB0, CHR 0xD0, CHR 0xB2, CHR 0xD1, CHR 0x8C, CHR 0xD1, CHR 0x82, CHR 0xD0, CHR 0xB5,
       CHR 0x20, CHR 0xD1, CHR 0x80, CHR 0xD0, CHR 0xB5, CHR 0xD0, CHR 0xB0, CHR 0xD0, CHR 0xBB,
       CHR 0xD1, CHR 0x8C, CHR 0xD0, CHR 0xBD, CHR 0xD1, CHR 0x8B, CHR 0xD0, CHR 0xB5, CHR 0x20,
       CHR 0xD0, CHR 0xBA, CHR 0xD0, CHR 0xBE, CHR 0xD0, CHR 0xBC, CHR 0xD0, CHR 0xB0, CHR 0xD0,
       CHR 0xBD, CHR 0xD0, CHR 0xB4, CHR 0xD1, CHR 0x8B, CHR 0x20, CHR 0xD0, CHR 0xB4, CHR 0xD0,
       CHR 0xB5, CHR 0xD0, CHR 0xBF, CHR 0xD0, CHR 0xBB, CHR 0xD0, CHR 0xBE, CHR 0xD1, CHR 0x8F]
       @ '' (kubectl / ssh / helm '' @ [CHR 0xD0, CHR 0xB8, CHR 0x20, CHR 0xD1, CHR 0x82,
       CHR 0x2E, CHR 0xD0, CHR 0xBF] @ ''.)"'']\<close>

definition placeholders_only_warning :: string where
  \<open>placeholders_only_warning =
    [CHR 0xD0, CHR 0x9D, CHR 0xD0, CHR 0xB5, CHR 0x20, CHR 0xD0, CHR 0xBE, CHR 0xD0, CHR 0xB1,
      CHR 0xD0, CHR 0xBD, CHR 0xD0, CHR 0xB0, CHR 0xD1, CHR 0x80, CHR 0xD1, CHR 0x83, CHR 0xD0,
      CHR 0xB6, CHR 0xD0, CHR 0xB5, CHR 0xD0, CHR 0xBD, CHR 0xD1, CHR 0x8B]
      @ '' Python/Node/Go/Java-'' @ [CHR 0xD0, CHR 0xBF, CHR 0xD1, CHR 0x80, CHR 0xD0, CHR 0xBE,
      CHR 0xD0, CHR 0xB5, CHR 0xD0, CHR 0xBA, CHR 0xD1, CHR 0x82, CHR 0xD1, CHR 0x8B, CHR 0x2E,
      CHR 0x20, CHR 0xD0, CHR 0x9F, CHR 0xD0, CHR 0xB0, CHR 0xD0, CHR 0xB9, CHR 0xD0, CHR 0xBF,
      CHR 0xD0, CHR 0xBB, CHR 0xD0, CHR 0xB0, CHR 0xD0, CHR 0xB9, CHR 0xD0, CHR 0xBD, CHR 0x20,
      CHR 0xD1, CHR 0x81, CHR 0xD0, CHR 0xBE, CHR 0xD0, CHR 0xB4, CHR 0xD0, CHR 0xB5, CHR 0xD1,
      CHR 0x80, CHR 0xD0, CHR 0xB6, CHR 0xD0, CHR 0xB8, CHR 0xD1, CHR 0x82, CHR 0x20, CHR 0xD1,
      CHR 0x82, CHR 0xD0, CHR 0xBE, CHR 0xD0, CHR 0xBB, CHR 0xD1, CHR 0x8C, CHR 0xD0, CHR 0xBA,
      CHR 0xD0, CHR 0xBE] @ '' placeholder-'' @ [CHR 0xD0, CHR 0xB7, CHR 0xD0, CHR 0xB0,
      CHR 0xD0, CHR 0xB4, CHR 0xD0, CHR 0xB0, CHR 0xD1, CHR 0x87, CHR 0xD0, CHR 0xB8, CHR 0x2E,
      CHR 0x20, CHR 0xD0, CHR 0x9E, CHR 0xD1, CHR 0x82, CHR 0xD1, CHR 0x80, CHR 0xD0, CHR 0xB5,
      CHR 0xD0, CHR 0xB4, CHR 0xD0, CHR 0xB0, CHR 0xD0, CHR 0xBA, CHR 0xD1, CHR 0x82, CHR 0xD0,
      CHR 0xB8, CHR 0xD1, CHR 0x80, CHR 0xD1, CHR 0x83, CHR 0xD0, CHR 0xB9, CHR 0xD1, CHR 0x82,
      CHR 0xD0, CHR 0xB5, CHR 0x20, CHR 0xD0, CHR 0xBA, CHR 0xD0, CHR 0xBE, CHR 0xD0, CHR 0xBC,
      CHR 0xD0, CHR 0xB0, CHR 0xD0, CHR 0xBD, CHR 0xD0, CHR 0xB4, CHR 0xD1, CHR 0x8B, CHR 0x20,
      CHR 0xD0, CHR 0xBF, CHR 0xD0, CHR 0xBE, CHR 0xD0, CHR 0xB4, CHR 0x20, CHR 0xD0, CHR 0xB2,
      CHR 0xD0, CHR 0xB0, CHR 0xD1, CHR 0x88, CHR 0x20, CHR 0xD1, CHR 0x81, CHR 0xD1, CHR 0x82,
      CHR 0xD0, CHR 0xB5, CHR 0xD0, CHR 0xBA] @ ''.''\<close>

subsection \<open>\<^verbatim>\<open>_append_quality_jobs\<close>\<close>

definition append_quality_jobs :: "StackInfo \<Rightarrow> builder \<Rightarrow> builder" where
  "append_quality_jobs stack b =
     (let has_java = (''java'' \<in> set (languages stack) \<and> ''maven'' \<in> set (package_managers stack));
          has_nd = has_node stack
      in if \<not> (has_java \<or> has_nd) then b
         else
           let b1 = register ''quality'' b;
               b2 = (if has_java
                     then append_job (new_job ''java_sonar'' ''quality''
                            (Some ''maven:3.9-eclipse-temurin-17'') java_sonar_script) b1
                     else b1);
               b3 = (if has_nd
                     then append_job (new_job ''node_sonar'' ''quality''
                            (Some ''node:20-alpine'') node_sonar_script) b2
                     else b2)
           in append_warning quality_warning b3)"

subsection \<open>The blocks of \<^verbatim>\<open>build_pipeline\<close>\<close>

definition python_block :: "StackInfo \<Rightarrow> builder \<Rightarrow> builder" where
  "python_block stack b =
     (if ''python'' \<in> set (languages stack) then
        append_job (new_job ''python_lint'' ''lint'' (Some ''python:3.11-slim'') python_lint_script)
          (append_job (new_job ''python_tests'' ''test'' (Some ''python:3.11-slim'') python_test_script)
            (register ''test'' (register ''lint'' b)))
      else b)"

text \<open>
  \<^verbatim>\<open>pm_node = _node_pm(stack) if has_node else None\<close>, and the block runs under
  \<^verbatim>\<open>if has_node and pm_node\<close>: a string counts as true when it is not empty.
\<close>

definition node_block :: "StackInfo \<Rightarrow> builder \<Rightarrow> builder" where
  "node_block stack b =
     (let has_nd = has_node stack;
          pm_node = (if has_nd then Some (node_pm stack) else None)
      in case pm_node of
           None \<Rightarrow> b
         | Some pm \<Rightarrow>
             if has_nd \<and> pm \<noteq> [] then
               (case node_cmds pm of
                  (install_cmd, test_cmd, build_cmd, lint_cmd) \<Rightarrow>
                    append_job ((new_job ''node_build'' ''build'' (Some ''node:20-alpine'')
                                  [install_cmd, build_cmd])\<lparr>job_artifacts := Some [''dist'']\<rparr>)
                      (append_job (new_job ''node_tests'' ''test'' (Some ''node:20-alpine'')
                                    [install_cmd, test_cmd])
                        (append_job (new_job ''node_lint'' ''lint'' (Some ''node:20-alpine'')
                                      [install_cmd, lint_cmd])
                          (register ''build'' (register ''test'' (register ''lint'' b))))))
             else b)"

definition go_block :: "StackInfo \<Rightarrow> builder \<Rightarrow> builder" where
  "go_block stack b =
     (if ''go'' \<in> set (languages stack) then
        append_job (new_job ''go_build'' ''build'' (Some ''golang:1.22'') go_build_script)
          (append_job (new_job ''go_tests'' ''test'' (Some ''golang:1.22'') go_test_script)
            (register ''build'' (register ''test'' b)))
      else b)"

definition java_block :: "StackInfo \<Rightarrow> builder \<Rightarrow> builder" where
  "java_block stack b =
     (if ''java'' \<in> set (languages stack) \<and> ''maven'' \<in> set (package_managers stack) then
        append_job (new_job ''java_build'' ''build'' (Some ''maven:3.9-eclipse-temurin-17'')
                     java_build_script)
          (append_job (new_job ''java_tests'' ''test'' (Some ''maven:3.9-eclipse-temurin-17'')
                        java_test_script)
            (register ''build'' (register ''test'' b)))
      else b)"

text \<open>
  One job for each entry of \<^verbatim>\<open>stack.dockerfiles\<close>. \<open>image_ref\<close> is the source's
  local \<^verbatim>\<open>image_ref\<close>, the image tag; \<^verbatim>\<open>df.context or '.'\<close> is \<open>'.'\<close> for an
  empty context.
\<close>

definition docker_job_name :: "DockerfileInfo \<Rightarrow> string" where
  "docker_job_name df =
     ''docker_build_'' @ replace_char CHR ''.'' CHR ''_'' (replace_char CHR ''-'' CHR ''_'' (df_name df))"

definition image_ref :: "DockerfileInfo \<Rightarrow> string" where
  "image_ref df = ''my-image-'' @ df_name df @ '':latest''"

definition docker_script :: "DockerfileInfo \<Rightarrow> string list" where
  \<open>docker_script df =
    [''echo "'' @ [CHR 0xD0, CHR 0xA1, CHR 0xD0, CHR 0xB1, CHR 0xD0, CHR 0xBE, CHR 0xD1,
       CHR 0x80, CHR 0xD0, CHR 0xBA, CHR 0xD0, CHR 0xB0] @ '' Docker-'' @ [CHR 0xD0, CHR 0xBE,
       CHR 0xD0, CHR 0xB1, CHR 0xD1, CHR 0x80, CHR 0xD0, CHR 0xB0, CHR 0xD0, CHR 0xB7, CHR 0xD0,
       CHR 0xB0, CHR 0x20, CHR 0xD0, CHR 0xB8, CHR 0xD0, CHR 0xB7, CHR 0x20, CHR 0xD1, CHR 0x81,
       CHR 0xD1, CHR 0x83, CHR 0xD1, CHR 0x89, CHR 0xD0, CHR 0xB5, CHR 0xD1, CHR 0x81, CHR 0xD1,
       CHR 0x82, CHR 0xD0, CHR 0xB2, CHR 0xD1, CHR 0x83, CHR 0xD1, CHR 0x8E, CHR 0xD1, CHR 0x89,
       CHR 0xD0, CHR 0xB5, CHR 0xD0, CHR 0xB3, CHR 0xD0, CHR 0xBE] @ '' Dockerfile."'',
     ''docker build -f '' @ df_path df @ '' ''
       @ (if df_context df \<noteq> [] then df_context df else ''.'')
       @ '' -t '' @ image_ref df @ or_echo_daemon_hint,
     ''echo '' @ [CHR 0x27] @ [CHR 0xD0, CHR 0x9F, CHR 0xD1, CHR 0x80, CHR 0xD0, CHR 0xB8,
       CHR 0x20, CHR 0xD0, CHR 0xBD, CHR 0xD0, CHR 0xB5, CHR 0xD0, CHR 0xBE, CHR 0xD0, CHR 0xB1,
       CHR 0xD1, CHR 0x85, CHR 0xD0, CHR 0xBE, CHR 0xD0, CHR 0xB4, CHR 0xD0, CHR 0xB8, CHR 0xD0,
       CHR 0xBC, CHR 0xD0, CHR 0xBE, CHR 0xD1, CHR 0x81, CHR 0xD1, CHR 0x82, CHR 0xD0, CHR 0xB8,
       CHR 0x20, CHR 0xD0, CHR 0xB7, CHR 0xD0, CHR 0xB0, CHR 0xD0, CHR 0xBC, CHR 0xD0, CHR 0xB5,
       CHR 0xD0, CHR 0xBD, CHR 0xD0, CHR 0xB8, CHR 0xD1, CHR 0x82, CHR 0xD0, CHR 0xB5, CHR 0x20,
       CHR 0xD1, CHR 0x82, CHR 0xD0, CHR 0xB5, CHR 0xD0, CHR 0xB3] @ '' ''
       @ image_ref df @
       '' '' @ [CHR 0xD0, CHR 0xBD, CHR 0xD0, CHR 0xB0, CHR 0x20, CHR 0xD0, CHR 0xB0,
         CHR 0xD0, CHR 0xB4, CHR 0xD1, CHR 0x80, CHR 0xD0, CHR 0xB5, CHR 0xD1, CHR 0x81,
         CHR 0x20, CHR 0xD0, CHR 0xB2, CHR 0xD0, CHR 0xB0, CHR 0xD1, CHR 0x88, CHR 0xD0,
         CHR 0xB5, CHR 0xD0, CHR 0xB3, CHR 0xD0, CHR 0xBE] @ '' registry.'' @ [CHR 0x27]]\<close>

definition docker_job :: "DockerfileInfo \<Rightarrow> Job" where
  "docker_job df =
     (new_job (docker_job_name df) ''docker'' (Some ''docker:24'') (docker_script df))
       \<lparr>job_dockerfile_path := Some (df_path df),
        job_docker_context := Some (df_context df),
        job_image_name := Some (df_name df)\<rparr>"

definition docker_block :: "StackInfo \<Rightarrow> builder \<Rightarrow> builder" where
  "docker_block stack b =
     (if dockerfiles stack \<noteq> [] then
        append_warning docker_jobs_warning
          (fold (\<lambda>df. append_job (docker_job df)) (dockerfiles stack) (register ''docker'' b))
      else if has_dockerfile stack then
        append_warning docker_fallback_warning
          (append_job (new_job ''docker_build'' ''docker'' (Some ''docker:24'') docker_fallback_script)
            (register ''docker'' b))
      else b)"

definition deploy_block :: "builder \<Rightarrow> builder" where
  "deploy_block b =
     append_job (new_job ''deploy_placeholder'' ''deploy'' None deploy_script)
       (register ''deploy'' b)"

text \<open>
  The flags of the last warning are the ones computed at the top of
  \<^verbatim>\<open>build_pipeline\<close>; there \<^verbatim>\<open>has_java\<close> is \<^verbatim>\<open>"java" in stack.languages\<close>
  alone.
\<close>

definition placeholder_block :: "StackInfo \<Rightarrow> builder \<Rightarrow> builder" where
  "placeholder_block stack b =
     (let has_python = (''python'' \<in> set (languages stack));
          has_nd = has_node stack;
          has_go = (''go'' \<in> set (languages stack));
          has_java = (''java'' \<in> set (languages stack))
      in if \<not> (has_python \<or> has_nd \<or> has_go \<or> has_java)
         then append_warning placeholders_only_warning b
         else b)"

subsection \<open>Canonical stage order\<close>

text \<open>\<^verbatim>\<open>list(dict.fromkeys(xs))\<close>: the first occurrence of every element, in order.\<close>

definition dict_fromkeys :: "'a list \<Rightarrow> 'a list" where
  "dict_fromkeys xs = fold (\<lambda>x acc. if x \<in> set acc then acc else acc @ [x]) xs []"

definition canonical_order :: "string list" where
  "canonical_order = [''lint'', ''test'', ''quality'', ''build'', ''docker'', ''deploy'']"

definition order_stages :: "string list \<Rightarrow> string list" where
  "order_stages stgs =
     (if stgs \<noteq> [] then
        let unique = dict_fromkeys stgs;
            ordered = fold (\<lambda>name acc. if name \<in> set unique then acc @ [name] else acc)
                        canonical_order [];
            ordered' = fold (\<lambda>name acc. if name \<notin> set acc then acc @ [name] else acc)
                         unique ordered
        in ordered'
      else [])"

subsection \<open>\<^verbatim>\<open>build_pipeline\<close>\<close>

text \<open>
  \<open>registered\<close> is the builder after the last block: its \<open>b_stages\<close> is the raw list
  of registered stage names, before the canonical ordering.
\<close>

definition builder_empty :: builder where
  "builder_empty = \<lparr>b_stages = [], b_jobs = [], b_warnings = []\<rparr>"

definition registered :: "StackInfo \<Rightarrow> builder" where
  "registered stack =
     placeholder_block stack
       (deploy_block
         (docker_block stack
           (append_quality_jobs stack
             (java_block stack
               (go_block stack
                 (node_block stack
                   (python_block stack builder_empty)))))))"

definition build_pipeline :: "StackInfo \<Rightarrow> Pipeline \<times> string list" where
  "build_pipeline stack =
     (let b = registered stack
      in (\<lparr>stages = order_stages (b_stages b), jobs = b_jobs b\<rparr>, b_warnings b))"

text \<open>
  The invariant of the builder's lists: every job appended so far names a stage that is
  already registered.
\<close>

definition jobs_ok :: "builder \<Rightarrow> bool" where
  "jobs_ok b = list_all (\<lambda>j. job_stage j \<in> set (b_stages b)) (b_jobs b)"

text \<open>The jobs the Docker block appends.\<close>

definition docker_part :: "StackInfo \<Rightarrow> Job list" where
  "docker_part s =
     (if dockerfiles s \<noteq> [] then map docker_job (dockerfiles s)
      else if has_dockerfile s
      then [new_job ''docker_build'' ''docker'' (Some ''docker:24'') docker_fallback_script]
      else [])"

section \<open>The stack analyzer (core/services/analyzer/core.py)\<close>

subsection \<open>String operations\<close>

text \<open>
  A Python \<^verbatim>\<open>str\<close> is the list of the bytes of its UTF-8 encoding. The operations that
  depend on the character classes of Unicode are modelled for ASCII strings, those whose
  bytes are all below 0x80: letter case (\<^verbatim>\<open>str.lower\<close>), whitespace (\<^verbatim>\<open>str.strip\<close>,
  \<^verbatim>\<open>str.split\<close>, the pattern \<^verbatim>\<open>\s\<close>) and line boundaries (\<^verbatim>\<open>str.splitlines\<close>). On
  other strings Python does more (it lowers U+212A to \<open>k\<close>, strips U+00A0, splits lines
  at U+2028), so every statement below that reads a file name or a text through these
  operations assumes \<open>ascii\<close> of it.
\<close>

definition ascii :: "string \<Rightarrow> bool" where
  "ascii s = list_all (\<lambda>c. \<not> digit7 c) s"

definition lower_char :: "char \<Rightarrow> char" where
  "lower_char c =
     (case map_of (zip ''ABCDEFGHIJKLMNOPQRSTUVWXYZ'' ''abcdefghijklmnopqrstuvwxyz'') c of
        Some d \<Rightarrow> d
      | None \<Rightarrow> c)"

definition lower :: "string \<Rightarrow> string" where
  "lower s = map lower_char s"

text \<open>The ASCII characters for which \<^verbatim>\<open>str.isspace\<close> holds: tab to carriage return,
  the separators 0x1C to 0x1F, and the space.\<close>

definition is_space :: "char \<Rightarrow> bool" where
  "is_space c = (c \<in> set [CHR 0x09, CHR 0x0A, CHR 0x0B, CHR 0x0C, CHR 0x0D,
                            CHR 0x1C, CHR 0x1D, CHR 0x1E, CHR 0x1F, CHR 0x20])"

definition strip :: "string \<Rightarrow> string" where
  "strip s = rev (dropWhile is_space (rev (dropWhile is_space s)))"

text \<open>\<^verbatim>\<open>s.lstrip(chars)\<close> and \<^verbatim>\<open>s.strip(chars)\<close> with an explicit character set.\<close>

definition lstrip_chars :: "string \<Rightarrow> string \<Rightarrow> string" where
  "lstrip_chars chars s = dropWhile (\<lambda>c. c \<in> set chars) s"

definition strip_chars :: "string \<Rightarrow> string \<Rightarrow> string" where
  "strip_chars chars s = rev (lstrip_chars chars (rev (lstrip_chars chars s)))"

text \<open>\<^verbatim>\<open>s.split()\<close>: the maximal runs of characters that are not whitespace.\<close>

fun split_acc :: "string \<Rightarrow> string \<Rightarrow> string list" where
  "split_acc cur [] = (if cur = [] then [] else [cur])"
| "split_acc cur (c # cs) =
     (if is_space c then (if cur = [] then split_acc [] cs else cur # split_acc [] cs)
      else split_acc (cur @ [c]) cs)"

definition split_ws :: "string \<Rightarrow> string list" where
  "split_ws s = split_acc [] s"

text \<open>
  \<^verbatim>\<open>s.splitlines()\<close>: a line ends at a line feed, a carriage return (with the line feed
  after it, if any), a vertical tab, a form feed or one of the separators 0x1C to 0x1E;
  there is no empty last line.
\<close>

definition is_linebreak :: "char \<Rightarrow> bool" where
  "is_linebreak c = (c \<in> set [CHR 0x0A, CHR 0x0B, CHR 0x0C, CHR 0x0D, CHR 0x1C, CHR 0x1D, CHR 0x1E])"

fun splitlines_acc :: "string \<Rightarrow> string \<Rightarrow> string list" where
  "splitlines_acc cur [] = (if cur = [] then [] else [cur])"
| "splitlines_acc cur (c # cs) =
     (if c = CHR 0x0D then
        (case cs of
           [] \<Rightarrow> [cur]
         | d # ds \<Rightarrow> if d = CHR 0x0A then cur # splitlines_acc [] ds
                     else cur # splitlines_acc [] (d # ds))
      else if is_linebreak c then cur # splitlines_acc [] cs
      else splitlines_acc (cur @ [c]) cs)"

definition splitlines :: "string \<Rightarrow> string list" where
  "splitlines s = splitlines_acc [] s"

text \<open>\<^verbatim>\<open>sub in s\<close> on strings.\<close>

fun contains :: "string \<Rightarrow> string \<Rightarrow> bool" where
  "contains [] sub = (sub = [])"
| "contains (c # cs) sub = (prefix sub (c # cs) \<or> contains cs sub)"

text \<open>\<^verbatim>\<open>sep.join(parts)\<close>.\<close>

fun join :: "string \<Rightarrow> string list \<Rightarrow> string" where
  "join sep [] = []"
| "join sep [p] = p"
| "join sep (p # q # ps) = p @ sep @ join sep (q # ps)"

text \<open>\<^verbatim>\<open>s.split(c, 1)\<close> for a character \<open>c\<close> that occurs in \<open>s\<close>: the text before the
  first \<open>c\<close> and the text after it.\<close>

definition before_first :: "char \<Rightarrow> string \<Rightarrow> string" where
  "before_first c s = takeWhile (\<lambda>x. x \<noteq> c) s"

definition after_first :: "char \<Rightarrow> string \<Rightarrow> string" where
  "after_first c s = drop 1 (dropWhile (\<lambda>x. x \<noteq> c) s)"

text \<open>\<^verbatim>\<open>sorted(s)\<close> for a set \<open>s\<close> given by a list of its elements.\<close>

definition sorted_set :: "string list \<Rightarrow> string list" where
  "sorted_set xs = sort (remdups xs)"

text \<open>\<^verbatim>\<open>d.update(e)\<close> and \<^verbatim>\<open>if k not in d: d[k] = v\<close> on dictionaries.\<close>

definition dict_update :: "('k \<times> 'v) list \<Rightarrow> ('k \<times> 'v) list \<Rightarrow> ('k \<times> 'v) list" where
  "dict_update d e = fold (\<lambda>(k, v). AList.update k v) e d"

definition set_if_absent :: "'k \<Rightarrow> 'v \<Rightarrow> ('k \<times> 'v) list \<Rightarrow> ('k \<times> 'v) list" where
  "set_if_absent k v d = (if k \<notin> fst ` set d then AList.update k v d else d)"

subsection \<open>The directory tree and the library\<close>

text \<open>
  A directory lists its entries in the order the file system enumerates them. A file
  carries its text as \<^verbatim>\<open>read_text(encoding="utf-8", errors="ignore")\<close> returns it, or
  \<open>None\<close> when reading it raises.
\<close>

datatype node = File string "string option" | Dir string "node list"

fun node_name :: "node \<Rightarrow> string" where
  "node_name (File n t) = n"
| "node_name (Dir n es) = n"

text \<open>A tree all of whose names and texts are ASCII.\<close>

fun ascii_node :: "node \<Rightarrow> bool" where
  "ascii_node (File n t) = (ascii n \<and> (case t of None \<Rightarrow> True | Some s \<Rightarrow> ascii s))"
| "ascii_node (Dir n es) = (ascii n \<and> list_all ascii_node es)"

definition ascii_tree :: "node list \<Rightarrow> bool" where
  "ascii_tree es = list_all ascii_node es"

text \<open>
  Path resolution: \<open>dir_at es path cs\<close> says that \<open>path\<close>, a list of directory names
  read from the root whose entries are \<open>es\<close>, leads to a directory whose entries are
  \<open>cs\<close>. The scans of the analyzer are stated against it.
\<close>

fun dir_at :: "node list \<Rightarrow> string list \<Rightarrow> node list \<Rightarrow> bool" where
  "dir_at es [] cs = (cs = es)"
| "dir_at es (d # ds) cs =
     list_ex (\<lambda>e. case e of File n t \<Rightarrow> False | Dir n sub \<Rightarrow> n = d \<and> dir_at sub ds cs) es"

text \<open>
  A decoded JSON value, as far as the analyzer observes it: an object with its members in
  order, a string, or any other value (null, a boolean, a number, an array), of which
  only the truth value and the \<^verbatim>\<open>str()\<close> text are used.
\<close>

datatype json = JObj "(string \<times> json) list" | JStr string | JOther bool string

text \<open>
  What the analyzer takes from the Python library: the JSON decoder and the matches of
  its regular expressions on the text of a file. Each is a function of the text alone.
  \<^item> \<open>json_loads\<close>: \<^verbatim>\<open>json.loads(text)\<close>, \<open>None\<close> when it raises;
  \<^item> \<open>repr_dict\<close>: \<^verbatim>\<open>str(d)\<close> of a decoded object;
  \<^item> \<open>python_image\<close>: group 1 of
    \<^verbatim>\<open>re.search(r"from\s+python:([\w.\-]+)", text, re.IGNORECASE)\<close>;
  \<^item> \<open>maven_source\<close>: group 1 of the search for
    \<^verbatim>\<open><maven\.compiler\.source>\s*([^<]+)</maven\.compiler\.source>\<close>;
  \<^item> \<open>pom_dependencies\<close>: groups 1 to 3 of every match of the
    \<^verbatim>\<open><dependency>\<close> pattern, in order (group 3 is optional);
  \<^item> \<open>gradle_source\<close>: group 1 of the search for \<^verbatim>\<open>sourceCompatibility\<close>;
  \<^item> \<open>gradle_dependencies\<close>: groups 1 to 3 of every match of the dependency
    declaration pattern, in order.
\<close>

record lib =
  json_loads :: "string \<Rightarrow> json option"
  repr_dict :: "(string \<times> json) list \<Rightarrow> string"
  python_image :: "string \<Rightarrow> string option"
  maven_source :: "string \<Rightarrow> string option"
  pom_dependencies :: "string \<Rightarrow> (string \<times> string \<times> string option) list"
  gradle_source :: "string \<Rightarrow> string option"
  gradle_dependencies :: "string \<Rightarrow> (string \<times> string \<times> string) list"

datatype py_error = AttributeError | TypeError

definition truthy :: "json \<Rightarrow> bool" where
  "truthy j = (case j of JObj kvs \<Rightarrow> kvs \<noteq> [] | JStr s \<Rightarrow> s \<noteq> [] | JOther b s \<Rightarrow> b)"

definition py_str :: "lib \<Rightarrow> json \<Rightarrow> string" where
  "py_str L j = (case j of JObj kvs \<Rightarrow> repr_dict L kvs | JStr s \<Rightarrow> s | JOther b s \<Rightarrow> s)"

subsection \<open>\<^verbatim>\<open>_iter_files\<close>\<close>

text \<open>
  A file the walk yields: the directory it is in (the path from the repository root, as a
  list of names), its name, its text, and the names of all entries of its directory
  (what \<^verbatim>\<open>(parent / name).exists()\<close> looks at).
\<close>

record wfile =
  w_dir :: "string list"
  w_name :: string
  w_text :: "string option"
  w_siblings :: "string set"

definition IGNORED_DIRS :: "string list" where
  "IGNORED_DIRS = [''.git'', ''.hg'', ''.svn'', ''node_modules'', ''.venv'', ''venv'',
     ''__pycache__'', ''dist'', ''build'', ''target'', ''.idea'', ''.vscode'']"

definition dir_files :: "string list \<Rightarrow> node list \<Rightarrow> wfile list" where
  "dir_files dir es =
     concat (map (\<lambda>e. case e of
                    File n t \<Rightarrow> [\<lparr>w_dir = dir, w_name = n, w_text = t,
                                  w_siblings = set (map node_name es)\<rparr>]
                  | Dir n cs \<Rightarrow> []) es)"

text \<open>
  \<^verbatim>\<open>os.walk\<close>, top down: the files of a directory first, then its subdirectories in
  order, those named in \<open>IGNORED_DIRS\<close> pruned.
\<close>

fun walk_node :: "string list \<Rightarrow> node \<Rightarrow> wfile list" where
  "walk_node dir (File n t) = []"
| "walk_node dir (Dir n es) =
     (if n \<in> set IGNORED_DIRS then []
      else dir_files (dir @ [n]) es @ concat (map (walk_node (dir @ [n])) es))"

definition iter_files :: "node list \<Rightarrow> wfile list" where
  "iter_files es = dir_files [] es @ concat (map (walk_node []) es)"

text \<open>\<^verbatim>\<open>file_path.parts\<close>: the parts of the repository path, then the path below it.\<close>

definition w_parts :: "string list \<Rightarrow> wfile \<Rightarrow> string list" where
  "w_parts base f = base @ w_dir f @ [w_name f]"

subsection \<open>\<^verbatim>\<open>_group_project_files\<close>\<close>

text \<open>The \<^verbatim>\<open>if\<close>/\<^verbatim>\<open>elif\<close> chain on the lowered file name: the group a file goes to.\<close>

definition bucket_of :: "string \<Rightarrow> string option" where
  "bucket_of name =
     (if name = ''requirements.txt'' then Some ''requirements''
      else if name = ''pyproject.toml'' then Some ''pyproject''
      else if name = ''pipfile'' then Some ''pipfile''
      else if name = ''package.json'' then Some ''package_json''
      else if name = ''pom.xml'' then Some ''pom''
      else if name \<in> set [''build.gradle'', ''build.gradle.kts''] then Some ''gradle''
      else if name = ''go.mod'' then Some ''go_mod''
      else if name = ''tsconfig.json'' then Some ''tsconfig''
      else None)"

text \<open>\<open>grouped files key\<close> is \<^verbatim>\<open>_group_project_files(repo_path)[key]\<close>.\<close>

definition grouped :: "wfile list \<Rightarrow> string \<Rightarrow> wfile list" where
  "grouped files key = filter (\<lambda>f. bucket_of (lower (w_name f)) = Some key) files"

subsection \<open>\<^verbatim>\<open>_detect_dockerfiles\<close>\<close>

text \<open>
  \<^verbatim>\<open>repo_path.rglob("Dockerfile*")\<close>: in every directory of the tree, none pruned, the
  entries (files and directories) whose name starts with \<^verbatim>\<open>Dockerfile\<close>; the pattern is
  case sensitive on a POSIX system. A match is the directory it is in and its name.
\<close>

definition matches_in :: "string list \<Rightarrow> node list \<Rightarrow> (string list \<times> string) list" where
  "matches_in dir es =
     map (\<lambda>e. (dir, node_name e)) (filter (\<lambda>e. prefix ''Dockerfile'' (node_name e)) es)"

fun rglob_node :: "string list \<Rightarrow> node \<Rightarrow> (string list \<times> string) list" where
  "rglob_node dir (File n t) = []"
| "rglob_node dir (Dir n es) =
     matches_in (dir @ [n]) es @ concat (map (rglob_node (dir @ [n])) es)"

definition rglob_dockerfile :: "node list \<Rightarrow> (string list \<times> string) list" where
  "rglob_dockerfile es = matches_in [] es @ concat (map (rglob_node []) es)"

text \<open>The body of the loop for one match \<open>p\<close>: no entry when \<^verbatim>\<open>".git" in p.parts\<close>.\<close>

definition dockerfile_info :: "string list \<Rightarrow> string list \<times> string \<Rightarrow> DockerfileInfo list" where
  "dockerfile_info base p =
     (case p of (dir, pname) \<Rightarrow>
        if ''.git'' \<in> set (base @ dir @ [pname]) then []
        else
          let context_str = (if dir = [] then ''.'' else join ''/'' dir);
              context_name = (if dir = [] then [] else last dir);
              name =
                (if pname = ''Dockerfile'' then
                   (if context_name \<noteq> [] then context_name else ''app'')
                 else
                   let base0 = pname;
                       base1 = (if prefix ''Dockerfile'' base0
                                then drop (length ''Dockerfile'') base0 else base0);
                       base2 = lstrip_chars ''._-'' base1
                   in if base2 \<noteq> [] then base2
                      else if context_name \<noteq> [] then context_name
                      else ''app'')
          in [\<lparr>df_path = join ''/'' (dir @ [pname]), df_context = context_str,
                df_name = name, df_kind = None\<rparr>])"

definition detect_dockerfiles :: "string list \<Rightarrow> node list \<Rightarrow> DockerfileInfo list" where
  "detect_dockerfiles base es = concat (map (dockerfile_info base) (rglob_dockerfile es))"

subsection \<open>\<^verbatim>\<open>_detect_languages\<close>\<close>

definition EXT_TO_LANGUAGE :: "(string \<times> string) list" where
  "EXT_TO_LANGUAGE =
     [(''.py'', ''python''),
      (''.js'', ''javascript''), (''.jsx'', ''javascript''),
      (''.ts'', ''javascript''), (''.tsx'', ''javascript''),
      (''.java'', ''java''), (''.kt'', ''java''),
      (''.go'', ''go'')]"

text \<open>
  \<^verbatim>\<open>Path.suffix\<close>: the name from its last dot on, when that dot is neither the first
  nor the last character of the name; empty otherwise.
\<close>

definition path_suffix :: "string \<Rightarrow> string" where
  "path_suffix name =
     (if CHR ''.'' \<notin> set name then []
      else
        let k = length (takeWhile (\<lambda>c. c \<noteq> CHR ''.'') (rev name));
            i = length name - k - 1
        in if 0 < i \<and> i < length name - 1 then drop i name else [])"

definition count_language :: "wfile \<Rightarrow> (string \<times> nat) list \<Rightarrow> (string \<times> nat) list" where
  "count_language f counts =
     (case map_of EXT_TO_LANGUAGE (lower (path_suffix (w_name f))) of
        None \<Rightarrow> counts
      | Some lang \<Rightarrow>
          if lang = [] then counts
          else AList.update lang
                 ((case map_of counts lang of None \<Rightarrow> 0 | Some c \<Rightarrow> c) + 1) counts)"

definition detect_languages :: "wfile list \<Rightarrow> string list \<times> (string \<times> nat) list" where
  "detect_languages files =
     (let language_counts = fold count_language files []
      in (sort (map fst language_counts), language_counts))"

subsection \<open>\<^verbatim>\<open>_detect_package_managers\<close>\<close>

definition node_lock_manager :: "wfile \<Rightarrow> string" where
  "node_lock_manager pkg =
     (if ''yarn.lock'' \<in> w_siblings pkg then ''yarn''
      else if ''pnpm-lock.yaml'' \<in> w_siblings pkg then ''pnpm''
      else if ''package-lock.json'' \<in> w_siblings pkg then ''npm''
      else ''npm'')"

definition detect_package_managers :: "wfile list \<Rightarrow> string list" where
  "detect_package_managers files =
     sorted_set
       ((if grouped files ''requirements'' \<noteq> [] then [''pip''] else [])
        @ (if grouped files ''pyproject'' \<noteq> [] then [''poetry''] else [])
        @ (if grouped files ''pipfile'' \<noteq> [] then [''pipenv''] else [])
        @ map node_lock_manager (grouped files ''package_json'')
        @ (if grouped files ''pom'' \<noteq> [] then [''maven''] else [])
        @ (if grouped files ''gradle'' \<noteq> [] then [''gradle''] else [])
        @ (if grouped files ''go_mod'' \<noteq> [] then [''go-mod''] else []))"

subsection \<open>\<^verbatim>\<open>_detect_frameworks\<close>\<close>

text \<open>A loop whose body may raise: the first error ends it.\<close>

fun fold_err :: "('a \<Rightarrow> 's \<Rightarrow> 'e + 's) \<Rightarrow> 'a list \<Rightarrow> 's \<Rightarrow> 'e + 's" where
  "fold_err f [] s = Inr s"
| "fold_err f (x # xs) s = (case f x s of Inl e \<Rightarrow> Inl e | Inr s' \<Rightarrow> fold_err f xs s')"

definition python_frameworks :: "wfile \<Rightarrow> string list" where
  "python_frameworks f =
     (case w_text f of
        None \<Rightarrow> []
      | Some text \<Rightarrow>
          let content = lower text
          in (if contains content ''fastapi'' then [''fastapi''] else [])
             @ (if contains content ''flask'' then [''flask''] else [])
             @ (if contains content ''django'' then [''django''] else []))"

text \<open>
  \<^verbatim>\<open>data.get(key, {}) or {}\<close> on a decoded object, and the use of the result as a
  mapping (\<^verbatim>\<open>{**deps, **dev_deps}\<close> raises \<^verbatim>\<open>TypeError\<close> for anything else).
\<close>

definition get_or_empty :: "(string \<times> json) list \<Rightarrow> string \<Rightarrow> json" where
  "get_or_empty kvs key =
     (case map_of kvs key of
        None \<Rightarrow> JObj []
      | Some j \<Rightarrow> if truthy j then j else JObj [])"

definition node_frameworks :: "lib \<Rightarrow> wfile \<Rightarrow> py_error + string list" where
  "node_frameworks L pkg =
     (case w_text pkg of
        None \<Rightarrow> Inr []
      | Some text \<Rightarrow>
          (case json_loads L text of
             None \<Rightarrow> Inr []
           | Some data \<Rightarrow>
               (case data of
                  JObj kvs \<Rightarrow>
                    (case get_or_empty kvs ''dependencies'' of
                       JObj deps \<Rightarrow>
                         (case get_or_empty kvs ''devDependencies'' of
                            JObj dev_deps \<Rightarrow>
                              let all_names = map (\<lambda>(name, v). lower name) (deps @ dev_deps)
                              in Inr
                                ((if ''vue'' \<in> set all_names \<or> list_ex (prefix ''@vue/'') all_names
                                  then [''vue''] else [])
                                 @ (if ''react'' \<in> set all_names \<or> list_ex (prefix ''react-'') all_names
                                    then [''react''] else [])
                                 @ (if ''@angular/core'' \<in> set all_names then [''angular''] else [])
                                 @ (if ''express'' \<in> set all_names then [''express''] else [])
                                 @ (if ''nestjs'' \<in> set all_names \<or> ''@nestjs/core'' \<in> set all_names
                                    then [''nestjs''] else []))
                          | _ \<Rightarrow> Inl TypeError)
                     | _ \<Rightarrow> Inl TypeError)
                | _ \<Rightarrow> Inl AttributeError)))"

definition spring_frameworks :: "wfile \<Rightarrow> string list" where
  "spring_frameworks f =
     (case w_text f of
        None \<Rightarrow> []
      | Some text \<Rightarrow>
          let content = lower text
          in if contains content ''spring-boot-starter'' \<or> contains content ''org.springframework''
             then [''spring''] else [])"

definition detect_frameworks :: "lib \<Rightarrow> wfile list \<Rightarrow> py_error + string list" where
  "detect_frameworks L files =
     (let fw_python = concat (map python_frameworks
                        (grouped files ''requirements'' @ grouped files ''pyproject''))
      in case fold_err (\<lambda>pkg fws. case node_frameworks L pkg of
                                     Inl e \<Rightarrow> Inl e
                                   | Inr new \<Rightarrow> Inr (fws @ new))
                (grouped files ''package_json'') fw_python of
           Inl e \<Rightarrow> Inl e
         | Inr fw_node \<Rightarrow>
             Inr (sorted_set (fw_node
                    @ concat (map spring_frameworks (grouped files ''pom''))
                    @ concat (map spring_frameworks (grouped files ''gradle'')))))"

subsection \<open>\<^verbatim>\<open>_parse_python_requirements_file\<close>\<close>

text \<open>
  The match of
  \<^verbatim>\<open>^([A-Za-z0-9_.\-]+)(?:\[[^\]]+\])?\s*([<>=!~]+)\s*([^\s]+)\<close>
  at the start of a line, as the backtracking matcher finds it: groups 1 to 3. The name,
  the optional extras in brackets and the whitespace are followed by characters outside
  their own class, so each takes its longest run. The operator gives characters back
  only when nothing but whitespace follows it: then it keeps all but its last
  character, which becomes the version.
\<close>

definition is_name_char :: "char \<Rightarrow> bool" where
  "is_name_char c =
     (c \<in> set (''ABCDEFGHIJKLMNOPQRSTUVWXYZ'' @ ''abcdefghijklmnopqrstuvwxyz''
                @ ''0123456789'' @ ''_.-''))"

definition is_op_char :: "char \<Rightarrow> bool" where
  "is_op_char c = (c \<in> set ''<>=!~'')"

definition skip_extras :: "string \<Rightarrow> string" where
  "skip_extras s =
     (case s of
        [] \<Rightarrow> s
      | c # t \<Rightarrow>
          if c = CHR ''[''
          then (let inner = takeWhile (\<lambda>x. x \<noteq> CHR '']'') t;
                    rest = dropWhile (\<lambda>x. x \<noteq> CHR '']'') t
                in if inner \<noteq> [] \<and> rest \<noteq> [] then drop 1 rest else s)
          else s)"

definition match_requirement :: "string \<Rightarrow> (string \<times> string \<times> string) option" where
  "match_requirement line =
     (let name = takeWhile is_name_char line;
          r1 = dropWhile is_name_char line
      in if name = [] then None
         else
           let r2 = dropWhile is_space (skip_extras r1);
               op = takeWhile is_op_char r2;
               r3 = dropWhile is_op_char r2;
               ver = takeWhile (\<lambda>c. \<not> is_space c) (dropWhile is_space r3)
           in if op = [] then None
              else if ver \<noteq> [] then Some (name, op, ver)
              else if 2 \<le> length op \<and> (r3 = [] \<or> is_space (hd r3))
              then Some (name, butlast op, [last op])
              else None)"

text \<open>
  The loop body of \<^verbatim>\<open>_parse_python_requirements_file\<close> for one line, in two
  steps: what the line declares (the lowered name, the operator and the version; nothing
  for a blank line, a comment or a line the pattern does not match), and how it is
  recorded.
\<close>

definition requirement_of :: "string \<Rightarrow> (string \<times> string \<times> string) option" where
  "requirement_of line0 =
     (let line = strip line0
      in if line = [] \<or> prefix ''#'' line then None
         else
           let line' = (if CHR '';'' \<in> set line then strip (before_first CHR '';'' line) else line)
           in case match_requirement line' of
                None \<Rightarrow> None
              | Some (name, op, ver) \<Rightarrow> Some (lower name, op, ver))"

definition requirement_line :: "string \<Rightarrow> str_dict \<Rightarrow> str_dict" where
  "requirement_line line deps =
     (case requirement_of line of
        None \<Rightarrow> deps
      | Some (name, op, ver) \<Rightarrow>
          if op = ''=='' \<or> name \<notin> fst ` set deps
          then AList.update name ver deps
          else deps)"

definition parse_python_requirements_file :: "string option \<Rightarrow> str_dict" where
  "parse_python_requirements_file text =
     (case text of
        None \<Rightarrow> []
      | Some t \<Rightarrow> fold requirement_line (splitlines t) [])"

subsection \<open>\<^verbatim>\<open>_detect_python_version\<close>\<close>

fun first_some :: "('a \<Rightarrow> 'b option) \<Rightarrow> 'a list \<Rightarrow> 'b option" where
  "first_some f [] = None"
| "first_some f (x # xs) = (case f x of Some y \<Rightarrow> Some y | None \<Rightarrow> first_some f xs)"

text \<open>One line of a \<^verbatim>\<open>pyproject.toml\<close>: the value it returns, if it returns.\<close>

definition pyproject_line :: "string \<Rightarrow> string option" where
  "pyproject_line line =
     (let s = strip line
      in if prefix ''requires-python'' (lower s) \<and> CHR ''='' \<in> set s
         then Some (strip_chars [CHR 0x22, CHR 0x27] (strip (after_first CHR ''='' s)))
         else if prefix ''python'' (lower s) \<and> CHR ''='' \<in> set s
         then Some (strip_chars [CHR 0x22, CHR 0x27] (strip (after_first CHR ''='' s)))
         else None)"

definition is_dockerfile_name :: "string \<Rightarrow> bool" where
  "is_dockerfile_name name = (name = ''dockerfile'' \<or> prefix ''dockerfile.'' name)"

text \<open>
  The result is \<^verbatim>\<open>None\<close> or a string, which may be empty (a \<^verbatim>\<open>pyproject.toml\<close>
  line with nothing after the equals sign). \<open>es\<close> are the entries of the repository
  root, where \<^verbatim>\<open>.python-version\<close> is looked up.
\<close>

definition detect_python_version :: "lib \<Rightarrow> node list \<Rightarrow> wfile list \<Rightarrow> string option" where
  "detect_python_version L es files =
     (let from_file =
            (case find (\<lambda>e. node_name e = ''.python-version'') es of
               Some (File n (Some t)) \<Rightarrow> (if strip t \<noteq> [] then Some (strip t) else None)
             | _ \<Rightarrow> None)
      in case from_file of
           Some v \<Rightarrow> Some v
         | None \<Rightarrow>
             (case first_some
                     (\<lambda>f. case w_text f of
                             None \<Rightarrow> None
                           | Some t \<Rightarrow> first_some pyproject_line (splitlines t))
                     (grouped files ''pyproject'') of
                Some v \<Rightarrow> Some v
              | None \<Rightarrow>
                  first_some
                    (\<lambda>f. if \<not> is_dockerfile_name (lower (w_name f)) then None
                          else case w_text f of
                                 None \<Rightarrow> None
                               | Some content \<Rightarrow> map_option strip (python_image L content))
                    files))"

subsection \<open>The collectors\<close>

text \<open>
  Every collector returns \<^verbatim>\<open>(dependencies, language_versions, framework_versions)\<close>.
\<close>

type_synonym collected = "(string \<times> str_dict) list \<times> str_dict \<times> str_dict"

definition collect_python :: "lib \<Rightarrow> node list \<Rightarrow> wfile list \<Rightarrow> collected" where
  "collect_python L es files =
     (let py_deps =
            fold (\<lambda>f py_deps.
                    fold (\<lambda>(name, ver). set_if_absent name ver)
                      (parse_python_requirements_file (w_text f)) py_deps)
              (grouped files ''requirements'') [];
          deps_out = (if py_deps \<noteq> [] then [(''python'', py_deps)] else []);
          lang_vers =
            (case detect_python_version L es files of
               None \<Rightarrow> []
             | Some pyver \<Rightarrow> if pyver \<noteq> [] then [(''python'', pyver)] else []);
          fw_vers =
            (case map_of deps_out ''python'' of
               None \<Rightarrow> []
             | Some d \<Rightarrow>
                 let deps_lower = fold (\<lambda>(k, v). AList.update (lower k) v) d []
                 in fold (\<lambda>fw fv. case map_of deps_lower fw of
                                     None \<Rightarrow> fv
                                   | Some v \<Rightarrow> AList.update fw v fv)
                      [''fastapi'', ''django'', ''flask''] [])
      in (deps_out, lang_vers, fw_vers))"

text \<open>
  One \<^verbatim>\<open>package.json\<close> in \<^verbatim>\<open>_collect_node\<close>: the state is
  \<^verbatim>\<open>(node_deps, language_versions)\<close>. \<^verbatim>\<open>data.get\<close>, \<^verbatim>\<open>section_deps.items()\<close>
  and \<^verbatim>\<open>engines.get\<close> raise \<^verbatim>\<open>AttributeError\<close> on a value that is not an object.
\<close>

definition node_section :: "lib \<Rightarrow> (string \<times> json) list \<Rightarrow> string \<Rightarrow> str_dict \<Rightarrow> py_error + str_dict" where
  "node_section L kvs section node_deps =
     (case get_or_empty kvs section of
        JObj section_deps \<Rightarrow>
          Inr (fold (\<lambda>(name, ver). set_if_absent (lower name) (py_str L ver)) section_deps node_deps)
      | _ \<Rightarrow> Inl AttributeError)"

definition node_package :: "lib \<Rightarrow> wfile \<Rightarrow> str_dict \<times> str_dict \<Rightarrow> py_error + str_dict \<times> str_dict" where
  "node_package L pkg st =
     (case st of (node_deps, lang_vers) \<Rightarrow>
        (case w_text pkg of
           None \<Rightarrow> Inr st
         | Some text \<Rightarrow>
             (case json_loads L text of
                None \<Rightarrow> Inr st
              | Some data \<Rightarrow>
                  (case data of
                     JObj kvs \<Rightarrow>
                       (case fold_err (node_section L kvs) [''dependencies'', ''devDependencies'']
                               node_deps of
                          Inl e \<Rightarrow> Inl e
                        | Inr node_deps' \<Rightarrow>
                            (case get_or_empty kvs ''engines'' of
                               JObj engines \<Rightarrow>
                                 (case map_of engines ''node'' of
                                    None \<Rightarrow> Inr (node_deps', lang_vers)
                                  | Some node_engine \<Rightarrow>
                                      if truthy node_engine
                                         \<and> ''node'' \<notin> fst ` set lang_vers
                                      then Inr (node_deps',
                                             AList.update ''node'' (py_str L node_engine)
                                               lang_vers)
                                      else Inr (node_deps', lang_vers))
                             | _ \<Rightarrow> Inl AttributeError))
                   | _ \<Rightarrow> Inl AttributeError))))"

definition node_framework_keys :: "(string \<times> string) list" where
  "node_framework_keys =
     [(''vue'', ''vue''), (''react'', ''react''), (''@angular/core'', ''angular''),
      (''express'', ''express''), (''nestjs'', ''nestjs''), (''@nestjs/core'', ''nestjs''),
      (''typescript'', ''typescript'')]"

definition collect_node :: "lib \<Rightarrow> wfile list \<Rightarrow> py_error + collected" where
  "collect_node L files =
     (case fold_err (node_package L) (grouped files ''package_json'') ([], []) of
        Inl e \<Rightarrow> Inl e
      | Inr (node_deps, lang_vers) \<Rightarrow>
          if node_deps \<noteq> [] then
            Inr ([(''node'', node_deps)], lang_vers,
                 fold (\<lambda>(fw_key, fw_name) fv.
                         case map_of node_deps fw_key of
                           None \<Rightarrow> fv
                         | Some v \<Rightarrow> set_if_absent fw_name v fv)
                   node_framework_keys [])
          else Inr ([], lang_vers, []))"

text \<open>
  One line of a \<^verbatim>\<open>go.mod\<close>: the state is
  \<^verbatim>\<open>(in_block, go_deps, language_versions)\<close>.
\<close>

definition go_mod_line :: "string \<Rightarrow> bool \<times> str_dict \<times> str_dict \<Rightarrow> bool \<times> str_dict \<times> str_dict" where
  "go_mod_line line st =
     (case st of (in_block, go_deps, lang_vers) \<Rightarrow>
        let s = strip line; parts = split_ws s
        in if s = [] \<or> prefix ''//'' s then st
           else if prefix ''go '' s then
             (if 2 \<le> length parts \<and> ''go'' \<notin> fst ` set lang_vers
              then (in_block, go_deps, AList.update ''go'' (parts ! 1) lang_vers)
              else st)
           else if prefix ''require ('' s then (True, go_deps, lang_vers)
           else if in_block then
             (if prefix '')'' s then (False, go_deps, lang_vers)
              else if 2 \<le> length parts
              then (in_block, AList.update (parts ! 0) (parts ! 1) go_deps, lang_vers)
              else st)
           else if prefix ''require '' s then
             (if 3 \<le> length parts
              then (in_block, AList.update (parts ! 1) (parts ! 2) go_deps, lang_vers)
              else st)
           else st)"

definition go_mod_file :: "wfile \<Rightarrow> str_dict \<times> str_dict \<Rightarrow> str_dict \<times> str_dict" where
  "go_mod_file gm st =
     (case st of (go_deps, lang_vers) \<Rightarrow>
        (case w_text gm of
           None \<Rightarrow> st
         | Some text \<Rightarrow>
             (case fold go_mod_line (splitlines text) (False, go_deps, lang_vers) of
                (in_block, go_deps', lang_vers') \<Rightarrow> (go_deps', lang_vers'))))"

definition go_framework :: "string \<times> string \<Rightarrow> str_dict \<Rightarrow> str_dict" where
  "go_framework mv fv =
     (case mv of (mod_path, ver) \<Rightarrow>
        let lower_mod = lower mod_path;
            fv1 = (if contains lower_mod ''gin-gonic/gin'' then set_if_absent ''gin'' ver fv else fv);
            fv2 = (if contains lower_mod ''labstack/echo'' then set_if_absent ''echo'' ver fv1 else fv1);
            fv3 = (if contains lower_mod ''gofiber/fiber'' then set_if_absent ''fiber'' ver fv2 else fv2)
        in fv3)"

definition collect_go :: "wfile list \<Rightarrow> collected" where
  "collect_go files =
     (let go_mod_files = grouped files ''go_mod''
      in if go_mod_files = [] then ([], [], [])
         else
           case fold go_mod_file go_mod_files ([], []) of
             (go_deps, lang_vers) \<Rightarrow>
               if go_deps \<noteq> []
               then ([(''go'', go_deps)], lang_vers, fold go_framework go_deps [])
               else ([], lang_vers, []))"

text \<open>
  One dependency match in \<^verbatim>\<open>_collect_java_kotlin\<close>, already stripped: the state is
  \<^verbatim>\<open>(java_deps, language_versions, framework_versions)\<close>. The Ktor rule is in the
  Gradle loop only.
\<close>

definition java_dependency ::
  "bool \<Rightarrow> string \<times> string \<times> string \<Rightarrow> str_dict \<times> str_dict \<times> str_dict
     \<Rightarrow> str_dict \<times> str_dict \<times> str_dict" where
  "java_dependency with_ktor dep st =
     (case dep of (group_id, artifact_id, version) \<Rightarrow>
      case st of (java_deps, lv, fv) \<Rightarrow>
        let java_deps' = set_if_absent (group_id @ '':'' @ artifact_id) version java_deps;
            fv1 = (if group_id = ''org.springframework.boot''
                      \<and> prefix ''spring-boot-starter'' artifact_id
                      \<and> ''spring'' \<notin> fst ` set fv \<and> version \<noteq> []
                   then AList.update ''spring'' version fv else fv);
            fv2 = (if (contains (lower group_id) ''junit'' \<or> contains (lower artifact_id) ''junit'')
                      \<and> ''junit'' \<notin> fst ` set fv1 \<and> version \<noteq> []
                   then AList.update ''junit'' version fv1 else fv1);
            lv' = (if prefix ''org.jetbrains.kotlin'' group_id
                      \<and> ''kotlin'' \<notin> fst ` set lv \<and> version \<noteq> []
                   then AList.update ''kotlin'' version lv else lv);
            fv3 = (if with_ktor \<and> prefix ''io.ktor'' group_id
                      \<and> ''ktor'' \<notin> fst ` set fv2 \<and> version \<noteq> []
                   then AList.update ''ktor'' version fv2 else fv2)
        in (java_deps', lv', fv3))"

definition pom_file :: "lib \<Rightarrow> wfile \<Rightarrow> str_dict \<times> str_dict \<times> str_dict \<Rightarrow> str_dict \<times> str_dict \<times> str_dict" where
  "pom_file L pom st =
     (case w_text pom of
        None \<Rightarrow> st
      | Some content \<Rightarrow>
          (case st of (java_deps, lv, fv) \<Rightarrow>
             let lv1 = (case maven_source L content of
                          None \<Rightarrow> lv
                        | Some g \<Rightarrow> if ''java'' \<notin> fst ` set lv
                                     then AList.update ''java'' (strip g) lv else lv)
             in fold (\<lambda>(g1, g2, g3).
                        java_dependency False
                          (strip g1, strip g2, strip (case g3 of None \<Rightarrow> [] | Some v \<Rightarrow> v)))
                  (pom_dependencies L content) (java_deps, lv1, fv)))"

definition gradle_file :: "lib \<Rightarrow> wfile \<Rightarrow> str_dict \<times> str_dict \<times> str_dict \<Rightarrow> str_dict \<times> str_dict \<times> str_dict" where
  "gradle_file L gf st =
     (case w_text gf of
        None \<Rightarrow> st
      | Some content \<Rightarrow>
          (case st of (java_deps, lv, fv) \<Rightarrow>
             let lv1 = (case gradle_source L content of
                          None \<Rightarrow> lv
                        | Some g \<Rightarrow> if ''java'' \<notin> fst ` set lv
                                     then AList.update ''java'' (strip g) lv else lv)
             in fold (\<lambda>(g1, g2, g3). java_dependency True (strip g1, strip g2, strip g3))
                  (gradle_dependencies L content) (java_deps, lv1, fv)))"

definition collect_java_kotlin :: "lib \<Rightarrow> wfile list \<Rightarrow> collected" where
  "collect_java_kotlin L files =
     (case fold (gradle_file L) (grouped files ''gradle'')
             (fold (pom_file L) (grouped files ''pom'') ([], [], [])) of
        (java_deps, lv, fv) \<Rightarrow>
          ((if java_deps \<noteq> [] then [(''java'', java_deps)] else []), lv, fv))"

subsection \<open>\<^verbatim>\<open>_detect_dependencies_and_versions\<close>\<close>

text \<open>
  The body of the loop over the collectors for the result of one collector:
  \<^verbatim>\<open>deps_all.setdefault(eco, {}).update(pkgs)\<close> for the dependencies, and
  \<^verbatim>\<open>if k not in ...\<close> for the two version dictionaries.
\<close>

definition merge_collected :: "collected \<Rightarrow> collected \<Rightarrow> collected" where
  "merge_collected c acc =
     (case c of (deps, lang_ver, fw_ver) \<Rightarrow>
      case acc of (deps_all, lang_versions_all, fw_versions_all) \<Rightarrow>
        (fold (\<lambda>(eco, pkgs) d.
                 AList.update eco
                   (dict_update (case map_of d eco of None \<Rightarrow> [] | Some dst \<Rightarrow> dst) pkgs) d)
           deps deps_all,
         fold (\<lambda>(k, v). set_if_absent k v) lang_ver lang_versions_all,
         fold (\<lambda>(k, v). set_if_absent k v) fw_ver fw_versions_all))"

text \<open>
  The collectors run in the order of the source's tuple
  \<^verbatim>\<open>(_collect_python, _collect_node, _collect_go, _collect_java_kotlin)\<close>; only
  \<^verbatim>\<open>_collect_node\<close> can raise.
\<close>

definition detect_dependencies_and_versions ::
  "lib \<Rightarrow> node list \<Rightarrow> wfile list \<Rightarrow> py_error + collected" where
  "detect_dependencies_and_versions L es files =
     (let acc1 = merge_collected (collect_python L es files) ([], [], [])
      in case collect_node L files of
           Inl e \<Rightarrow> Inl e
         | Inr c_node \<Rightarrow>
             let acc2 = merge_collected c_node acc1;
                 acc3 = merge_collected (collect_go files) acc2;
                 acc4 = merge_collected (collect_java_kotlin L files) acc3
             in Inr acc4)"

subsection \<open>\<^verbatim>\<open>_detect_deploy_artifacts\<close>\<close>

definition detect_deploy_artifacts :: "string list \<Rightarrow> wfile list \<Rightarrow> bool \<times> bool \<times> bool" where
  "detect_deploy_artifacts base files =
     (list_ex (\<lambda>f. is_dockerfile_name (lower (w_name f))) files,
      list_ex (\<lambda>f. lower (w_name f) \<in> set [''docker-compose.yml'', ''docker-compose.yaml'']) files,
      list_ex (\<lambda>f. (suffix ''.yml'' (lower (w_name f)) \<or> suffix ''.yaml'' (lower (w_name f)))
                   \<and> list_ex (\<lambda>part. part \<in> set [''k8s'', ''kubernetes'', ''manifests''])
                       (w_parts base f)) files)"

subsection \<open>\<^verbatim>\<open>analyze_stack\<close>\<close>

definition missing_path_warning :: string where
  \<open>missing_path_warning =
    [CHR 0xD0, CHR 0x9F, CHR 0xD1, CHR 0x83, CHR 0xD1, CHR 0x82, CHR 0xD1, CHR 0x8C, CHR 0x20,
      CHR 0xD0, CHR 0xBA, CHR 0x20, CHR 0xD1, CHR 0x80, CHR 0xD0, CHR 0xB5, CHR 0xD0, CHR 0xBF,
      CHR 0xD0, CHR 0xBE, CHR 0xD0, CHR 0xB7, CHR 0xD0, CHR 0xB8, CHR 0xD1, CHR 0x82, CHR 0xD0,
      CHR 0xBE, CHR 0xD1, CHR 0x80, CHR 0xD0, CHR 0xB8, CHR 0xD1, CHR 0x8E, CHR 0x20, CHR 0xD0,
      CHR 0xBD, CHR 0xD0, CHR 0xB5, CHR 0x20, CHR 0xD1, CHR 0x81, CHR 0xD1, CHR 0x83, CHR 0xD1,
      CHR 0x89, CHR 0xD0, CHR 0xB5, CHR 0xD1, CHR 0x81, CHR 0xD1, CHR 0x82, CHR 0xD0, CHR 0xB2,
      CHR 0xD1, CHR 0x83, CHR 0xD0, CHR 0xB5, CHR 0xD1, CHR 0x82, CHR 0x2C, CHR 0x20, CHR 0xD0,
      CHR 0xB0, CHR 0xD0, CHR 0xBD, CHR 0xD0, CHR 0xB0, CHR 0xD0, CHR 0xBB, CHR 0xD0, CHR 0xB8,
      CHR 0xD0, CHR 0xB7, CHR 0x20, CHR 0xD0, CHR 0xBD, CHR 0xD0, CHR 0xB5, CHR 0xD0, CHR 0xB2,
      CHR 0xD0, CHR 0xBE, CHR 0xD0, CHR 0xB7, CHR 0xD0, CHR 0xBC, CHR 0xD0, CHR 0xBE, CHR 0xD0,
      CHR 0xB6, CHR 0xD0, CHR 0xB5, CHR 0xD0, CHR 0xBD] @ ''.''\<close>

text \<open>The warning of the noise filter: an f-string with the language in it.\<close>

definition noise_warning :: "string \<Rightarrow> string" where
  \<open>noise_warning lang =
    [CHR 0xD0, CHR 0x9E, CHR 0xD0, CHR 0xB1, CHR 0xD0, CHR 0xBD, CHR 0xD0, CHR 0xB0, CHR 0xD1,
      CHR 0x80, CHR 0xD1, CHR 0x83, CHR 0xD0, CHR 0xB6, CHR 0xD0, CHR 0xB5, CHR 0xD0, CHR 0xBD,
      CHR 0x20, CHR 0xD0, CHR 0xB5, CHR 0xD0, CHR 0xB4, CHR 0xD0, CHR 0xB8, CHR 0xD0, CHR 0xBD,
      CHR 0xD0, CHR 0xB8, CHR 0xD1, CHR 0x87, CHR 0xD0, CHR 0xBD, CHR 0xD1, CHR 0x8B, CHR 0xD0,
      CHR 0xB9, CHR 0x20, CHR 0xD1, CHR 0x84, CHR 0xD0, CHR 0xB0, CHR 0xD0, CHR 0xB9, CHR 0xD0,
      CHR 0xBB, CHR 0x20, CHR 0xD1, CHR 0x8F, CHR 0xD0, CHR 0xB7, CHR 0xD1, CHR 0x8B, CHR 0xD0,
      CHR 0xBA, CHR 0xD0, CHR 0xB0] @ '' ''
      @ lang @
      '' '' @ [CHR 0xD0, CHR 0xB1, CHR 0xD0, CHR 0xB5, CHR 0xD0, CHR 0xB7, CHR 0x20, CHR 0xD0,
        CHR 0xBA, CHR 0xD0, CHR 0xBE, CHR 0xD0, CHR 0xBD, CHR 0xD1, CHR 0x84, CHR 0xD0,
        CHR 0xB8, CHR 0xD0, CHR 0xB3, CHR 0xD1, CHR 0x83, CHR 0xD1, CHR 0x80, CHR 0xD0,
        CHR 0xB0, CHR 0xD1, CHR 0x86, CHR 0xD0, CHR 0xB8, CHR 0xD0, CHR 0xB8, CHR 0x20,
        CHR 0xD0, CHR 0xB7, CHR 0xD0, CHR 0xB0, CHR 0xD0, CHR 0xB2, CHR 0xD0, CHR 0xB8,
        CHR 0xD1, CHR 0x81, CHR 0xD0, CHR 0xB8, CHR 0xD0, CHR 0xBC, CHR 0xD0, CHR 0xBE,
        CHR 0xD1, CHR 0x81, CHR 0xD1, CHR 0x82, CHR 0xD0, CHR 0xB5, CHR 0xD0, CHR 0xB9,
        CHR 0x20, CHR 0xE2, CHR 0x80, CHR 0x94, CHR 0x20, CHR 0xD1, CHR 0x81, CHR 0xD1,
        CHR 0x87, CHR 0xD0, CHR 0xB8, CHR 0xD1, CHR 0x82, CHR 0xD0, CHR 0xB0, CHR 0xD0,
        CHR 0xB5, CHR 0xD0, CHR 0xBC, CHR 0x20, CHR 0xD0, CHR 0xB5, CHR 0xD0, CHR 0xB3,
        CHR 0xD0, CHR 0xBE, CHR 0x20, CHR 0xD0, CHR 0xB2, CHR 0xD1, CHR 0x81, CHR 0xD0,
        CHR 0xBF, CHR 0xD0, CHR 0xBE, CHR 0xD0, CHR 0xBC, CHR 0xD0, CHR 0xBE, CHR 0xD0,
        CHR 0xB3, CHR 0xD0, CHR 0xB0, CHR 0xD1, CHR 0x82, CHR 0xD0, CHR 0xB5, CHR 0xD0,
        CHR 0xBB, CHR 0xD1, CHR 0x8C, CHR 0xD0, CHR 0xBD, CHR 0xD1, CHR 0x8B, CHR 0xD0,
        CHR 0xBC, CHR 0x20, CHR 0xD0, CHR 0xB8, CHR 0x20, CHR 0xD0, CHR 0xBD, CHR 0xD0,
        CHR 0xB5, CHR 0x20, CHR 0xD0, CHR 0xB2, CHR 0xD0, CHR 0xBA, CHR 0xD0, CHR 0xBB,
        CHR 0xD1, CHR 0x8E, CHR 0xD1, CHR 0x87, CHR 0xD0, CHR 0xB0, CHR 0xD0, CHR 0xB5,
        CHR 0xD0, CHR 0xBC, CHR 0x20, CHR 0xD0, CHR 0xB2, CHR 0x20, CHR 0xD0, CHR 0xBE,
        CHR 0xD1, CHR 0x81, CHR 0xD0, CHR 0xBD, CHR 0xD0, CHR 0xBE, CHR 0xD0, CHR 0xB2,
        CHR 0xD0, CHR 0xBD, CHR 0xD0, CHR 0xBE, CHR 0xD0, CHR 0xB9, CHR 0x20, CHR 0xD1,
        CHR 0x81, CHR 0xD1, CHR 0x82, CHR 0xD0, CHR 0xB5, CHR 0xD0, CHR 0xBA] @ ''.''\<close>

definition no_language_warning :: string where
  \<open>no_language_warning =
    [CHR 0xD0, CHR 0x9D, CHR 0xD0, CHR 0xB5, CHR 0x20, CHR 0xD1, CHR 0x83, CHR 0xD0, CHR 0xB4,
      CHR 0xD0, CHR 0xB0, CHR 0xD0, CHR 0xBB, CHR 0xD0, CHR 0xBE, CHR 0xD1, CHR 0x81, CHR 0xD1,
      CHR 0x8C, CHR 0x20, CHR 0xD0, CHR 0xB8, CHR 0xD0, CHR 0xB4, CHR 0xD0, CHR 0xB5, CHR 0xD0,
      CHR 0xBD, CHR 0xD1, CHR 0x82, CHR 0xD0, CHR 0xB8, CHR 0xD1, CHR 0x84, CHR 0xD0, CHR 0xB8,
      CHR 0xD1, CHR 0x86, CHR 0xD0, CHR 0xB8, CHR 0xD1, CHR 0x80, CHR 0xD0, CHR 0xBE, CHR 0xD0,
      CHR 0xB2, CHR 0xD0, CHR 0xB0, CHR 0xD1, CHR 0x82, CHR 0xD1, CHR 0x8C, CHR 0x20, CHR 0xD0,
      CHR 0xBE, CHR 0xD1, CHR 0x81, CHR 0xD0, CHR 0xBD, CHR 0xD0, CHR 0xBE, CHR 0xD0, CHR 0xB2,
      CHR 0xD0, CHR 0xBD, CHR 0xD0, CHR 0xBE, CHR 0xD0, CHR 0xB9, CHR 0x20, CHR 0xD1, CHR 0x8F,
      CHR 0xD0, CHR 0xB7, CHR 0xD1, CHR 0x8B, CHR 0xD0, CHR 0xBA, CHR 0x20, CHR 0xD0, CHR 0xBF,
      CHR 0xD1, CHR 0x80, CHR 0xD0, CHR 0xBE, CHR 0xD0, CHR 0xB5, CHR 0xD0, CHR 0xBA, CHR 0xD1,
      CHR 0x82, CHR 0xD0, CHR 0xB0, CHR 0x2E, CHR 0x20, CHR 0xD0, CHR 0x9F, CHR 0xD0, CHR 0xB0,
      CHR 0xD0, CHR 0xB9, CHR 0xD0, CHR 0xBF, CHR 0xD0, CHR 0xBB, CHR 0xD0, CHR 0xB0, CHR 0xD0,
      CHR 0xB9, CHR 0xD0, CHR 0xBD, CHR 0x20, CHR 0xD0, CHR 0xB1, CHR 0xD1, CHR 0x83, CHR 0xD0,
      CHR 0xB4, CHR 0xD0, CHR 0xB5, CHR 0xD1, CHR 0x82, CHR 0x20, CHR 0xD0, CHR 0xBF, CHR 0xD0,
      CHR 0xBE, CHR 0xD1, CHR 0x81, CHR 0xD1, CHR 0x82, CHR 0xD1, CHR 0x80, CHR 0xD0, CHR 0xBE,
      CHR 0xD0, CHR 0xB5, CHR 0xD0, CHR 0xBD, CHR 0x20, CHR 0xD0, CHR 0xBF, CHR 0xD0, CHR 0xBE,
      CHR 0x20, CHR 0xD1, CHR 0x83, CHR 0xD0, CHR 0xBC, CHR 0xD0, CHR 0xBE, CHR 0xD0, CHR 0xBB,
      CHR 0xD1, CHR 0x87, CHR 0xD0, CHR 0xB0, CHR 0xD0, CHR 0xBD, CHR 0xD0, CHR 0xB8, CHR 0xD1,
      CHR 0x8F, CHR 0xD0, CHR 0xBC] @ ''.''\<close>

definition ECO_PMS :: "(string \<times> string list) list" where
  "ECO_PMS =
     [(''python'', [''pip'', ''poetry'', ''pipenv'']),
      (''javascript'', [''npm'', ''yarn'', ''pnpm'']),
      (''java'', [''maven'', ''gradle'']),
      (''go'', [''go-mod''])]"

text \<open>
  The body of the noise-filter loop for one language: the state is
  \<^verbatim>\<open>(filtered_languages, warnings)\<close>.
\<close>

definition noise_step ::
  "(string \<times> nat) list \<Rightarrow> string list \<Rightarrow> string \<Rightarrow> string list \<times> string list
     \<Rightarrow> string list \<times> string list" where
  "noise_step lang_counts pms lang st =
     (case st of (filtered, warnings) \<Rightarrow>
        (case map_of ECO_PMS lang of
           None \<Rightarrow> st
         | Some pms_for_lang \<Rightarrow>
             if pms_for_lang = [] then st
             else
               let files_count = (case map_of lang_counts lang of None \<Rightarrow> 0 | Some c \<Rightarrow> c);
                   has_pm = list_ex (\<lambda>pm. pm \<in> set pms_for_lang) pms
               in if files_count \<le> 1 \<and> \<not> has_pm
                  then (remove1 lang filtered, warnings @ [noise_warning lang])
                  else st))"

text \<open>
  \<open>base\<close> is \<^verbatim>\<open>repo_path.parts\<close>; the tree is \<open>None\<close> when the path does not
  exist, and the entries of the repository root otherwise. The result is the stack and
  the warnings, or the exception that leaves \<^verbatim>\<open>analyze_stack\<close>. Every detector walks
  the same tree, so the walk is made once. The \<^verbatim>\<open>logs\<close> list is left out.
\<close>

definition analyze_stack ::
  "lib \<Rightarrow> string list \<Rightarrow> node list option \<Rightarrow> py_error + StackInfo \<times> string list" where
  "analyze_stack L base tree =
     (case tree of
        None \<Rightarrow> Inr (StackInfo_default, [missing_path_warning])
      | Some es \<Rightarrow>
          let files = iter_files es;
              langs = fst (detect_languages files);
              lang_counts = snd (detect_languages files);
              pms = detect_package_managers files
          in (case detect_frameworks L files of
               Inl e \<Rightarrow> Inl e
             | Inr fws \<Rightarrow>
                 (case detect_deploy_artifacts base files of
                    (has_df, has_compose, has_k8s) \<Rightarrow>
                      (case detect_dependencies_and_versions L es files of
                         Inl e \<Rightarrow> Inl e
                       | Inr (deps, lang_vers, fw_vers) \<Rightarrow>
                           (case fold (noise_step lang_counts pms) langs (langs, []) of
                              (filtered, warnings) \<Rightarrow>
                                let stack =
                                      \<lparr>languages = sort filtered,
                                       frameworks = sorted_set (fws @ map fst fw_vers),
                                       package_managers = pms,
                                       has_dockerfile = has_df,
                                       has_docker_compose = has_compose,
                                       has_k8s_manifests = has_k8s,
                                       dependencies = deps,
                                       language_versions = lang_vers,
                                       framework_versions = fw_vers,
                                       dockerfiles = detect_dockerfiles base es\<rparr>;
                                    warnings' =
                                      (if filtered = [] then warnings @ [no_language_warning]
                                       else warnings)
                                in Inr (stack, warnings'))))))"

text \<open>
  The two calls of \<^verbatim>\<open>create_pipline\<close> (core/core.py): the analysis, then the
  pipeline built from its stack. The result is the stack, the pipeline and the warnings
  of both steps.
\<close>

definition analyze_and_build ::
  "lib \<Rightarrow> string list \<Rightarrow> node list option
     \<Rightarrow> py_error + StackInfo \<times> Pipeline \<times> string list" where
  "analyze_and_build L base tree =
     (case analyze_stack L base tree of
        Inl e \<Rightarrow> Inl e
      | Inr (stack, analysis_warnings) \<Rightarrow>
          (case build_pipeline stack of
             (pipeline, pipeline_warnings) \<Rightarrow>
               Inr (stack, pipeline, analysis_warnings @ pipeline_warnings)))"



section \<open>Example inputs\<close>

text \<open>
  Two Dockerfiles in directories of the same name, \<^verbatim>\<open>a/api/Dockerfile\<close> and
  \<^verbatim>\<open>b/api/Dockerfile\<close>, as \<open>detect_dockerfiles\<close> describes them.
\<close>

definition two_api_stack :: StackInfo where
  "two_api_stack = StackInfo_default
     \<lparr>dockerfiles :=
        [\<lparr>df_path = ''a/api/Dockerfile'', df_context = ''a/api'', df_name = ''api'', df_kind = None\<rparr>,
         \<lparr>df_path = ''b/api/Dockerfile'', df_context = ''b/api'', df_name = ''api'', df_kind = None\<rparr>]\<rparr>"

text \<open>A Java project built with Gradle: no other language, no framework, no Docker file.\<close>

definition java_gradle_stack :: StackInfo where
  "java_gradle_stack =
     StackInfo_default\<lparr>languages := [''java''], package_managers := [''gradle'']\<rparr>"

text \<open>
  The library's answers for the example trees below: their files hold no JSON document
  and no match of any of the patterns.
\<close>

definition silent_lib :: lib where
  "silent_lib =
     \<lparr>json_loads = (\<lambda>text. None), repr_dict = (\<lambda>d. []), python_image = (\<lambda>text. None),
      maven_source = (\<lambda>text. None), pom_dependencies = (\<lambda>text. []),
      gradle_source = (\<lambda>text. None), gradle_dependencies = (\<lambda>text. [])\<rparr>"

text \<open>A root \<^verbatim>\<open>Dockerfile\<close> and \<^verbatim>\<open>services/api/Dockerfile\<close>.\<close>

definition two_dockerfiles_tree :: "node list" where
  "two_dockerfiles_tree =
     [File ''Dockerfile'' (Some ''FROM alpine''),
      Dir ''services'' [Dir ''api'' [File ''Dockerfile'' (Some ''FROM alpine'')]]]"

text \<open>A tree whose only Docker file has a lower-case name, and one whose only
  \<^verbatim>\<open>Dockerfile\<close> is inside \<^verbatim>\<open>node_modules\<close>.\<close>

definition lowercase_dockerfile_tree :: "node list" where
  "lowercase_dockerfile_tree = [File ''dockerfile'' (Some ''FROM alpine'')]"

definition vendored_dockerfile_tree :: "node list" where
  "vendored_dockerfile_tree = [Dir ''node_modules'' [File ''Dockerfile'' (Some ''FROM alpine'')]]"






text \<open>A \<^verbatim>\<open>Dockerfile\<close> two directories down, and a lower-case one under
  \<^verbatim>\<open>node_modules\<close>.\<close>

definition nested_dockerfile_tree :: "node list" where
  "nested_dockerfile_tree =
     [Dir ''services'' [Dir ''api'' [File ''Dockerfile'' (Some ''FROM alpine'')]],
      Dir ''node_modules'' [File ''dockerfile'' (Some ''FROM alpine'')]]"
section \<open>Properties of the pipeline builder\<close>

subsection \<open>Canonical stage order\<close>

lemma remdups_snoc: "remdups (ys @ [x]) = remdups [y \<leftarrow> ys. y \<noteq> x] @ [x]"
  by (induction ys) auto

lemma first_occ_Cons:
  "rev (remdups (rev (x # xs))) = x # rev (remdups (rev [y \<leftarrow> xs. y \<noteq> x]))"
  by (simp add: remdups_snoc rev_filter)

lemma fold_append_new:
  "fold (\<lambda>x acc. if x \<in> set acc then acc else acc @ [x]) xs acc
     = acc @ rev (remdups (rev [x \<leftarrow> xs. x \<notin> set acc]))"
proof (induction xs arbitrary: acc)
  case Nil
  then show ?case by simp
next
  case (Cons x xs)
  show ?case
  proof (cases "x \<in> set acc")
    case True
    then show ?thesis using Cons.IH [of acc] by simp
  next
    case False
    have "[y \<leftarrow> xs. y \<notin> set (acc @ [x])] = [y \<leftarrow> [y \<leftarrow> xs. y \<notin> set acc]. y \<noteq> x]"
      by (induction xs) auto
    then show ?thesis
      using False Cons.IH [of "acc @ [x]"] first_occ_Cons [of x "[y \<leftarrow> xs. y \<notin> set acc]"]
      by simp
  qed
qed

lemma dict_fromkeys_eq: "dict_fromkeys xs = rev (remdups (rev xs))"
  by (simp add: dict_fromkeys_def fold_append_new)

lemma fold_append_if:
  "fold (\<lambda>name acc. if name \<in> U then acc @ [name] else acc) cs acc = acc @ [n \<leftarrow> cs. n \<in> U]"
  by (induction cs arbitrary: acc) auto

lemma first_occ_filter:
  "[y \<leftarrow> rev (remdups (rev xs)). P y] = rev (remdups (rev [y \<leftarrow> xs. P y]))"
  by (simp add: rev_filter remdups_filter)

lemma order_stages_eq:
  "order_stages stgs =
     [n \<leftarrow> canonical_order. n \<in> set stgs] @ rev (remdups (rev [n \<leftarrow> stgs. n \<notin> set canonical_order]))"
proof (cases "stgs = []")
  case True
  then show ?thesis by (simp add: order_stages_def)
next
  case False
  let ?u = "rev (remdups (rev stgs))"
  let ?o = "[n \<leftarrow> canonical_order. n \<in> set stgs]"
  have swap: "(\<lambda>name acc. if name \<notin> set acc then acc @ [name] else acc)
            = (\<lambda>x acc. if x \<in> set acc then acc else acc @ [x])"
    by (intro ext) simp
  have "order_stages stgs = ?o @ rev (remdups (rev [x \<leftarrow> ?u. x \<notin> set ?o]))"
    using False
    by (simp add: order_stages_def dict_fromkeys_eq Let_def fold_append_if swap fold_append_new)
  moreover have "[x \<leftarrow> ?u. x \<notin> set ?o] = [x \<leftarrow> ?u. x \<notin> set canonical_order]"
    by (rule filter_cong) auto
  ultimately show ?thesis
    by (simp add: first_occ_filter)
qed

lemma distinct_order_stages: "distinct (order_stages stgs)"
  by (auto simp: order_stages_eq canonical_order_def)

subsection \<open>The builder's lists after each block\<close>

lemma b_register [simp]:
  "b_jobs (register st b) = b_jobs b"
  "b_warnings (register st b) = b_warnings b"
  "b_stages (register st b) = ensure_stage (b_stages b) st"
  by (simp_all add: register_def)

lemma b_append_job [simp]:
  "b_jobs (append_job j b) = b_jobs b @ [j]"
  "b_warnings (append_job j b) = b_warnings b"
  "b_stages (append_job j b) = b_stages b"
  by (simp_all add: append_job_def)

lemma b_append_warning [simp]:
  "b_jobs (append_warning w b) = b_jobs b"
  "b_warnings (append_warning w b) = b_warnings b @ [w]"
  "b_stages (append_warning w b) = b_stages b"
  by (simp_all add: append_warning_def)

lemma b_fold_docker [simp]:
  "b_jobs (fold (\<lambda>df. append_job (f df)) dfs b) = b_jobs b @ map f dfs"
  "b_warnings (fold (\<lambda>df. append_job (f df)) dfs b) = b_warnings b"
  "b_stages (fold (\<lambda>df. append_job (f df)) dfs b) = b_stages b"
  by (induction dfs arbitrary: b) simp_all

lemma node_pm_nonempty: "node_pm s \<noteq> []"
  by (simp add: node_pm_def)

lemma set_ensure_stage [simp]: "set (ensure_stage stgs st) = insert st (set stgs)"
  by (auto simp: ensure_stage_def)

lemma jobs_ok_register: "jobs_ok b \<Longrightarrow> jobs_ok (register st b)"
  by (auto simp: jobs_ok_def list_all_iff)

lemma jobs_ok_append_job:
  "jobs_ok b \<Longrightarrow> job_stage j \<in> set (b_stages b) \<Longrightarrow> jobs_ok (append_job j b)"
  by (auto simp: jobs_ok_def list_all_iff)

lemma jobs_ok_append_warning: "jobs_ok b \<Longrightarrow> jobs_ok (append_warning w b)"
  by (auto simp: jobs_ok_def list_all_iff)

lemma stage_new_job [simp]: "job_stage (new_job n st img scr) = st" "job_name (new_job n st img scr) = n"
  by (simp_all add: new_job_def)

lemmas jobs_ok_intros = jobs_ok_register jobs_ok_append_job jobs_ok_append_warning

lemma jobs_ok_python: "jobs_ok b \<Longrightarrow> jobs_ok (python_block s b)"
  by (auto simp: python_block_def intro!: jobs_ok_intros)

lemma jobs_ok_node: "jobs_ok b \<Longrightarrow> jobs_ok (node_block s b)"
  by (auto simp: node_block_def Let_def split: prod.splits intro!: jobs_ok_intros)

lemma jobs_ok_go: "jobs_ok b \<Longrightarrow> jobs_ok (go_block s b)"
  by (auto simp: go_block_def intro!: jobs_ok_intros)

lemma jobs_ok_java: "jobs_ok b \<Longrightarrow> jobs_ok (java_block s b)"
  by (auto simp: java_block_def intro!: jobs_ok_intros)

lemma jobs_ok_quality: "jobs_ok b \<Longrightarrow> jobs_ok (append_quality_jobs s b)"
  by (auto simp: append_quality_jobs_def Let_def intro!: jobs_ok_intros)

lemma docker_job_simps [simp]:
  "job_stage (docker_job df) = ''docker''"
  "job_name (docker_job df) = docker_job_name df"
  by (simp_all add: docker_job_def)

lemma jobs_ok_fold_docker:
  assumes "jobs_ok b" and "''docker'' \<in> set (b_stages b)"
  shows "jobs_ok (fold (\<lambda>df. append_job (docker_job df)) dfs b)"
  using assms
proof (induction dfs arbitrary: b)
  case Nil
  then show ?case by simp
next
  case (Cons a dfs)
  have "jobs_ok (append_job (docker_job a) b)"
    using Cons.prems by (auto intro: jobs_ok_append_job)
  moreover have "''docker'' \<in> set (b_stages (append_job (docker_job a) b))"
    using Cons.prems by simp
  ultimately show ?case
    using Cons.IH by simp
qed

lemma jobs_ok_docker: "jobs_ok b \<Longrightarrow> jobs_ok (docker_block s b)"
  by (auto simp: docker_block_def intro!: jobs_ok_intros jobs_ok_fold_docker)

lemma jobs_ok_deploy: "jobs_ok b \<Longrightarrow> jobs_ok (deploy_block b)"
  by (auto simp: deploy_block_def intro!: jobs_ok_intros)

lemma jobs_ok_placeholder: "jobs_ok b \<Longrightarrow> jobs_ok (placeholder_block s b)"
  by (auto simp: placeholder_block_def Let_def intro!: jobs_ok_intros)

lemma jobs_ok_registered: "jobs_ok (registered s)"
  unfolding registered_def
  by (intro jobs_ok_placeholder jobs_ok_deploy jobs_ok_docker jobs_ok_quality jobs_ok_java
        jobs_ok_go jobs_ok_node jobs_ok_python) (simp add: jobs_ok_def builder_empty_def)

lemma set_order_stages: "set (order_stages stgs) = set stgs"
  by (auto simp: order_stages_eq)

lemma warnings_distinct:
  "placeholders_only_warning \<noteq> quality_warning"
  "placeholders_only_warning \<noteq> docker_jobs_warning"
  "placeholders_only_warning \<noteq> docker_fallback_warning"
  by (simp_all add: placeholders_only_warning_def quality_warning_def docker_jobs_warning_def
      docker_fallback_warning_def)

lemma jobs_python_block:
  "b_jobs (python_block s b) = b_jobs b @
     (if ''python'' \<in> set (languages s)
      then [new_job ''python_tests'' ''test'' (Some ''python:3.11-slim'') python_test_script,
            new_job ''python_lint'' ''lint'' (Some ''python:3.11-slim'') python_lint_script]
      else [])"
  by (simp add: python_block_def)

lemma jobs_node_block:
  "b_jobs (node_block s b) = b_jobs b @
     (if has_node s
      then (case node_cmds (node_pm s) of
              (install_cmd, test_cmd, build_cmd, lint_cmd) \<Rightarrow>
                [new_job ''node_lint'' ''lint'' (Some ''node:20-alpine'') [install_cmd, lint_cmd],
                 new_job ''node_tests'' ''test'' (Some ''node:20-alpine'') [install_cmd, test_cmd],
                 (new_job ''node_build'' ''build'' (Some ''node:20-alpine'') [install_cmd, build_cmd])
                   \<lparr>job_artifacts := Some [''dist'']\<rparr>])
      else [])"
  by (simp add: node_block_def Let_def node_pm_nonempty split: prod.splits)

lemma jobs_go_block:
  "b_jobs (go_block s b) = b_jobs b @
     (if ''go'' \<in> set (languages s)
      then [new_job ''go_tests'' ''test'' (Some ''golang:1.22'') go_test_script,
            new_job ''go_build'' ''build'' (Some ''golang:1.22'') go_build_script]
      else [])"
  by (simp add: go_block_def)

lemma jobs_java_block:
  "b_jobs (java_block s b) = b_jobs b @
     (if ''java'' \<in> set (languages s) \<and> ''maven'' \<in> set (package_managers s)
      then [new_job ''java_tests'' ''test'' (Some ''maven:3.9-eclipse-temurin-17'') java_test_script,
            new_job ''java_build'' ''build'' (Some ''maven:3.9-eclipse-temurin-17'') java_build_script]
      else [])"
  by (simp add: java_block_def)

lemma jobs_quality:
  "b_jobs (append_quality_jobs s b) = b_jobs b @
     (if ''java'' \<in> set (languages s) \<and> ''maven'' \<in> set (package_managers s)
      then [new_job ''java_sonar'' ''quality'' (Some ''maven:3.9-eclipse-temurin-17'') java_sonar_script]
      else []) @
     (if has_node s
      then [new_job ''node_sonar'' ''quality'' (Some ''node:20-alpine'') node_sonar_script]
      else [])"
  by (simp add: append_quality_jobs_def Let_def)

lemma jobs_docker_block:
  "b_jobs (docker_block s b) = b_jobs b @
     (if dockerfiles s \<noteq> [] then map docker_job (dockerfiles s)
      else if has_dockerfile s
      then [new_job ''docker_build'' ''docker'' (Some ''docker:24'') docker_fallback_script]
      else [])"
  by (simp add: docker_block_def)

lemma jobs_deploy_block:
  "b_jobs (deploy_block b) = b_jobs b @ [new_job ''deploy_placeholder'' ''deploy'' None deploy_script]"
  by (simp add: deploy_block_def)

lemma jobs_placeholder_block: "b_jobs (placeholder_block s b) = b_jobs b"
  by (simp add: placeholder_block_def Let_def)

lemmas jobs_blocks = jobs_python_block jobs_node_block jobs_go_block jobs_java_block jobs_quality
  jobs_docker_block jobs_deploy_block jobs_placeholder_block

lemma job_names_registered:
  "map job_name (b_jobs (registered s)) =
     (if ''python'' \<in> set (languages s) then [''python_tests'', ''python_lint''] else []) @
     (if has_node s then [''node_lint'', ''node_tests'', ''node_build''] else []) @
     (if ''go'' \<in> set (languages s) then [''go_tests'', ''go_build''] else []) @
     (if ''java'' \<in> set (languages s) \<and> ''maven'' \<in> set (package_managers s)
      then [''java_tests'', ''java_build'', ''java_sonar''] else []) @
     (if has_node s then [''node_sonar''] else []) @
     (if dockerfiles s \<noteq> [] then map docker_job_name (dockerfiles s)
      else if has_dockerfile s then [''docker_build''] else []) @
     [''deploy_placeholder'']"
  by (simp add: registered_def jobs_blocks builder_empty_def split: prod.splits)

lemma docker_job_name_fixed:
  "docker_job_name df \<notin> set [''python_tests'', ''python_lint'', ''node_lint'', ''node_tests'',
     ''node_build'', ''go_tests'', ''go_build'', ''java_tests'', ''java_build'', ''java_sonar'',
     ''node_sonar'', ''deploy_placeholder'']"
  by (simp add: docker_job_name_def)

lemma distinct_job_names_registered:
  "distinct (map job_name (b_jobs (registered s))) \<longleftrightarrow>
   distinct (map docker_job_name (dockerfiles s))"
proof -
  have fixed: "\<And>n. n \<in> set [''python_tests'', ''python_lint'', ''node_lint'', ''node_tests'',
     ''node_build'', ''go_tests'', ''go_build'', ''java_tests'', ''java_build'', ''java_sonar'',
     ''node_sonar'', ''deploy_placeholder''] \<Longrightarrow> n \<notin> docker_job_name ` set (dockerfiles s)"
    using docker_job_name_fixed by blast
  show ?thesis
    unfolding job_names_registered
    using fixed by (auto simp: )
qed

lemma warnings_registered:
  "b_warnings (registered s) =
     (if (''java'' \<in> set (languages s) \<and> ''maven'' \<in> set (package_managers s)) \<or> has_node s
      then [quality_warning] else []) @
     (if dockerfiles s \<noteq> [] then [docker_jobs_warning]
      else if has_dockerfile s then [docker_fallback_warning] else []) @
     (if \<not> (''python'' \<in> set (languages s) \<or> has_node s \<or> ''go'' \<in> set (languages s)
              \<or> ''java'' \<in> set (languages s))
      then [placeholders_only_warning] else [])"
  by (simp add: registered_def placeholder_block_def deploy_block_def docker_block_def
      append_quality_jobs_def java_block_def go_block_def node_block_def python_block_def
      builder_empty_def Let_def node_pm_nonempty split: prod.splits)
subsection \<open>The jobs of the Docker and deploy stages\<close>

lemma pre_stages:
  "map job_stage (b_jobs (append_quality_jobs s (java_block s (go_block s (node_block s
                (python_block s builder_empty))))))
   = (if ''python'' \<in> set (languages s) then [''test'', ''lint''] else []) @
     (if has_node s then [''lint'', ''test'', ''build''] else []) @
     (if ''go'' \<in> set (languages s) then [''test'', ''build''] else []) @
     (if ''java'' \<in> set (languages s) \<and> ''maven'' \<in> set (package_managers s)
      then [''test'', ''build'', ''quality''] else []) @
     (if has_node s then [''quality''] else [])"
  by (simp add: jobs_blocks builder_empty_def split: prod.splits)
lemma jobs_registered_split:
  "\<exists>pre. b_jobs (registered s)
            = pre @ docker_part s @ [new_job ''deploy_placeholder'' ''deploy'' None deploy_script]
         \<and> (\<forall>j \<in> set pre. job_stage j \<in> {''lint'', ''test'', ''build'', ''quality''})
         \<and> (pre = [] \<longleftrightarrow> \<not> (''python'' \<in> set (languages s) \<or> has_node s
                \<or> ''go'' \<in> set (languages s)
                \<or> (''java'' \<in> set (languages s) \<and> ''maven'' \<in> set (package_managers s))))"
proof -
  let ?pre = "b_jobs (append_quality_jobs s (java_block s (go_block s (node_block s
                (python_block s builder_empty)))))"
  have 1: "b_jobs (registered s)
            = ?pre @ docker_part s @ [new_job ''deploy_placeholder'' ''deploy'' None deploy_script]"
    by (simp add: registered_def jobs_placeholder_block jobs_deploy_block jobs_docker_block
        docker_part_def)
  have "set (map job_stage ?pre) \<subseteq> {''lint'', ''test'', ''build'', ''quality''}"
    unfolding pre_stages by auto
  then have 2: "\<forall>j \<in> set ?pre. job_stage j \<in> {''lint'', ''test'', ''build'', ''quality''}"
    by auto
  have 3: "?pre = [] \<longleftrightarrow> \<not> (''python'' \<in> set (languages s) \<or> has_node s
                \<or> ''go'' \<in> set (languages s)
                \<or> (''java'' \<in> set (languages s) \<and> ''maven'' \<in> set (package_managers s)))"
  proof -
    have "?pre = [] \<longleftrightarrow> map job_stage ?pre = []" by simp
    then show ?thesis unfolding pre_stages by auto
  qed
  from 1 2 3 show ?thesis by blast
qed

lemma docker_part_stage: "\<forall>j \<in> set (docker_part s). job_stage j = ''docker''"
  by (auto simp: docker_part_def)

lemma filter_docker_jobs:
  "[j \<leftarrow> b_jobs (registered s). job_stage j = ''docker''] = docker_part s"
proof -
  obtain pre where p: "b_jobs (registered s)
            = pre @ docker_part s @ [new_job ''deploy_placeholder'' ''deploy'' None deploy_script]"
    and q: "\<forall>j \<in> set pre. job_stage j \<in> {''lint'', ''test'', ''build'', ''quality''}"
    using jobs_registered_split [of s] by blast
  have "[j \<leftarrow> pre. job_stage j = ''docker''] = []"
    unfolding filter_empty_conv using q by auto
  moreover have "[j \<leftarrow> docker_part s. job_stage j = ''docker''] = docker_part s"
    unfolding filter_id_conv using docker_part_stage by blast
  ultimately show ?thesis by (simp add: p)
qed




section \<open>Properties of the analyzer\<close>

subsection \<open>The result of \<^verbatim>\<open>analyze_stack\<close>\<close>

lemma analyze_stack_fields:
  assumes "analyze_stack L base (Some es) = Inr (s, ws)"
  shows "dockerfiles s = detect_dockerfiles base es"
    and "has_dockerfile s = list_ex (\<lambda>f. is_dockerfile_name (lower (w_name f))) (iter_files es)"
    and "package_managers s = detect_package_managers (iter_files es)"
  using assms
  by (auto simp: analyze_stack_def Let_def detect_deploy_artifacts_def
      split: sum.splits prod.splits)

lemma build_pipeline_parts:
  "jobs (fst (build_pipeline s)) = b_jobs (registered s)"
  "stages (fst (build_pipeline s)) = order_stages (b_stages (registered s))"
  "snd (build_pipeline s) = b_warnings (registered s)"
  by (simp_all add: build_pipeline_def Let_def)

lemma analyze_stack_returns:
  assumes "detect_frameworks L (iter_files es) = Inr fws"
    and "detect_dependencies_and_versions L es (iter_files es) = Inr c"
  shows "\<exists>s ws. analyze_stack L base (Some es) = Inr (s, ws)"
  using assms by (simp add: analyze_stack_def Let_def split: prod.splits)

lemma analyze_and_build_Inr:
  "analyze_and_build L base tree = Inr (s, p, ws) \<longleftrightarrow>
     (\<exists>aws. analyze_stack L base tree = Inr (s, aws) \<and> p = fst (build_pipeline s)
         \<and> ws = aws @ snd (build_pipeline s))"
  by (auto simp: analyze_and_build_def split: sum.splits prod.splits)

lemma detect_dependencies_Inr:
  assumes "collect_node L files = Inr c"
  shows "detect_dependencies_and_versions L es files =
     Inr (merge_collected (collect_java_kotlin L files)
           (merge_collected (collect_go files)
             (merge_collected c
               (merge_collected (collect_python L es files) ([], [], [])))))"
  using assms by (simp add: detect_dependencies_and_versions_def Let_def)

lemma no_package_json_returns:
  assumes "grouped (iter_files es) ''package_json'' = []"
  shows "\<exists>s ws. analyze_stack L base (Some es) = Inr (s, ws)"
proof -
  have "\<exists>fws. detect_frameworks L (iter_files es) = Inr fws"
    using assms by (simp add: detect_frameworks_def Let_def)
  moreover have "collect_node L (iter_files es) = Inr ([], [], [])"
    using assms by (simp add: collect_node_def)
  ultimately show ?thesis
    using detect_dependencies_Inr analyze_stack_returns by blast
qed

subsection \<open>The two Docker scans\<close>

lemma docker_job_fields:
  "job_name (docker_job df) =
     ''docker_build_'' @ map (\<lambda>c. if c = CHR ''-'' \<or> c = CHR ''.'' then CHR ''_'' else c) (df_name df)"
  "job_image_name (docker_job df) = Some (df_name df)"
  "job_script (docker_job df) ! 1 =
     ''docker build -f '' @ df_path df @ '' '' @ (if df_context df \<noteq> [] then df_context df else ''.'')
       @ '' -t '' @ ''my-image-'' @ df_name df @ '':latest'' @ or_echo_daemon_hint"
  by (simp_all add: docker_job_def docker_job_name_def replace_char_def new_job_def
      docker_script_def image_ref_def)

lemma dockerfile_info_plain:
  assumes "''.git'' \<notin> set (base @ dir @ [''Dockerfile''])"
  shows "map df_name (dockerfile_info base (dir, ''Dockerfile''))
           = [if dir = [] \<or> last dir = [] then ''app'' else last dir]"
  using assms by (simp add: dockerfile_info_def Let_def)

lemma dockerfile_info_variant:
  assumes "''.git'' \<notin> set (base @ dir @ [''Dockerfile'' @ suf])"
    and "lstrip_chars ''._-'' suf \<noteq> []"
  shows "map df_name (dockerfile_info base (dir, ''Dockerfile'' @ suf)) = [lstrip_chars ''._-'' suf]"
proof -
  have "suf \<noteq> []" using assms(2) by (auto simp: lstrip_chars_def)
  then have ne: "''Dockerfile'' @ suf \<noteq> ''Dockerfile''" by simp
  have pre: "prefix ''Dockerfile'' (''Dockerfile'' @ suf)" by (rule prefixI) simp
  have dr: "drop (length ''Dockerfile'') (''Dockerfile'' @ suf) = suf" by simp
  show ?thesis
    using assms ne
    by (simp only: dockerfile_info_def Let_def pre dr split: prod.splits) auto
qed

lemma dockerfile_info_skip:
  "dockerfile_info base (dir, n) = [] \<longleftrightarrow> ''.git'' \<in> set (base @ dir @ [n])"
  by (simp add: dockerfile_info_def Let_def)

lemma rglob_node_prefix: "(d, n) \<in> set (rglob_node dir e) \<Longrightarrow> prefix ''Dockerfile'' n"
  by (induction dir e rule: rglob_node.induct) (auto simp: matches_in_def)

lemma rglob_dockerfile_prefix:
  "(d, n) \<in> set (rglob_dockerfile es) \<Longrightarrow> prefix ''Dockerfile'' n"
  using rglob_node_prefix by (auto simp: rglob_dockerfile_def matches_in_def)

lemma walk_node_pruned:
  "f \<in> set (walk_node dir e) \<Longrightarrow> set dir \<inter> set IGNORED_DIRS = {}
     \<Longrightarrow> set (w_dir f) \<inter> set IGNORED_DIRS = {}"
proof (induction dir e rule: walk_node.induct)
  case (1 dir n t)
  then show ?case by simp
next
  case (2 dir n es)
  show ?case
  proof (cases "n \<in> set IGNORED_DIRS")
    case True
    then show ?thesis using 2 by simp
  next
    case False
    then have d: "set (dir @ [n]) \<inter> set IGNORED_DIRS = {}" using 2(3) by auto
    from 2(2) False consider "f \<in> set (dir_files (dir @ [n]) es)"
      | e where "e \<in> set es" "f \<in> set (walk_node (dir @ [n]) e)"
      by auto
    then show ?thesis
    proof cases
      case 1
      then have "w_dir f = dir @ [n]"
        by (auto simp: dir_files_def split: node.splits)
      then show ?thesis using d by simp
    next
      case 2
      then show ?thesis using "2.IH" [OF False 2(1) 2(2) d] by simp
    qed
  qed
qed

lemma iter_files_pruned:
  "f \<in> set (iter_files es) \<Longrightarrow> set (w_dir f) \<inter> set IGNORED_DIRS = {}"
proof -
  assume "f \<in> set (iter_files es)"
  then consider "f \<in> set (dir_files [] es)"
    | e where "e \<in> set es" "f \<in> set (walk_node [] e)"
    by (auto simp: iter_files_def)
  then show ?thesis
  proof cases
    case 1
    then have "w_dir f = []" by (auto simp: dir_files_def split: node.splits)
    then show ?thesis by simp
  next
    case 2
    then show ?thesis using walk_node_pruned [of f "[]" e] by simp
  qed
qed


section \<open>The noise filter and the fall-back pipeline\<close>












lemma node_lock_manager_values: "node_lock_manager f \<in> {''yarn'', ''pnpm'', ''npm''}"
  by (simp add: node_lock_manager_def)
















section \<open>The two scans of the tree\<close>

lemma dir_at_Cons:
  "dir_at es (d # ds) cs \<longleftrightarrow> (\<exists>sub. Dir d sub \<in> set es \<and> dir_at sub ds cs)"
proof
  assume "dir_at es (d # ds) cs"
  then obtain e where e: "e \<in> set es"
    and c: "case e of File n t \<Rightarrow> False | Dir n sub \<Rightarrow> n = d \<and> dir_at sub ds cs"
    by (auto simp: list_ex_iff)
  show "\<exists>sub. Dir d sub \<in> set es \<and> dir_at sub ds cs"
  proof (cases e)
    case (File n t)
    with c show ?thesis by simp
  next
    case (Dir n sub)
    with e c show ?thesis by auto
  qed
next
  assume "\<exists>sub. Dir d sub \<in> set es \<and> dir_at sub ds cs"
  then show "dir_at es (d # ds) cs"
    by (auto simp: list_ex_iff intro!: bexI)
qed

lemma dir_files_iff:
  "f \<in> set (dir_files dir cs) \<longleftrightarrow>
     (\<exists>n t. File n t \<in> set cs
        \<and> f = \<lparr>w_dir = dir, w_name = n, w_text = t, w_siblings = set (map node_name cs)\<rparr>)"
  by (auto simp: dir_files_def split: node.splits)

lemma walk_node_iff:
  "f \<in> set (walk_node dir e) \<longleftrightarrow>
     (\<exists>n es path cs. e = Dir n es \<and> n \<notin> set IGNORED_DIRS \<and> dir_at es path cs
        \<and> set path \<inter> set IGNORED_DIRS = {} \<and> f \<in> set (dir_files (dir @ n # path) cs))"
proof (induction e arbitrary: dir)
  case (File n t)
  then show ?case by simp
next
  case (Dir n es)
  show ?case
  proof
    assume "f \<in> set (walk_node dir (Dir n es))"
    then have n: "n \<notin> set IGNORED_DIRS"
      and d: "f \<in> set (dir_files (dir @ [n]) es) \<or> (\<exists>e \<in> set es. f \<in> set (walk_node (dir @ [n]) e))"
      by (auto split: if_splits)
    from d show "\<exists>n' es' path cs. Dir n es = Dir n' es' \<and> n' \<notin> set IGNORED_DIRS \<and> dir_at es' path cs
        \<and> set path \<inter> set IGNORED_DIRS = {} \<and> f \<in> set (dir_files (dir @ n' # path) cs)"
    proof
      assume "f \<in> set (dir_files (dir @ [n]) es)"
      then show ?thesis
        using n by (intro exI [of _ n] exI [of _ es] exI [of _ "[]"]) simp
    next
      assume "\<exists>e \<in> set es. f \<in> set (walk_node (dir @ [n]) e)"
      then obtain e where e: "e \<in> set es" and f: "f \<in> set (walk_node (dir @ [n]) e)" by blast
      from Dir.IH [OF e, of "dir @ [n]"] f
      obtain m sub path cs where m: "e = Dir m sub" "m \<notin> set IGNORED_DIRS" "dir_at sub path cs"
        "set path \<inter> set IGNORED_DIRS = {}" "f \<in> set (dir_files ((dir @ [n]) @ m # path) cs)"
        by blast
      have "dir_at es (m # path) cs"
        unfolding dir_at_Cons using e m(1,3) by blast
      then show ?thesis
        using n m by (intro exI [of _ n] exI [of _ es] exI [of _ "m # path"] exI [of _ cs]) simp
    qed
  next
    assume "\<exists>n' es' path cs. Dir n es = Dir n' es' \<and> n' \<notin> set IGNORED_DIRS \<and> dir_at es' path cs
        \<and> set path \<inter> set IGNORED_DIRS = {} \<and> f \<in> set (dir_files (dir @ n' # path) cs)"
    then obtain path cs where n: "n \<notin> set IGNORED_DIRS" and p: "dir_at es path cs"
      "set path \<inter> set IGNORED_DIRS = {}" "f \<in> set (dir_files (dir @ n # path) cs)"
      by blast
    show "f \<in> set (walk_node dir (Dir n es))"
    proof (cases path)
      case Nil
      then show ?thesis using n p by simp
    next
      case (Cons m rest)
      then obtain sub where s: "Dir m sub \<in> set es" "dir_at sub rest cs"
        using p(1) unfolding Cons dir_at_Cons by blast
      have "f \<in> set (walk_node (dir @ [n]) (Dir m sub))"
        unfolding Dir.IH [OF s(1), of "dir @ [n]"]
        using s(2) p(2,3) Cons
        by (intro exI [of _ m] exI [of _ sub] exI [of _ rest] exI [of _ cs]) simp
      with s(1) have "\<exists>e \<in> set es. f \<in> set (walk_node (dir @ [n]) e)" by blast
      then show ?thesis using n by simp
    qed
  qed
qed

lemma iter_files_iff:
  "f \<in> set (iter_files es) \<longleftrightarrow>
     (\<exists>path cs. dir_at es path cs \<and> set path \<inter> set IGNORED_DIRS = {}
        \<and> f \<in> set (dir_files path cs))"
proof
  assume "f \<in> set (iter_files es)"
  then consider "f \<in> set (dir_files [] es)" | e where "e \<in> set es" "f \<in> set (walk_node [] e)"
    by (auto simp: iter_files_def)
  then show "\<exists>path cs. dir_at es path cs \<and> set path \<inter> set IGNORED_DIRS = {}
        \<and> f \<in> set (dir_files path cs)"
  proof cases
    case 1
    then show ?thesis by (intro exI [of _ "[]"] exI [of _ es]) simp
  next
    case 2
    from 2(2) obtain n sub path cs where m: "e = Dir n sub" "n \<notin> set IGNORED_DIRS" "dir_at sub path cs"
        "set path \<inter> set IGNORED_DIRS = {}" "f \<in> set (dir_files ([] @ n # path) cs)"
      unfolding walk_node_iff by blast
    have "dir_at es (n # path) cs"
      unfolding dir_at_Cons using 2(1) m(1,3) by blast
    then show ?thesis
      using m by (intro exI [of _ "n # path"] exI [of _ cs]) simp
  qed
next
  assume "\<exists>path cs. dir_at es path cs \<and> set path \<inter> set IGNORED_DIRS = {}
        \<and> f \<in> set (dir_files path cs)"
  then obtain path cs where p: "dir_at es path cs" "set path \<inter> set IGNORED_DIRS = {}"
    "f \<in> set (dir_files path cs)" by blast
  show "f \<in> set (iter_files es)"
  proof (cases path)
    case Nil
    then show ?thesis using p by (simp add: iter_files_def)
  next
    case (Cons m rest)
    then obtain sub where s: "Dir m sub \<in> set es" "dir_at sub rest cs"
      using p(1) unfolding Cons dir_at_Cons by blast
    have "f \<in> set (walk_node [] (Dir m sub))"
      unfolding walk_node_iff using s(2) p(2,3) Cons
      by (intro exI [of _ m] exI [of _ sub] exI [of _ rest] exI [of _ cs]) simp
    with s(1) have "\<exists>e \<in> set es. f \<in> set (walk_node [] e)" by blast
    then show ?thesis by (simp add: iter_files_def)
  qed
qed

lemma matches_in_iff:
  "p \<in> set (matches_in dir cs) \<longleftrightarrow>
     (\<exists>e \<in> set cs. prefix ''Dockerfile'' (node_name e) \<and> p = (dir, node_name e))"
  by (auto simp: matches_in_def)

lemma rglob_node_iff:
  "p \<in> set (rglob_node dir e) \<longleftrightarrow>
     (\<exists>n es path cs. e = Dir n es \<and> dir_at es path cs
        \<and> p \<in> set (matches_in (dir @ n # path) cs))"
proof (induction e arbitrary: dir)
  case (File n t)
  then show ?case by simp
next
  case (Dir n es)
  show ?case
  proof
    assume "p \<in> set (rglob_node dir (Dir n es))"
    then have d: "p \<in> set (matches_in (dir @ [n]) es)
        \<or> (\<exists>e \<in> set es. p \<in> set (rglob_node (dir @ [n]) e))"
      by auto
    from d show "\<exists>n' es' path cs. Dir n es = Dir n' es' \<and> dir_at es' path cs
        \<and> p \<in> set (matches_in (dir @ n' # path) cs)"
    proof
      assume "p \<in> set (matches_in (dir @ [n]) es)"
      then show ?thesis
        by (intro exI [of _ n] exI [of _ es] exI [of _ "[]"]) simp
    next
      assume "\<exists>e \<in> set es. p \<in> set (rglob_node (dir @ [n]) e)"
      then obtain e where e: "e \<in> set es" and f: "p \<in> set (rglob_node (dir @ [n]) e)" by blast
      from Dir.IH [OF e, of "dir @ [n]"] f
      obtain m sub path cs where m: "e = Dir m sub" "dir_at sub path cs"
        "p \<in> set (matches_in ((dir @ [n]) @ m # path) cs)"
        by blast
      have "dir_at es (m # path) cs"
        unfolding dir_at_Cons using e m(1,2) by blast
      then show ?thesis
        using m by (intro exI [of _ n] exI [of _ es] exI [of _ "m # path"] exI [of _ cs]) simp
    qed
  next
    assume "\<exists>n' es' path cs. Dir n es = Dir n' es' \<and> dir_at es' path cs
        \<and> p \<in> set (matches_in (dir @ n' # path) cs)"
    then obtain path cs where q: "dir_at es path cs" "p \<in> set (matches_in (dir @ n # path) cs)"
      by blast
    show "p \<in> set (rglob_node dir (Dir n es))"
    proof (cases path)
      case Nil
      then show ?thesis using q by simp
    next
      case (Cons m rest)
      then obtain sub where s: "Dir m sub \<in> set es" "dir_at sub rest cs"
        using q(1) unfolding Cons dir_at_Cons by blast
      have "p \<in> set (rglob_node (dir @ [n]) (Dir m sub))"
        unfolding Dir.IH [OF s(1), of "dir @ [n]"]
        using s(2) q(2) Cons
        by (intro exI [of _ m] exI [of _ sub] exI [of _ rest] exI [of _ cs]) simp
      with s(1) have "\<exists>e \<in> set es. p \<in> set (rglob_node (dir @ [n]) e)" by blast
      then show ?thesis by simp
    qed
  qed
qed

lemma rglob_dockerfile_iff:
  "p \<in> set (rglob_dockerfile es) \<longleftrightarrow>
     (\<exists>path cs. dir_at es path cs \<and> p \<in> set (matches_in path cs))"
proof
  assume "p \<in> set (rglob_dockerfile es)"
  then consider "p \<in> set (matches_in [] es)" | e where "e \<in> set es" "p \<in> set (rglob_node [] e)"
    by (auto simp: rglob_dockerfile_def)
  then show "\<exists>path cs. dir_at es path cs \<and> p \<in> set (matches_in path cs)"
  proof cases
    case 1
    then show ?thesis by (intro exI [of _ "[]"] exI [of _ es]) simp
  next
    case 2
    from 2(2) obtain n sub path cs where m: "e = Dir n sub" "dir_at sub path cs"
        "p \<in> set (matches_in ([] @ n # path) cs)"
      unfolding rglob_node_iff by blast
    have "dir_at es (n # path) cs"
      unfolding dir_at_Cons using 2(1) m(1,2) by blast
    then show ?thesis
      using m by (intro exI [of _ "n # path"] exI [of _ cs]) simp
  qed
next
  assume "\<exists>path cs. dir_at es path cs \<and> p \<in> set (matches_in path cs)"
  then obtain path cs where q: "dir_at es path cs" "p \<in> set (matches_in path cs)" by blast
  show "p \<in> set (rglob_dockerfile es)"
  proof (cases path)
    case Nil
    then show ?thesis using q by (simp add: rglob_dockerfile_def)
  next
    case (Cons m rest)
    then obtain sub where s: "Dir m sub \<in> set es" "dir_at sub rest cs"
      using q(1) unfolding Cons dir_at_Cons by blast
    have "p \<in> set (rglob_node [] (Dir m sub))"
      unfolding rglob_node_iff using s(2) q(2) Cons
      by (intro exI [of _ m] exI [of _ sub] exI [of _ rest] exI [of _ cs]) simp
    with s(1) have "\<exists>e \<in> set es. p \<in> set (rglob_node [] e)" by blast
    then show ?thesis by (simp add: rglob_dockerfile_def)
  qed
qed

lemma glob_matches:
  "(dir, n) \<in> set (rglob_dockerfile es) \<longleftrightarrow>
     (\<exists>cs e. dir_at es dir cs \<and> e \<in> set cs \<and> node_name e = n \<and> prefix ''Dockerfile'' n)"
  unfolding rglob_dockerfile_iff matches_in_iff by auto

lemma walked_dockerfile:
  "list_ex (\<lambda>f. is_dockerfile_name (lower (w_name f))) (iter_files es) \<longleftrightarrow>
     (\<exists>dir cs n t. dir_at es dir cs \<and> set dir \<inter> set IGNORED_DIRS = {} \<and> File n t \<in> set cs
        \<and> (lower n = ''dockerfile'' \<or> prefix ''dockerfile.'' (lower n)))"
proof
  assume "list_ex (\<lambda>f. is_dockerfile_name (lower (w_name f))) (iter_files es)"
  then obtain f where f: "f \<in> set (iter_files es)" "is_dockerfile_name (lower (w_name f))"
    unfolding list_ex_iff by blast
  from f(1) obtain dir cs where d: "dir_at es dir cs" "set dir \<inter> set IGNORED_DIRS = {}"
    "f \<in> set (dir_files dir cs)"
    unfolding iter_files_iff by blast
  from d(3) obtain n t where n: "File n t \<in> set cs" "w_name f = n"
    unfolding dir_files_iff by auto
  show "\<exists>dir cs n t. dir_at es dir cs \<and> set dir \<inter> set IGNORED_DIRS = {} \<and> File n t \<in> set cs
        \<and> (lower n = ''dockerfile'' \<or> prefix ''dockerfile.'' (lower n))"
    using d(1,2) n f(2)
    by (intro exI [of _ dir] exI [of _ cs] exI [of _ n] exI [of _ t])
       (simp add: is_dockerfile_name_def)
next
  assume "\<exists>dir cs n t. dir_at es dir cs \<and> set dir \<inter> set IGNORED_DIRS = {} \<and> File n t \<in> set cs
        \<and> (lower n = ''dockerfile'' \<or> prefix ''dockerfile.'' (lower n))"
  then obtain dir cs n t where d: "dir_at es dir cs" "set dir \<inter> set IGNORED_DIRS = {}"
    "File n t \<in> set cs" "lower n = ''dockerfile'' \<or> prefix ''dockerfile.'' (lower n)"
    by blast
  let ?f = "\<lparr>w_dir = dir, w_name = n, w_text = t, w_siblings = set (map node_name cs)\<rparr>"
  have "?f \<in> set (dir_files dir cs)"
    unfolding dir_files_iff using d(3) by blast
  then have "?f \<in> set (iter_files es)"
    unfolding iter_files_iff using d(1,2) by blast
  moreover have "is_dockerfile_name (lower (w_name ?f))"
    using d(4) by (simp add: is_dockerfile_name_def)
  ultimately show "list_ex (\<lambda>f. is_dockerfile_name (lower (w_name f))) (iter_files es)"
    unfolding list_ex_iff by blast
qed

subsection \<open>Claim C10: the Dockerfile flag and the artifact list can disagree\<close>

subsection \<open>Claim C1: canonical stage order\<close>

text \<open>
  C1. The stages of the pipeline that \<open>build_pipeline\<close> returns are the canonical
  ordering of the registered stage names: the list has no duplicates; it lists the
  registered names in the precedence lint, test, quality, build, docker, deploy, filtered
  to those present, and after them every name outside that table in the order of first
  registration (the first two conjuncts say so for any raw list of names, the fourth for
  the names \<open>build_pipeline\<close> registers). When the raw registered set is
  \<open>{build, lint, deploy, test}\<close> the stages are exactly lint, test, build, deploy.
\<close>

theorem build_pipeline_stage_order:
  "distinct (order_stages stgs)
   \<and> order_stages stgs =
       [n \<leftarrow> [''lint'', ''test'', ''quality'', ''build'', ''docker'', ''deploy'']. n \<in> set stgs]
       @ rev (remdups (rev [n \<leftarrow> stgs.
            n \<notin> set [''lint'', ''test'', ''quality'', ''build'', ''docker'', ''deploy'']]))
   \<and> distinct (stages (fst (build_pipeline stack)))
   \<and> stages (fst (build_pipeline stack)) =
       [n \<leftarrow> [''lint'', ''test'', ''quality'', ''build'', ''docker'', ''deploy''].
          n \<in> set (b_stages (registered stack))]
       @ rev (remdups (rev [n \<leftarrow> b_stages (registered stack).
            n \<notin> set [''lint'', ''test'', ''quality'', ''build'', ''docker'', ''deploy'']]))
   \<and> (set (b_stages (registered stack)) = {''build'', ''lint'', ''deploy'', ''test''}
        \<longrightarrow> stages (fst (build_pipeline stack)) = [''lint'', ''test'', ''build'', ''deploy''])"
proof -
  have eq: "\<And>xs. order_stages xs =
       [n \<leftarrow> [''lint'', ''test'', ''quality'', ''build'', ''docker'', ''deploy'']. n \<in> set xs]
       @ rev (remdups (rev [n \<leftarrow> xs.
            n \<notin> set [''lint'', ''test'', ''quality'', ''build'', ''docker'', ''deploy'']]))"
    using order_stages_eq by (simp only: canonical_order_def)
  have st: "stages (fst (build_pipeline stack)) = order_stages (b_stages (registered stack))"
    by (simp add: build_pipeline_def Let_def)
  have four: "stages (fst (build_pipeline stack)) = [''lint'', ''test'', ''build'', ''deploy'']"
    if h: "set (b_stages (registered stack)) = {''build'', ''lint'', ''deploy'', ''test''}"
  proof -
    have "[n \<leftarrow> b_stages (registered stack).
            n \<notin> set [''lint'', ''test'', ''quality'', ''build'', ''docker'', ''deploy'']] = []"
      unfolding filter_empty_conv using h by auto
    then show ?thesis
      unfolding st eq [of "b_stages (registered stack)"] using h by simp
  qed
  show ?thesis
    using distinct_order_stages [of stgs] eq [of stgs]
      distinct_order_stages [of "b_stages (registered stack)"]
      eq [of "b_stages (registered stack)"] four
    unfolding st by blast
qed

text \<open>
  Witness: a Python and Go stack registers lint, test, build, deploy; a raw list with a
  repeated name outside the table keeps it once, after the canonical names.
\<close>

theorem build_pipeline_stage_order_witness:
  "set (b_stages (registered (StackInfo_default\<lparr>languages := [''go'', ''python'']\<rparr>)))
     = {''build'', ''lint'', ''deploy'', ''test''}
   \<and> stages (fst (build_pipeline (StackInfo_default\<lparr>languages := [''go'', ''python'']\<rparr>)))
     = [''lint'', ''test'', ''build'', ''deploy'']
   \<and> order_stages [''build'', ''extra'', ''lint'', ''extra'', ''deploy'', ''test'']
     = [''lint'', ''test'', ''build'', ''deploy'', ''extra'']"
proof -
  let ?s = "StackInfo_default\<lparr>languages := [''go'', ''python'']\<rparr>"
  have raw: "b_stages (registered ?s) = [''lint'', ''test'', ''build'', ''deploy'']"
    by (simp add: registered_def placeholder_block_def deploy_block_def docker_block_def
        append_quality_jobs_def java_block_def go_block_def node_block_def python_block_def
        builder_empty_def Let_def has_node_def StackInfo_default_def ensure_stage_def)
  have set_raw: "set (b_stages (registered ?s)) = {''build'', ''lint'', ''deploy'', ''test''}"
    unfolding raw by auto
  from build_pipeline_stage_order [of "[''build'', ''extra'', ''lint'', ''extra'', ''deploy'', ''test'']" ?s]
  have "stages (fst (build_pipeline ?s)) = [''lint'', ''test'', ''build'', ''deploy'']"
    and "order_stages [''build'', ''extra'', ''lint'', ''extra'', ''deploy'', ''test'']
           = [''lint'', ''test'', ''build'', ''deploy'', ''extra'']"
    using set_raw by simp_all
  then show ?thesis using set_raw by simp
qed

subsection \<open>Claim C2: job stages and job names\<close>

text \<open>
  C2, as amended. For every stack, each job of the pipeline names a stage of the
  pipeline. The job names are pairwise distinct exactly when the names of the Docker jobs
  are, that is, when no two Docker artifacts have logical names that agree after \<open>-\<close>
  and \<open>.\<close> are replaced by \<open>_\<close>; so they are distinct whenever the stack has at
  most one Docker artifact.
\<close>

theorem build_pipeline_jobs:
  "(\<forall>j \<in> set (jobs (fst (build_pipeline stack))).
      job_stage j \<in> set (stages (fst (build_pipeline stack))))
   \<and> (distinct (map job_name (jobs (fst (build_pipeline stack))))
        \<longleftrightarrow> distinct (map docker_job_name (dockerfiles stack)))
   \<and> (length (dockerfiles stack) \<le> 1
        \<longrightarrow> distinct (map job_name (jobs (fst (build_pipeline stack)))))"
proof -
  have p: "fst (build_pipeline stack)
             = \<lparr>stages = order_stages (b_stages (registered stack)), jobs = b_jobs (registered stack)\<rparr>"
    by (simp add: build_pipeline_def Let_def)
  have a: "\<forall>j \<in> set (jobs (fst (build_pipeline stack))).
      job_stage j \<in> set (stages (fst (build_pipeline stack)))"
    using jobs_ok_registered [of stack]
    by (simp add: p set_order_stages jobs_ok_def list_all_iff)
  have b: "distinct (map job_name (jobs (fst (build_pipeline stack))))
        \<longleftrightarrow> distinct (map docker_job_name (dockerfiles stack))"
    by (simp add: p distinct_job_names_registered)
  have c: "distinct (map docker_job_name (dockerfiles stack))" if "length (dockerfiles stack) \<le> 1"
    using that by (cases "dockerfiles stack") auto
  show ?thesis using a b c by blast
qed

text \<open>
  The claim as stated fails: two Dockerfiles in directories named \<open>api\<close> give two
  jobs named \<open>docker_build_api\<close>.
\<close>

lemma two_api_names:
  "map job_name (jobs (fst (build_pipeline two_api_stack)))
     = [''docker_build_api'', ''docker_build_api'', ''deploy_placeholder'']"
  by (simp add: build_pipeline_def Let_def job_names_registered two_api_stack_def
      StackInfo_default_def has_node_def docker_job_name_def replace_char_def)

theorem build_pipeline_jobs_counterexample:
  "map job_name (jobs (fst (build_pipeline two_api_stack)))
     = [''docker_build_api'', ''docker_build_api'', ''deploy_placeholder'']
   \<and> \<not> distinct (map job_name (jobs (fst (build_pipeline two_api_stack))))"
  by (simp add: two_api_names)

theorem build_pipeline_jobs_witness:
  "distinct (map job_name (jobs (fst (build_pipeline (StackInfo_default\<lparr>languages := [''python'']\<rparr>)))))
   \<and> \<not> distinct (map job_name (jobs (fst (build_pipeline two_api_stack))))
   \<and> list_all (\<lambda>j. job_stage j \<in> set (stages (fst (build_pipeline two_api_stack))))
        (jobs (fst (build_pipeline two_api_stack)))"
proof -
  have "length (dockerfiles (StackInfo_default\<lparr>languages := [''python'']\<rparr>)) \<le> 1"
    by (simp add: StackInfo_default_def)
  with build_pipeline_jobs [of "StackInfo_default\<lparr>languages := [''python'']\<rparr>"]
  have 1: "distinct (map job_name (jobs (fst (build_pipeline (StackInfo_default\<lparr>languages := [''python'']\<rparr>)))))"
    by blast
  have "\<not> distinct (map docker_job_name (dockerfiles two_api_stack))"
    by (simp add: two_api_stack_def docker_job_name_def)
  with build_pipeline_jobs [of two_api_stack]
  have 2: "\<not> distinct (map job_name (jobs (fst (build_pipeline two_api_stack))))"
    and 3: "list_all (\<lambda>j. job_stage j \<in> set (stages (fst (build_pipeline two_api_stack))))
        (jobs (fst (build_pipeline two_api_stack)))"
    by (simp_all add: list_all_iff)
  from 1 2 3 show ?thesis by simp
qed


subsection \<open>Claim C4: the fall-back pipeline\<close>



subsection \<open>Claim C5: Java presence and the placeholder warning\<close>

lemma job_names_subset:
  "set (map job_name (b_jobs (registered s)))
     \<subseteq> set [''python_tests'', ''python_lint'', ''node_lint'', ''node_tests'', ''node_build'',
              ''go_tests'', ''go_build'', ''node_sonar'', ''docker_build'', ''deploy_placeholder'']
        \<union> docker_job_name ` set (dockerfiles s)
        \<union> (if ''java'' \<in> set (languages s) \<and> ''maven'' \<in> set (package_managers s)
           then {''java_tests'', ''java_build'', ''java_sonar''} else {})"
  unfolding job_names_registered by auto

lemma java_job_names_iff:
  "(\<exists>j \<in> set (b_jobs (registered s)). job_name j \<in> {''java_tests'', ''java_build'', ''java_sonar''})
   \<longleftrightarrow> ''java'' \<in> set (languages s) \<and> ''maven'' \<in> set (package_managers s)"
  (is "?lhs \<longleftrightarrow> ?jm")
proof
  assume ?lhs
  then obtain n where n: "n \<in> set (map job_name (b_jobs (registered s)))"
    and j: "n \<in> {''java_tests'', ''java_build'', ''java_sonar''}"
    by auto
  have "n \<notin> set [''python_tests'', ''python_lint'', ''node_lint'', ''node_tests'', ''node_build'',
              ''go_tests'', ''go_build'', ''node_sonar'', ''docker_build'', ''deploy_placeholder'']"
    using j by auto
  moreover have "n \<notin> docker_job_name ` set (dockerfiles s)"
    using j by (auto simp: docker_job_name_def)
  ultimately show ?jm
    using n job_names_subset [of s] by (auto split: if_splits)
next
  assume ?jm
  then have "''java_tests'' \<in> set (map job_name (b_jobs (registered s)))"
    unfolding job_names_registered by simp
  then show ?lhs by auto
qed

lemma placeholders_warning_iff:
  "placeholders_only_warning \<in> set (b_warnings (registered s))
   \<longleftrightarrow> \<not> (''python'' \<in> set (languages s) \<or> has_node s \<or> ''go'' \<in> set (languages s)
            \<or> ''java'' \<in> set (languages s))"
  using warnings_distinct by (auto simp: warnings_registered)

text \<open>
  C5. The Java jobs are emitted exactly when \<open>java\<close> is among the languages and
  \<open>maven\<close> among the package managers (\<open>java_job_names_iff\<close>), and
  \<^verbatim>\<open>_append_quality_jobs\<close> computes its \<^verbatim>\<open>has_java\<close> with the same two tests. The
  warning that the pipeline holds only placeholders is gated on \<^verbatim>\<open>has_java\<close> of
  \<^verbatim>\<open>build_pipeline\<close>, which tests the language alone
  (\<open>placeholders_warning_iff\<close>). So on the stack with languages \<open>{java}\<close> and package
  managers \<open>{gradle}\<close> the code emits the deploy placeholder alone, as the claim says,
  but no warning, where the claim and the text of the warning itself call for it.
\<close>

theorem java_gradle_divergence:
  "build_pipeline java_gradle_stack
     = (\<lparr>stages = [''deploy''],
         jobs = [new_job ''deploy_placeholder'' ''deploy'' None deploy_script]\<rparr>, [])
   \<and> placeholders_only_warning \<notin> set (snd (build_pipeline java_gradle_stack))
   \<and> ''maven'' \<notin> set (package_managers java_gradle_stack)"
proof -
  have "registered java_gradle_stack
          = \<lparr>b_stages = [''deploy''],
             b_jobs = [new_job ''deploy_placeholder'' ''deploy'' None deploy_script],
             b_warnings = []\<rparr>"
    by (simp add: registered_def placeholder_block_def deploy_block_def docker_block_def
        append_quality_jobs_def java_block_def go_block_def node_block_def python_block_def
        builder_empty_def Let_def has_node_def StackInfo_default_def java_gradle_stack_def
        register_def append_job_def ensure_stage_def)
  then have "build_pipeline java_gradle_stack
     = (\<lparr>stages = [''deploy''],
         jobs = [new_job ''deploy_placeholder'' ''deploy'' None deploy_script]\<rparr>, [])"
    by (simp add: build_pipeline_def Let_def order_stages_eq canonical_order_def)
  then show ?thesis by (simp add: java_gradle_stack_def StackInfo_default_def)
qed
subsection \<open>Claim C6: an exact pin wins over a range\<close>

lemma map_of_requirement_line:
  assumes "requirement_of line = Some (name, op, ver)"
  shows "map_of (requirement_line line deps) name =
           (if op = ''=='' then Some ver
            else if name \<in> fst ` set deps then map_of deps name
            else Some ver)"
  using assms by (simp add: requirement_line_def update_conv')

lemma map_of_requirement_line_other:
  assumes "\<forall>op ver. requirement_of line \<noteq> Some (name, op, ver)"
  shows "map_of (requirement_line line deps) name = map_of deps name"
  using assms
  by (auto simp: requirement_line_def update_conv' split: option.splits)

lemma requirement_pin_kept:
  assumes "map_of deps name = Some v"
    and "\<forall>line \<in> set ls. \<forall>v'. requirement_of line = Some (name, ''=='', v') \<longrightarrow> v' = v"
  shows "map_of (fold requirement_line ls deps) name = Some v"
  using assms
proof (induction ls arbitrary: deps)
  case Nil
  then show ?case by simp
next
  case (Cons line ls)
  have "map_of (requirement_line line deps) name = Some v"
  proof (cases "\<exists>op ver. requirement_of line = Some (name, op, ver)")
    case True
    then obtain op ver where r: "requirement_of line = Some (name, op, ver)" by blast
    have "name \<in> fst ` set deps"
      using Cons.prems(1) by (metis map_of_eq_None_iff option.distinct(1))
    then show ?thesis
      using r Cons.prems by (auto simp: map_of_requirement_line)
  next
    case False
    then show ?thesis
      using Cons.prems(1) by (simp add: map_of_requirement_line_other)
  qed
  then show ?case using Cons by simp
qed

lemma requirement_pin_wins:
  assumes "\<exists>line \<in> set ls. requirement_of line = Some (name, ''=='', v)"
    and "\<forall>line \<in> set ls. \<forall>v'. requirement_of line = Some (name, ''=='', v') \<longrightarrow> v' = v"
  shows "map_of (fold requirement_line ls deps) name = Some v"
  using assms
proof (induction ls arbitrary: deps)
  case Nil
  then show ?case by simp
next
  case (Cons line ls)
  show ?case
  proof (cases "requirement_of line = Some (name, ''=='', v)")
    case True
    then have "map_of (requirement_line line deps) name = Some v"
      by (simp add: map_of_requirement_line)
    then show ?thesis
      using requirement_pin_kept [of "requirement_line line deps" name v ls] Cons.prems(2)
      by simp
  next
    case False
    then have "\<exists>l \<in> set ls. requirement_of l = Some (name, ''=='', v)"
      using Cons.prems(1) by auto
    then show ?thesis
      using Cons.IH [of "requirement_line line deps"] Cons.prems(2) by simp
  qed
qed

text \<open>
  C6. On ASCII text: a line whose operator is \<open>==\<close> always sets the version of its
  package, whatever was recorded; a line with any other operator sets it only when the
  name is not yet present. So in a requirements file that pins a name with \<open>==\<close> to one version, that
  version is the result for the name, wherever the other lines for the name stand; and
  the analysis of a tree whose requirements file holds \<open>flask>=1.0\<close> and
  \<open>flask==2.0.1\<close>, in either order, has \<open>dependencies["python"]["flask"] = "2.0.1"\<close>.
\<close>

theorem requirements_pin_precedence:
  "(ascii line \<and> requirement_of line = Some (name, op, ver) \<longrightarrow>
      map_of (requirement_line line deps) name =
        (if op = ''=='' then Some ver
         else if name \<in> fst ` set deps then map_of deps name
         else Some ver))
   \<and> (ascii text
        \<and> (\<exists>l \<in> set (splitlines text). requirement_of l = Some (name, ''=='', v))
        \<and> (\<forall>l \<in> set (splitlines text). \<forall>v'. requirement_of l = Some (name, ''=='', v') \<longrightarrow> v' = v)
      \<longrightarrow> map_of (parse_python_requirements_file (Some text)) name = Some v)
   \<and> analyze_stack L base
         (Some [File ''requirements.txt'' (Some ''flask>=1.0\<newline>flask==2.0.1\<newline>'')])
       = Inr (StackInfo_default
               \<lparr>frameworks := [''flask''], package_managers := [''pip''],
                dependencies := [(''python'', [(''flask'', ''2.0.1'')])],
                framework_versions := [(''flask'', ''2.0.1'')]\<rparr>,
              [no_language_warning])
   \<and> analyze_stack L base
         (Some [File ''requirements.txt'' (Some ''flask==2.0.1\<newline>flask>=1.0\<newline>'')])
       = Inr (StackInfo_default
               \<lparr>frameworks := [''flask''], package_managers := [''pip''],
                dependencies := [(''python'', [(''flask'', ''2.0.1'')])],
                framework_versions := [(''flask'', ''2.0.1'')]\<rparr>,
              [no_language_warning])"
proof -
  have 3: "analyze_stack L base
         (Some [File ''requirements.txt'' (Some ''flask>=1.0\<newline>flask==2.0.1\<newline>'')])
       = Inr (StackInfo_default
               \<lparr>frameworks := [''flask''], package_managers := [''pip''],
                dependencies := [(''python'', [(''flask'', ''2.0.1'')])],
                framework_versions := [(''flask'', ''2.0.1'')]\<rparr>,
              [no_language_warning])"
    by code_simp
  have 4: "analyze_stack L base
         (Some [File ''requirements.txt'' (Some ''flask==2.0.1\<newline>flask>=1.0\<newline>'')])
       = Inr (StackInfo_default
               \<lparr>frameworks := [''flask''], package_managers := [''pip''],
                dependencies := [(''python'', [(''flask'', ''2.0.1'')])],
                framework_versions := [(''flask'', ''2.0.1'')]\<rparr>,
              [no_language_warning])"
    by code_simp
  show ?thesis
    apply (intro conjI impI)
    subgoal using map_of_requirement_line by simp
    subgoal using requirement_pin_wins [of "splitlines text" name v "[]"]
      by (simp add: parse_python_requirements_file_def)
    subgoal by (rule 3)
    subgoal by (rule 4)
    done
qed

text \<open>
  Witness: an exact pin of \<open>Flask\<close> with extras and an environment marker replaces a
  recorded version, a range does not; and a file with the pin between two ranges.
\<close>

theorem requirements_pin_precedence_witness:
  "map_of (requirement_line ''Flask[async] == 2.0.1 ; python_version > 3'' [(''flask'', ''1.0'')]) ''flask''
     = Some ''2.0.1''
   \<and> map_of (requirement_line ''flask>=3'' [(''flask'', ''1.0'')]) ''flask'' = Some ''1.0''
   \<and> map_of (parse_python_requirements_file
         (Some ''flask>=1.0\<newline>flask==2.0.1\<newline>flask<3\<newline>'')) ''flask''
     = Some ''2.0.1''"
proof -
  have r1: "requirement_of ''Flask[async] == 2.0.1 ; python_version > 3''
              = Some (''flask'', ''=='', ''2.0.1'')"
    by code_simp
  have r2: "requirement_of ''flask>=3'' = Some (''flask'', ''>='', ''3'')"
    by code_simp
  have sl: "splitlines ''flask>=1.0\<newline>flask==2.0.1\<newline>flask<3\<newline>''
              = [''flask>=1.0'', ''flask==2.0.1'', ''flask<3'']"
    by code_simp
  have q1: "requirement_of ''flask>=1.0'' = Some (''flask'', ''>='', ''1.0'')"
    by code_simp
  have q2: "requirement_of ''flask==2.0.1'' = Some (''flask'', ''=='', ''2.0.1'')"
    by code_simp
  have q3: "requirement_of ''flask<3'' = Some (''flask'', ''<'', ''3'')"
    by code_simp
  have a1: "ascii ''Flask[async] == 2.0.1 ; python_version > 3''"
    and a2: "ascii ''flask>=3''"
    and a3: "ascii ''flask>=1.0\<newline>flask==2.0.1\<newline>flask<3\<newline>''"
    by code_simp+
  have h: "(\<exists>l \<in> set (splitlines ''flask>=1.0\<newline>flask==2.0.1\<newline>flask<3\<newline>'').
              requirement_of l = Some (''flask'', ''=='', ''2.0.1''))
        \<and> (\<forall>l \<in> set (splitlines ''flask>=1.0\<newline>flask==2.0.1\<newline>flask<3\<newline>'').
              \<forall>v'. requirement_of l = Some (''flask'', ''=='', v') \<longrightarrow> v' = ''2.0.1'')"
    unfolding sl by (simp add: q1 q2 q3)
  from requirements_pin_precedence
         [of "''Flask[async] == 2.0.1 ; python_version > 3''" "''flask''" "''==''" "''2.0.1''"
             "[(''flask'', ''1.0'')]"
             "''flask>=1.0\<newline>flask==2.0.1\<newline>flask<3\<newline>''" "''2.0.1''"] r1 h a1 a3
  have a: "map_of (requirement_line ''Flask[async] == 2.0.1 ; python_version > 3'' [(''flask'', ''1.0'')]) ''flask''
     = Some ''2.0.1''"
    and c: "map_of (parse_python_requirements_file
         (Some ''flask>=1.0\<newline>flask==2.0.1\<newline>flask<3\<newline>'')) ''flask''
     = Some ''2.0.1''"
    by simp_all
  from requirements_pin_precedence
         [of "''flask>=3''" "''flask''" "''>=''" "''3''" "[(''flask'', ''1.0'')]"] r2 a2
  have b: "map_of (requirement_line ''flask>=3'' [(''flask'', ''1.0'')]) ''flask'' = Some ''1.0''"
    by simp
  from a b c show ?thesis by simp
qed


subsection \<open>Claim C7: the noise filter\<close>



subsection \<open>Claim C8: one Docker job for each Dockerfile\<close>

lemma two_dockerfiles_detected:
  assumes "''.git'' \<notin> set base"
  shows "detect_dockerfiles base two_dockerfiles_tree =
     [\<lparr>df_path = ''Dockerfile'', df_context = ''.'', df_name = ''app'', df_kind = None\<rparr>,
      \<lparr>df_path = ''services/api/Dockerfile'', df_context = ''services/api'', df_name = ''api'',
        df_kind = None\<rparr>]"
  using assms
  by (simp add: detect_dockerfiles_def rglob_dockerfile_def matches_in_def dockerfile_info_def
      two_dockerfiles_tree_def Let_def)

lemma two_dockerfiles_returns:
  "\<exists>s ws. analyze_stack L base (Some two_dockerfiles_tree) = Inr (s, ws)"
proof -
  have "detect_frameworks L (iter_files two_dockerfiles_tree) = Inr []"
    by code_simp
  moreover have "collect_node L (iter_files two_dockerfiles_tree) = Inr ([], [], [])"
    by code_simp
  ultimately show ?thesis
    using detect_dependencies_Inr analyze_stack_returns by blast
qed

lemma two_dockerfiles_pipeline:
  assumes "''.git'' \<notin> set base"
  shows "\<exists>s p ws. analyze_and_build L base (Some two_dockerfiles_tree) = Inr (s, p, ws)
     \<and> [j \<leftarrow> jobs p. job_stage j = ''docker''] = map docker_job (dockerfiles s)
     \<and> map job_name [j \<leftarrow> jobs p. job_stage j = ''docker'']
         = [''docker_build_app'', ''docker_build_api'']
     \<and> map image_ref (dockerfiles s) = [''my-image-app:latest'', ''my-image-api:latest'']"
proof -
  obtain s ws where a: "analyze_stack L base (Some two_dockerfiles_tree) = Inr (s, ws)"
    using two_dockerfiles_returns by blast
  have d: "dockerfiles s =
     [\<lparr>df_path = ''Dockerfile'', df_context = ''.'', df_name = ''app'', df_kind = None\<rparr>,
      \<lparr>df_path = ''services/api/Dockerfile'', df_context = ''services/api'', df_name = ''api'',
        df_kind = None\<rparr>]"
    using analyze_stack_fields(1) [OF a] two_dockerfiles_detected [OF assms] by simp
  let ?p = "fst (build_pipeline s)"
  have f: "[j \<leftarrow> jobs ?p. job_stage j = ''docker''] = map docker_job (dockerfiles s)"
    using d by (simp add: build_pipeline_parts filter_docker_jobs docker_part_def)
  have n: "map job_name [j \<leftarrow> jobs ?p. job_stage j = ''docker'']
         = [''docker_build_app'', ''docker_build_api'']"
    unfolding f d by (simp add: docker_job_name_def replace_char_def)
  have i: "map image_ref (dockerfiles s) = [''my-image-app:latest'', ''my-image-api:latest'']"
    unfolding d by (simp add: image_ref_def)
  have "analyze_and_build L base (Some two_dockerfiles_tree)
          = Inr (s, ?p, ws @ snd (build_pipeline s))"
    using a by (simp add: analyze_and_build_Inr)
  then show ?thesis
    by (intro exI [of _ s] exI [of _ "fst (build_pipeline s)"]
          exI [of _ "ws @ snd (build_pipeline s)"]) (use f n i in simp)
qed

text \<open>
  C8. When the stack has Docker artifacts, the jobs of the docker stage are exactly one
  job for each artifact, in order. The job of an artifact is named \<open>docker_build_\<close>
  followed by the logical name with \<open>-\<close> and \<open>.\<close> replaced by \<open>_\<close>; it carries
  the logical name as image name, and its build line tags the image
  \<open>my-image-<name>:latest\<close>. The artifacts of an analysed tree are those
  \<open>dockerfile_info\<close> gives for the matches of \<open>Dockerfile*\<close>: for a plain
  \<open>Dockerfile\<close> the logical name is the name of its directory, \<open>app\<close> at the root;
  for a variant it is the text after \<open>Dockerfile\<close> without its leading \<open>.\<close>,
  \<open>_\<close>, \<open>-\<close>, when that is not empty. A root \<open>Dockerfile\<close> and
  \<open>services/api/Dockerfile\<close>, in a repository whose own path has no \<open>.git\<close> part,
  give exactly the two docker-stage jobs \<open>docker_build_app\<close> and \<open>docker_build_api\<close>
  with the tags \<open>my-image-app:latest\<close> and \<open>my-image-api:latest\<close>.
\<close>

theorem docker_fan_out:
  "(dockerfiles stack \<noteq> [] \<longrightarrow>
      [j \<leftarrow> jobs (fst (build_pipeline stack)). job_stage j = ''docker'']
        = map docker_job (dockerfiles stack))
   \<and> job_stage (docker_job df) = ''docker''
   \<and> job_name (docker_job df) =
       ''docker_build_''
         @ map (\<lambda>c. if c = CHR ''-'' \<or> c = CHR ''.'' then CHR ''_'' else c) (df_name df)
   \<and> job_image_name (docker_job df) = Some (df_name df)
   \<and> job_script (docker_job df) ! 1 =
       ''docker build -f '' @ df_path df @ '' ''
         @ (if df_context df \<noteq> [] then df_context df else ''.'')
         @ '' -t '' @ ''my-image-'' @ df_name df @ '':latest'' @ or_echo_daemon_hint
   \<and> (analyze_stack L base (Some es) = Inr (s, ws) \<longrightarrow>
        dockerfiles s = concat (map (dockerfile_info base) (rglob_dockerfile es)))
   \<and> (''.git'' \<notin> set (base @ dir @ [''Dockerfile'']) \<longrightarrow>
        map df_name (dockerfile_info base (dir, ''Dockerfile''))
          = [if dir = [] \<or> last dir = [] then ''app'' else last dir])
   \<and> (''.git'' \<notin> set (base @ dir @ [''Dockerfile'' @ suf]) \<and> lstrip_chars ''._-'' suf \<noteq> [] \<longrightarrow>
        map df_name (dockerfile_info base (dir, ''Dockerfile'' @ suf)) = [lstrip_chars ''._-'' suf])
   \<and> (''.git'' \<notin> set base \<longrightarrow>
        (\<exists>s' p' ws'. analyze_and_build L base (Some two_dockerfiles_tree) = Inr (s', p', ws')
           \<and> [j \<leftarrow> jobs p'. job_stage j = ''docker''] = map docker_job (dockerfiles s')
           \<and> map job_name [j \<leftarrow> jobs p'. job_stage j = ''docker'']
               = [''docker_build_app'', ''docker_build_api'']
           \<and> map image_ref (dockerfiles s') = [''my-image-app:latest'', ''my-image-api:latest'']))"
proof -
  have 1: "[j \<leftarrow> jobs (fst (build_pipeline stack)). job_stage j = ''docker'']
        = map docker_job (dockerfiles stack)" if "dockerfiles stack \<noteq> []"
    using that by (simp add: build_pipeline_parts filter_docker_jobs docker_part_def)
  have 6: "dockerfiles s = concat (map (dockerfile_info base) (rglob_dockerfile es))"
    if "analyze_stack L base (Some es) = Inr (s, ws)"
    using analyze_stack_fields(1) [OF that] by (simp add: detect_dockerfiles_def)
  show ?thesis
    apply (intro conjI impI)
    subgoal using 1 by simp
    subgoal by simp
    subgoal by (rule docker_job_fields(1))
    subgoal by (rule docker_job_fields(2))
    subgoal by (rule docker_job_fields(3))
    subgoal using 6 by simp
    subgoal using dockerfile_info_plain by simp
    subgoal using dockerfile_info_variant by simp
    subgoal using two_dockerfiles_pipeline by simp
    done
qed

text \<open>
  Witness: the stack with two artifacts, the naming rule at three paths, and the tree with
  the two Dockerfiles analysed below \<open>srv/repo\<close>.
\<close>

theorem docker_fan_out_witness:
  "[j \<leftarrow> jobs (fst (build_pipeline two_api_stack)). job_stage j = ''docker'']
      = map docker_job (dockerfiles two_api_stack)
   \<and> map df_name (dockerfile_info [''srv'', ''repo''] ([''services'', ''api''], ''Dockerfile''))
      = [''api'']
   \<and> map df_name (dockerfile_info [''srv'', ''repo''] ([], ''Dockerfile'')) = [''app'']
   \<and> map df_name (dockerfile_info [''srv'', ''repo''] ([''web''], ''Dockerfile.ui'')) = [''ui'']
   \<and> (\<exists>s' p' ws'. analyze_and_build silent_lib [''srv'', ''repo''] (Some two_dockerfiles_tree)
            = Inr (s', p', ws')
         \<and> [j \<leftarrow> jobs p'. job_stage j = ''docker''] = map docker_job (dockerfiles s')
         \<and> map job_name [j \<leftarrow> jobs p'. job_stage j = ''docker'']
             = [''docker_build_app'', ''docker_build_api'']
         \<and> map image_ref (dockerfiles s') = [''my-image-app:latest'', ''my-image-api:latest''])"
proof -
  have h1: "dockerfiles two_api_stack \<noteq> []"
    by (simp add: two_api_stack_def)
  have h2: "''.git'' \<notin> set ([''srv'', ''repo''] @ [''services'', ''api''] @ [''Dockerfile''])"
    by simp
  have h3: "''.git'' \<notin> set ([''srv'', ''repo''] @ [] @ [''Dockerfile''])"
    by simp
  have h4: "''.git'' \<notin> set ([''srv'', ''repo''] @ [''web''] @ [''Dockerfile'' @ ''.ui''])
            \<and> lstrip_chars ''._-'' ''.ui'' \<noteq> []"
    by (simp add: lstrip_chars_def)
  have h5: "''.git'' \<notin> set [''srv'', ''repo'']"
    by simp
  have u: "lstrip_chars ''._-'' ''.ui'' = ''ui''"
    by (simp add: lstrip_chars_def)
  note t1 = docker_fan_out [of two_api_stack undefined silent_lib "[''srv'', ''repo'']" "[]"
      undefined undefined "[''services'', ''api'']" "''.ui''"]
  note t2 = docker_fan_out [of two_api_stack undefined silent_lib "[''srv'', ''repo'']" "[]"
      undefined undefined "[]" "''.ui''"]
  note t3 = docker_fan_out [of two_api_stack undefined silent_lib "[''srv'', ''repo'']" "[]"
      undefined undefined "[''web'']" "''.ui''"]
  from t1 h1 have a: "[j \<leftarrow> jobs (fst (build_pipeline two_api_stack)). job_stage j = ''docker'']
      = map docker_job (dockerfiles two_api_stack)" by simp
  from t1 h2 have b: "map df_name (dockerfile_info [''srv'', ''repo''] ([''services'', ''api''], ''Dockerfile''))
      = [''api'']" by simp
  from t2 h3 have c: "map df_name (dockerfile_info [''srv'', ''repo''] ([], ''Dockerfile'')) = [''app'']"
    by simp
  from t3 h4 have d: "map df_name (dockerfile_info [''srv'', ''repo''] ([''web''], ''Dockerfile.ui'')) = [''ui'']"
    unfolding u by simp
  from t1 h5 have e: "\<exists>s' p' ws'. analyze_and_build silent_lib [''srv'', ''repo''] (Some two_dockerfiles_tree)
            = Inr (s', p', ws')
         \<and> [j \<leftarrow> jobs p'. job_stage j = ''docker''] = map docker_job (dockerfiles s')
         \<and> map job_name [j \<leftarrow> jobs p'. job_stage j = ''docker'']
             = [''docker_build_app'', ''docker_build_api'']
         \<and> map image_ref (dockerfiles s') = [''my-image-app:latest'', ''my-image-api:latest'']"
    by simp
  from a b c d e show ?thesis by simp
qed

subsection \<open>Claim C10: the Dockerfile flag and the artifact list can disagree\<close>

lemma lowercase_dockerfile_signals:
  "\<exists>s ws. analyze_stack L base (Some lowercase_dockerfile_tree) = Inr (s, ws)
     \<and> has_dockerfile s \<and> dockerfiles s = []"
proof -
  have "grouped (iter_files lowercase_dockerfile_tree) ''package_json'' = []"
    by code_simp
  then obtain s ws where a: "analyze_stack L base (Some lowercase_dockerfile_tree) = Inr (s, ws)"
    using no_package_json_returns by blast
  have "list_ex (\<lambda>f. is_dockerfile_name (lower (w_name f))) (iter_files lowercase_dockerfile_tree)"
    by code_simp
  then have "has_dockerfile s" using analyze_stack_fields(2) [OF a] by simp
  moreover have "detect_dockerfiles base lowercase_dockerfile_tree = []"
    by (simp add: detect_dockerfiles_def rglob_dockerfile_def matches_in_def
        lowercase_dockerfile_tree_def)
  then have "dockerfiles s = []" using analyze_stack_fields(1) [OF a] by simp
  ultimately show ?thesis using a by simp
qed

lemma vendored_dockerfile_signals:
  assumes "''.git'' \<notin> set base"
  shows "\<exists>s ws. analyze_stack L base (Some vendored_dockerfile_tree) = Inr (s, ws)
     \<and> \<not> has_dockerfile s
     \<and> dockerfiles s = [\<lparr>df_path = ''node_modules/Dockerfile'', df_context = ''node_modules'',
                            df_name = ''node_modules'', df_kind = None\<rparr>]"
proof -
  have "grouped (iter_files vendored_dockerfile_tree) ''package_json'' = []"
    by code_simp
  then obtain s ws where a: "analyze_stack L base (Some vendored_dockerfile_tree) = Inr (s, ws)"
    using no_package_json_returns by blast
  have "\<not> list_ex (\<lambda>f. is_dockerfile_name (lower (w_name f))) (iter_files vendored_dockerfile_tree)"
    by code_simp
  then have "\<not> has_dockerfile s" using analyze_stack_fields(2) [OF a] by simp
  moreover have "detect_dockerfiles base vendored_dockerfile_tree =
      [\<lparr>df_path = ''node_modules/Dockerfile'', df_context = ''node_modules'',
         df_name = ''node_modules'', df_kind = None\<rparr>]"
    using assms
    by (simp add: detect_dockerfiles_def rglob_dockerfile_def matches_in_def dockerfile_info_def
        vendored_dockerfile_tree_def Let_def)
  then have "dockerfiles s = [\<lparr>df_path = ''node_modules/Dockerfile'', df_context = ''node_modules'',
                            df_name = ''node_modules'', df_kind = None\<rparr>]"
    using analyze_stack_fields(1) [OF a] by simp
  ultimately show ?thesis using a by simp
qed

lemma docker_fallback:
  assumes "has_dockerfile stack" and "dockerfiles stack = []"
  shows "[j \<leftarrow> jobs (fst (build_pipeline stack)). job_stage j = ''docker'']
           = [new_job ''docker_build'' ''docker'' (Some ''docker:24'') docker_fallback_script]"
    and "docker_fallback_warning \<in> set (snd (build_pipeline stack))"
  using assms
  by (simp_all add: build_pipeline_parts filter_docker_jobs docker_part_def warnings_registered)

lemma docker_fallback_script_eq:
  "\<exists>line. docker_fallback_script
      = [line, ''docker build -t my-image:latest .'' @ or_echo_daemon_hint]"
  by (simp add: docker_fallback_script_def)

text \<open>
  C10. For a tree of ASCII names and texts whose analysis returns, the flag
  \<open>has_dockerfile\<close> holds exactly when some file with the lowered name \<open>dockerfile\<close>
  or \<open>dockerfile.*\<close> is in a directory reached from the root through no ignored
  directory; the artifact list holds one entry for every match of the glob that has no
  \<open>.git\<close> part in its path, and the glob matches exactly the entries, in any directory
  of the tree, whose name starts with the case-sensitive \<open>Dockerfile\<close>. The two
  disagree: a tree whose only Docker file is named \<open>dockerfile\<close> has the flag and no
  artifact; a tree whose only \<open>Dockerfile\<close> is under \<open>node_modules\<close> has an artifact
  and no flag. With the flag and no artifact, \<open>build_pipeline\<close> emits the single job
  \<open>docker_build\<close>, whose script builds with \<open>docker build -t my-image:latest .\<close>,
  and the warning about the discrepancy.
\<close>

theorem docker_signals_disagree:
  "(ascii_tree es \<and> analyze_stack L base (Some es) = Inr (s, ws) \<longrightarrow>
      (has_dockerfile s \<longleftrightarrow>
         (\<exists>dir cs n t. dir_at es dir cs \<and> set dir \<inter> set IGNORED_DIRS = {} \<and> File n t \<in> set cs
            \<and> (lower n = ''dockerfile'' \<or> prefix ''dockerfile.'' (lower n))))
      \<and> dockerfiles s = concat (map (dockerfile_info base) (rglob_dockerfile es)))
   \<and> ((dir, n) \<in> set (rglob_dockerfile es) \<longleftrightarrow>
        (\<exists>cs e. dir_at es dir cs \<and> e \<in> set cs \<and> node_name e = n \<and> prefix ''Dockerfile'' n))
   \<and> (dockerfile_info base (dir, n) = [] \<longleftrightarrow> ''.git'' \<in> set (base @ dir @ [n]))
   \<and> (\<exists>s' ws'. analyze_stack L base (Some lowercase_dockerfile_tree) = Inr (s', ws')
         \<and> has_dockerfile s' \<and> dockerfiles s' = [])
   \<and> (''.git'' \<notin> set base \<longrightarrow>
        (\<exists>s' ws'. analyze_stack L base (Some vendored_dockerfile_tree) = Inr (s', ws')
           \<and> \<not> has_dockerfile s'
           \<and> dockerfiles s' = [\<lparr>df_path = ''node_modules/Dockerfile'',
                 df_context = ''node_modules'', df_name = ''node_modules'', df_kind = None\<rparr>]))
   \<and> (has_dockerfile stack \<and> dockerfiles stack = [] \<longrightarrow>
        [j \<leftarrow> jobs (fst (build_pipeline stack)). job_stage j = ''docker'']
          = [new_job ''docker_build'' ''docker'' (Some ''docker:24'') docker_fallback_script]
        \<and> docker_fallback_warning \<in> set (snd (build_pipeline stack)))
   \<and> (\<exists>line. docker_fallback_script
          = [line, ''docker build -t my-image:latest .'' @ or_echo_daemon_hint])"
proof -
  have 1: "(has_dockerfile s \<longleftrightarrow>
         (\<exists>dir cs n t. dir_at es dir cs \<and> set dir \<inter> set IGNORED_DIRS = {} \<and> File n t \<in> set cs
            \<and> (lower n = ''dockerfile'' \<or> prefix ''dockerfile.'' (lower n))))
      \<and> dockerfiles s = concat (map (dockerfile_info base) (rglob_dockerfile es))"
    if "analyze_stack L base (Some es) = Inr (s, ws)"
    using analyze_stack_fields(1,2) [OF that]
    by (simp add: detect_dockerfiles_def walked_dockerfile)
  show ?thesis
    apply (intro conjI impI)
    subgoal using 1 by blast
    subgoal using 1 by blast
    subgoal by (rule glob_matches)
    subgoal by (rule dockerfile_info_skip)
    subgoal by (rule lowercase_dockerfile_signals)
    subgoal using vendored_dockerfile_signals by simp
    subgoal using docker_fallback(1) by simp
    subgoal using docker_fallback(2) by simp
    subgoal by (rule docker_fallback_script_eq)
    done
qed

text \<open>
  Witness: a tree with \<^verbatim>\<open>services/api/Dockerfile\<close> and \<^verbatim>\<open>node_modules/dockerfile\<close>,
  analysed below \<open>srv/repo\<close>: the walk reaches the first and sets the flag, the glob
  matches the first and not the second; the vendored tree; and the stack that has the
  flag alone.
\<close>

theorem docker_signals_disagree_witness:
  "analyze_stack silent_lib [''srv'', ''repo''] (Some nested_dockerfile_tree)
     = Inr (StackInfo_default
             \<lparr>has_dockerfile := True,
              dockerfiles := [\<lparr>df_path = ''services/api/Dockerfile'', df_context = ''services/api'',
                               df_name = ''api'', df_kind = None\<rparr>]\<rparr>,
            [no_language_warning])
   \<and> (\<exists>dir cs n t. dir_at nested_dockerfile_tree dir cs \<and> set dir \<inter> set IGNORED_DIRS = {}
          \<and> File n t \<in> set cs \<and> (lower n = ''dockerfile'' \<or> prefix ''dockerfile.'' (lower n)))
   \<and> concat (map (dockerfile_info [''srv'', ''repo'']) (rglob_dockerfile nested_dockerfile_tree))
       = [\<lparr>df_path = ''services/api/Dockerfile'', df_context = ''services/api'',
            df_name = ''api'', df_kind = None\<rparr>]
   \<and> ([''services'', ''api''], ''Dockerfile'') \<in> set (rglob_dockerfile nested_dockerfile_tree)
   \<and> ([''node_modules''], ''dockerfile'') \<notin> set (rglob_dockerfile nested_dockerfile_tree)
   \<and> (\<exists>s' ws'. analyze_stack silent_lib [''srv'', ''repo''] (Some vendored_dockerfile_tree) = Inr (s', ws')
       \<and> \<not> has_dockerfile s'
       \<and> dockerfiles s' = [\<lparr>df_path = ''node_modules/Dockerfile'',
             df_context = ''node_modules'', df_name = ''node_modules'', df_kind = None\<rparr>])
   \<and> [j \<leftarrow> jobs (fst (build_pipeline (StackInfo_default\<lparr>has_dockerfile := True\<rparr>))).
         job_stage j = ''docker'']
       = [new_job ''docker_build'' ''docker'' (Some ''docker:24'') docker_fallback_script]
   \<and> docker_fallback_warning
       \<in> set (snd (build_pipeline (StackInfo_default\<lparr>has_dockerfile := True\<rparr>)))"
proof -
  let ?s = "StackInfo_default\<lparr>has_dockerfile := True\<rparr>"
  let ?x = "StackInfo_default
             \<lparr>has_dockerfile := True,
              dockerfiles := [\<lparr>df_path = ''services/api/Dockerfile'', df_context = ''services/api'',
                               df_name = ''api'', df_kind = None\<rparr>]\<rparr>"
  have e: "analyze_stack silent_lib [''srv'', ''repo''] (Some nested_dockerfile_tree)
     = Inr (?x, [no_language_warning])"
    by code_simp
  have asc: "ascii_tree nested_dockerfile_tree"
    by code_simp
  have dx: "dir_at nested_dockerfile_tree [''services'', ''api'']
              [File ''Dockerfile'' (Some ''FROM alpine'')]"
    by code_simp
  have dn: "\<not> (\<exists>cs e. dir_at nested_dockerfile_tree [''node_modules''] cs \<and> e \<in> set cs
               \<and> node_name e = ''dockerfile'' \<and> prefix ''Dockerfile'' ''dockerfile'')"
    by simp
  note t = docker_signals_disagree [of nested_dockerfile_tree silent_lib "[''srv'', ''repo'']"
      ?x "[no_language_warning]" "[''services'', ''api'']" "''Dockerfile''" ?s]
  note u = docker_signals_disagree [of nested_dockerfile_tree silent_lib "[''srv'', ''repo'']"
      ?x "[no_language_warning]" "[''node_modules'']" "''dockerfile''" ?s]
  have hx: "has_dockerfile ?x" by simp
  from t asc e hx
  have a1: "\<exists>dir cs n t. dir_at nested_dockerfile_tree dir cs \<and> set dir \<inter> set IGNORED_DIRS = {}
          \<and> File n t \<in> set cs \<and> (lower n = ''dockerfile'' \<or> prefix ''dockerfile.'' (lower n))"
    by blast
  from t asc e
  have "dockerfiles ?x
          = concat (map (dockerfile_info [''srv'', ''repo'']) (rglob_dockerfile nested_dockerfile_tree))"
    by blast
  then have a2: "concat (map (dockerfile_info [''srv'', ''repo'']) (rglob_dockerfile nested_dockerfile_tree))
       = [\<lparr>df_path = ''services/api/Dockerfile'', df_context = ''services/api'',
            df_name = ''api'', df_kind = None\<rparr>]"
    by simp
  have "\<exists>cs e. dir_at nested_dockerfile_tree [''services'', ''api''] cs \<and> e \<in> set cs
          \<and> node_name e = ''Dockerfile'' \<and> prefix ''Dockerfile'' ''Dockerfile''"
    using dx by (intro exI [of _ "[File ''Dockerfile'' (Some ''FROM alpine'')]"]
        exI [of _ "File ''Dockerfile'' (Some ''FROM alpine'')"]) simp
  with t have a3: "([''services'', ''api''], ''Dockerfile'') \<in> set (rglob_dockerfile nested_dockerfile_tree)"
    by blast
  from u dn have a4: "([''node_modules''], ''dockerfile'') \<notin> set (rglob_dockerfile nested_dockerfile_tree)"
    by blast
  have h1: "''.git'' \<notin> set [''srv'', ''repo'']" by simp
  have h2: "has_dockerfile ?s \<and> dockerfiles ?s = []" by (simp add: StackInfo_default_def)
  from t h1 have a: "\<exists>s' ws'. analyze_stack silent_lib [''srv'', ''repo''] (Some vendored_dockerfile_tree) = Inr (s', ws')
       \<and> \<not> has_dockerfile s'
       \<and> dockerfiles s' = [\<lparr>df_path = ''node_modules/Dockerfile'',
             df_context = ''node_modules'', df_name = ''node_modules'', df_kind = None\<rparr>]"
    by blast
  from t h2 have b: "[j \<leftarrow> jobs (fst (build_pipeline ?s)). job_stage j = ''docker'']
       = [new_job ''docker_build'' ''docker'' (Some ''docker:24'') docker_fallback_script]"
    and c: "docker_fallback_warning \<in> set (snd (build_pipeline ?s))"
    by blast+
  from e a1 a2 a3 a4 a b c show ?thesis by blast
qed

end
